theory Spec2Isabelle
  imports Complex_Main
begin

section \<open>Wave-function stability analysis (pyscf/scf/stability.py)\<close>

text \<open>
  The module decides whether a converged SCF solution is a local minimum by looking at the
  lowest eigenvalue of the orbital-rotation Hessian, found with the Davidson solver.
  Floating-point numbers are modelled as reals (complex numbers where numpy arrays may
  be complex); an exception of the Python code is the left summand of a result.
\<close>

subsection \<open>Values\<close>

type_synonym vec = "complex list"

datatype pyerr = NotImplementedError | ValueError | IndexError | TypeError

text \<open>
  What \<^verbatim>\<open>lib.davidson\<close> hands back as \<^verbatim>\<open>(e, v)\<close>: a scalar and one vector, or a
  sequence of eigenvalues with the sequence of their vectors.
\<close>

datatype dav = Scalar real vec | Seq "real list" "vec list"

datatype logline = Note string | NoteInt string int | Info string "real list"

type_synonym aop = "vec \<Rightarrow> pyerr + vec"

type_synonym davidson_t =
  "aop \<Rightarrow> vec \<Rightarrow> (vec \<Rightarrow> real \<Rightarrow> vec \<Rightarrow> pyerr + vec) \<Rightarrow> real \<Rightarrow> int \<Rightarrow> pyerr + dav"

definition ebind :: "pyerr + 'a \<Rightarrow> ('a \<Rightarrow> pyerr + 'b) \<Rightarrow> pyerr + 'b" where
  "ebind m f = (case m of Inl err \<Rightarrow> Inl err | Inr x \<Rightarrow> f x)"

subsection \<open>Two-dimensional arrays\<close>

text \<open>
  A two-dimensional numpy array is its shape and its buffer in row-major (C) order;
  \<open>ravel\<close> is the buffer and \<open>reshape\<close> checks the size. An array of numpy always
  satisfies \<open>wf_mat\<close>.
\<close>

record mat =
  nrows :: nat
  ncols :: nat
  dat :: "complex list"

definition wf_mat :: "mat \<Rightarrow> bool" where
  "wf_mat m = (length (dat m) = nrows m * ncols m)"

definition entry :: "mat \<Rightarrow> nat \<Rightarrow> nat \<Rightarrow> complex" where
  "entry m i j = dat m ! (i * ncols m + j)"

definition mk :: "nat \<Rightarrow> nat \<Rightarrow> (nat \<Rightarrow> nat \<Rightarrow> complex) \<Rightarrow> mat" where
  "mk r c f = \<lparr>nrows = r, ncols = c, dat = map (\<lambda>k. f (k div c) (k mod c)) [0..<r * c]\<rparr>"

definition zeros :: "nat \<Rightarrow> nat \<Rightarrow> mat" where
  "zeros r c = \<lparr>nrows = r, ncols = c, dat = replicate (r * c) 0\<rparr>"

definition eye :: "nat \<Rightarrow> mat" where
  "eye n = mk n n (\<lambda>i j. if i = j then 1 else 0)"

definition reshape :: "vec \<Rightarrow> nat \<Rightarrow> nat \<Rightarrow> pyerr + mat" where
  "reshape x r c =
     (if length x = r * c then Inr \<lparr>nrows = r, ncols = c, dat = x\<rparr> else Inl ValueError)"

definition ravel :: "mat \<Rightarrow> vec" where
  "ravel m = dat m"

definition matmul :: "mat \<Rightarrow> mat \<Rightarrow> mat" where
  "matmul a b =
     mk (nrows a) (ncols b) (\<lambda>i j. \<Sum>k\<leftarrow>[0..<ncols a]. entry a i k * entry b k j)"

text \<open>\<^verbatim>\<open>numpy.dot\<close> of two matrices raises unless the inner dimensions agree.\<close>

definition dot :: "mat \<Rightarrow> mat \<Rightarrow> pyerr + mat" where
  "dot a b = (if ncols a = nrows b then Inr (matmul a b) else Inl ValueError)"

text \<open>\<^verbatim>\<open>reduce(numpy.dot, (a, b, c))\<close>\<close>

definition dot3 :: "mat \<Rightarrow> mat \<Rightarrow> mat \<Rightarrow> pyerr + mat" where
  "dot3 a b c = ebind (dot a b) (\<lambda>ab. dot ab c)"

text \<open>\<^verbatim>\<open>a.conj().T\<close>\<close>

definition conjT :: "mat \<Rightarrow> mat" where
  "conjT m = mk (ncols m) (nrows m) (\<lambda>i j. cnj (entry m j i))"

text \<open>\<^verbatim>\<open>a.T\<close>, as the index pattern \<^verbatim>\<open>'qs,ps->pq'\<close> of an einsum reads its first operand.\<close>

definition transp :: "mat \<Rightarrow> mat" where
  "transp m = mk (ncols m) (nrows m) (\<lambda>i j. entry m j i)"

text \<open>
  Elementwise sum and difference. numpy broadcasts operands of different shapes where it
  can and raises otherwise; the code below only combines arrays it has built with one
  shape, and the model refuses every other pair.
\<close>

definition mat_add :: "mat \<Rightarrow> mat \<Rightarrow> pyerr + mat" where
  "mat_add a b =
     (if nrows a = nrows b \<and> ncols a = ncols b
      then Inr \<lparr>nrows = nrows a, ncols = ncols a, dat = map2 (+) (dat a) (dat b)\<rparr>
      else Inl ValueError)"

definition mat_sub :: "mat \<Rightarrow> mat \<Rightarrow> pyerr + mat" where
  "mat_sub a b =
     (if nrows a = nrows b \<and> ncols a = ncols b
      then Inr \<lparr>nrows = nrows a, ncols = ncols a, dat = map2 (-) (dat a) (dat b)\<rparr>
      else Inl ValueError)"

definition scale :: "mat \<Rightarrow> complex \<Rightarrow> mat" where
  "scale m c = m\<lparr>dat := map (\<lambda>z. z * c) (dat m)\<rparr>"

text \<open>\<^verbatim>\<open>a.real\<close> on a buffer.\<close>

definition real_part :: "vec \<Rightarrow> vec" where
  "real_part x = map (\<lambda>z. complex_of_real (Re z)) x"

text \<open>
  \<^verbatim>\<open>x[mask] = 0\<close> for a boolean mask of the shape of \<open>x\<close>, on the buffers; numpy
  raises IndexError for a mask of another size.
\<close>

definition mask_zero :: "'a::zero list \<Rightarrow> bool list \<Rightarrow> pyerr + 'a list" where
  "mask_zero x msk =
     (if length msk = length x then Inr (map2 (\<lambda>b z. if b then 0 else z) msk x)
      else Inl IndexError)"

text \<open>
  \<^verbatim>\<open>x[mask] = values\<close>: the values fill the selected places in row-major order.
\<close>

fun scatter :: "bool list \<Rightarrow> vec \<Rightarrow> vec" where
  "scatter [] ds = []"
| "scatter (False # ms) ds = 0 # scatter ms ds"
| "scatter (True # ms) [] = 0 # scatter ms []"
| "scatter (True # ms) (d # ds) = d # scatter ms ds"

text \<open>\<^verbatim>\<open>m[:, idx]\<close> and \<^verbatim>\<open>m[idx[:,None], idx']\<close> for index arrays.\<close>

definition cols :: "mat \<Rightarrow> nat list \<Rightarrow> pyerr + mat" where
  "cols m idx =
     (if \<forall>j \<in> set idx. j < ncols m
      then Inr (mk (nrows m) (length idx) (\<lambda>i j. entry m i (idx ! j)))
      else Inl IndexError)"

definition submat :: "mat \<Rightarrow> nat list \<Rightarrow> nat list \<Rightarrow> pyerr + mat" where
  "submat m ridx cidx =
     (if (\<forall>i \<in> set ridx. i < nrows m) \<and> (\<forall>j \<in> set cidx. j < ncols m)
      then Inr (mk (length ridx) (length cidx) (\<lambda>i j. entry m (ridx ! i) (cidx ! j)))
      else Inl IndexError)"

text \<open>\<^verbatim>\<open>numpy.where(cond)[0]\<close>: the indices at which the condition holds, ascending.\<close>

definition where_idx :: "('a \<Rightarrow> bool) \<Rightarrow> 'a list \<Rightarrow> nat list" where
  "where_idx P xs = filter (\<lambda>i. P (xs ! i)) [0..<length xs]"

subsection \<open>The orbital rotation generator\<close>

text \<open>
  \<^verbatim>\<open>
  def _rotate_mo(mo_coeff, mo_occ, dx):
      dr = hf.unpack_uniq_var(dx, mo_occ)
      u = newton_ah.expmat(dr)
      return numpy.dot(mo_coeff, u)
  \<close>
  The two helpers live in other modules of the package.
\<close>

text \<open>
  Modelled from the spec: \<^verbatim>\<open>hf.unpack_uniq_var\<close> is not among the source files. The
  spec builds the generator ``by scattering the eigenvector into the occupied-virtual
  block and its negative conjugate transpose into the virtual-occupied block'', for a
  trial vector ``of dimension n_vir x n_occ''; occupied orbitals are those of nonzero
  occupation, virtual ones those of zero occupation. A vector of another size than the
  block is refused.
\<close>

definition uniq_var_indices :: "real list \<Rightarrow> bool list" where
  "uniq_var_indices mo_occ =
     (let nmo = length mo_occ
      in map (\<lambda>k. mo_occ ! (k div nmo) = 0 \<and> mo_occ ! (k mod nmo) \<noteq> 0) [0..<nmo * nmo])"

definition unpack_uniq_var :: "vec \<Rightarrow> real list \<Rightarrow> pyerr + mat" where
  "unpack_uniq_var dx mo_occ =
     (let nmo = length mo_occ; idx = uniq_var_indices mo_occ
      in if length dx \<noteq> length (filter id idx) then Inl ValueError
         else let x1 = \<lparr>nrows = nmo, ncols = nmo, dat = scatter idx dx\<rparr>
              in mat_sub x1 (conjT x1))"

text \<open>
  Modelled from the spec: \<^verbatim>\<open>newton_ah.expmat\<close> is not among the source files. The
  spec asks for ``a matrix exponential (exp(generator))'', which is the series of the
  powers \<open>a ^ k / k!\<close> of a square matrix, taken entry by entry.
\<close>

fun mpow :: "mat \<Rightarrow> nat \<Rightarrow> mat" where
  "mpow a 0 = eye (nrows a)"
| "mpow a (Suc k) = matmul (mpow a k) a"

definition expmat :: "mat \<Rightarrow> pyerr + mat" where
  "expmat a =
     (if nrows a = ncols a
      then Inr (mk (nrows a) (nrows a) (\<lambda>i j. \<Sum>k. entry (mpow a k) i j / fact k))
      else Inl ValueError)"

declare expmat_def [code del]

definition rotate_mo :: "mat \<Rightarrow> real list \<Rightarrow> vec \<Rightarrow> pyerr + mat" where
  "rotate_mo mo_coeff mo_occ dx =
     ebind (unpack_uniq_var dx mo_occ) (\<lambda>dr.
     ebind (expmat dr) (\<lambda>u.
     dot mo_coeff u))"

subsection \<open>The preconditioner\<close>

text \<open>
  Every entry point defines the same nested function
  \<^verbatim>\<open>
  def precond(dx, e, x0):
      hdiagd = hdiag - e
      hdiagd[abs(hdiagd)<1e-8] = 1e-8
      return dx/hdiagd
  \<close>
  over the diagonal of its channel. \<open>np_div\<close> is numpy's division of two
  one-dimensional arrays: elementwise on equal lengths, a length-one operand is
  broadcast, any other pair of lengths raises.
\<close>

definition hdiagd :: "real list \<Rightarrow> real \<Rightarrow> real list" where
  "hdiagd hdiag e =
     map (\<lambda>h. if \<bar>h\<bar> < 1 / 10 ^ 8 then 1 / 10 ^ 8 else h) (map (\<lambda>h. h - e) hdiag)"

definition np_div :: "vec \<Rightarrow> real list \<Rightarrow> pyerr + vec" where
  "np_div dx h =
     (if length dx = length h then Inr (map2 (\<lambda>d x. d / complex_of_real x) dx h)
      else if length h = 1 then Inr (map (\<lambda>d. d / complex_of_real (h ! 0)) dx)
      else if length dx = 1 then Inr (map (\<lambda>x. dx ! 0 / complex_of_real x) h)
      else Inl ValueError)"

definition precond :: "real list \<Rightarrow> vec \<Rightarrow> real \<Rightarrow> vec \<Rightarrow> pyerr + vec" where
  "precond hdiag dx e x0 = np_div dx (hdiagd hdiag e)"

subsection \<open>The SCF object and what the entry points share\<close>

text \<open>
  The SCF solution and its collaborators. A field that is a method of \<^verbatim>\<open>mf\<close> or a
  function of another module holds what the call returns for this \<^verbatim>\<open>mf\<close>:
  \<open>get_orbsym\<close> is \<^verbatim>\<open>get_orbsym(mol, mo_coeff)\<close> of the symmetry module of the
  reference, \<open>gen_g_hop\<close> is \<^verbatim>\<open>newton_ah.gen_g_hop_<ref>(mf, mf.mo_coeff, mf.mo_occ)\<close>
  as a function of its \<^verbatim>\<open>with_symmetry\<close> keyword (\<open>None\<close> when the call gives
  none), \<open>symmetry\<close> is the truth value of \<^verbatim>\<open>mol.symmetry\<close>. The type parameters are
  the coefficient object, the occupation object, the symmetry labels and the density
  object of the reference (a matrix, or a pair of them for the two spins).
\<close>

datatype resp_kw = Singlet "bool option" | With_j bool | Hermi nat

record ('c, 'o, 's, 'd) scf =
  cls :: string
  mo_coeff :: 'c
  mo_occ :: 'o
  mo_energy :: "real list"
  symmetry :: bool
  get_orbsym :: 's
  get_hcore :: mat
  make_rdm1 :: "'c \<Rightarrow> 'o \<Rightarrow> 'd"
  get_veff :: "'d \<Rightarrow> 'd"
  get_fock :: "mat \<Rightarrow> 'd \<Rightarrow> mat"
  gen_response :: "resp_kw list \<Rightarrow> 'd \<Rightarrow> 'd"
  gen_g_hop :: "bool option \<Rightarrow> vec \<times> aop \<times> real list"

text \<open>What an entry point returns: \<^verbatim>\<open>mo\<close>, or \<^verbatim>\<open>(mo, stable)\<close> under \<^verbatim>\<open>return_status\<close>.\<close>

datatype 'm ret = OnlyMo 'm | WithStatus 'm bool

fun ret_mo :: "'m ret \<Rightarrow> 'm" where
  "ret_mo (OnlyMo m) = m"
| "ret_mo (WithStatus m b) = m"

definition ret_of :: "bool \<Rightarrow> 'm \<Rightarrow> bool \<Rightarrow> 'm ret" where
  "ret_of return_status mo stab = (if return_status then WithStatus mo stab else OnlyMo mo)"

definition dump_status :: "bool \<Rightarrow> string \<Rightarrow> string \<Rightarrow> logline" where
  "dump_status stab method_class stab_type =
     (if \<not> stab
      then Note (method_class @ '' wavefunction has an '' @ stab_type @ '' instability'')
      else Note (method_class @ '' wavefunction is stable in the '' @ stab_type @
                 '' stability analysis''))"

text \<open>The eigenvalues as \<^verbatim>\<open>log.info('... lowest eigs of H = %s', e)\<close> prints them.\<close>

definition eigs :: "dav \<Rightarrow> real list" where
  "eigs r = (case r of Scalar e v \<Rightarrow> [e] | Seq es vs \<Rightarrow> es)"

text \<open>
  \<^verbatim>\<open>e, v = e[0], v[0]\<close>, as run under \<^verbatim>\<open>if nroots != 1\<close>. Indexing a numpy scalar or
  an empty sequence raises IndexError.
\<close>

definition first_root :: "dav \<Rightarrow> pyerr + dav" where
  "first_root r =
     (case r of
        Scalar e v \<Rightarrow> Inl IndexError
      | Seq es vs \<Rightarrow>
          (case es of
             [] \<Rightarrow> Inl IndexError
           | e # es' \<Rightarrow> (case vs of [] \<Rightarrow> Inl IndexError | v # vs' \<Rightarrow> Inr (Scalar e v))))"

text \<open>
  The truth value of \<^verbatim>\<open>e < -1e-5\<close>. On an array of eigenvalues the comparison is an
  array of booleans, whose truth value numpy refuses (ValueError) unless it has exactly
  one element.
\<close>

definition below :: "dav \<Rightarrow> pyerr + bool" where
  "below r =
     (case r of
        Scalar e v \<Rightarrow> Inr (e < - (1 / 10 ^ 5))
      | Seq es vs \<Rightarrow> (if length es = 1 then Inr (es ! 0 < - (1 / 10 ^ 5)) else Inl ValueError))"

text \<open>
  The eigenvector as \<^verbatim>\<open>_rotate_mo\<close> takes it: one flat vector. A sequence of vectors
  is not a one-dimensional array, and the scatter of \<^verbatim>\<open>unpack_uniq_var\<close> refuses it.
\<close>

definition vec_of :: "dav \<Rightarrow> pyerr + vec" where
  "vec_of r = (case r of Scalar e v \<Rightarrow> Inr v | Seq es vs \<Rightarrow> Inl TypeError)"

text \<open>\<^verbatim>\<open>numpy.argmin\<close>: the first index of the least entry; an empty array raises.\<close>

fun argmin_from :: "nat \<Rightarrow> real \<Rightarrow> nat \<Rightarrow> real list \<Rightarrow> nat" where
  "argmin_from best bv i [] = best"
| "argmin_from best bv i (x # xs) =
     (if x < bv then argmin_from i x (Suc i) xs else argmin_from best bv (Suc i) xs)"

definition argmin :: "real list \<Rightarrow> pyerr + nat" where
  "argmin xs = (case xs of [] \<Rightarrow> Inl ValueError | x # r \<Rightarrow> Inr (argmin_from 0 x 1 r))"

text \<open>
  The initial guess of the internal channels,
  \<^verbatim>\<open>
  x0 = numpy.zeros_like(g)
  x0[g!=0] = 1. / hdiag[g!=0]
  if not with_symmetry:  # allow to break point group symmetry
      x0[numpy.argmin(hdiag)] = 1
  \<close>
  and of the other channels,
  \<^verbatim>\<open>
  x0 = numpy.zeros_like(hdiag1)
  x0[hdiag1>1e-5] = 1. / hdiag1[hdiag1>1e-5]
  if not with_symmetry:  # allow to break point group symmetry
      x0[numpy.argmin(hdiag1)] = 1
  \<close>
  A mask of another length than the array it indexes raises IndexError. Where the
  diagonal is zero and the gradient is not, numpy stores an infinity; the reals have
  none, and no statement below reads such an entry of the guess.
\<close>

definition x0_internal :: "vec \<Rightarrow> real list \<Rightarrow> bool \<Rightarrow> pyerr + vec" where
  "x0_internal g hdiag with_symmetry =
     (if length g \<noteq> length hdiag then Inl IndexError
      else let x0 = map2 (\<lambda>gi h. if gi \<noteq> 0 then complex_of_real (1 / h) else 0) g hdiag
           in if \<not> with_symmetry then ebind (argmin hdiag) (\<lambda>i. Inr (x0[i := 1]))
              else Inr x0)"

definition x0_external :: "real list \<Rightarrow> bool \<Rightarrow> pyerr + vec" where
  "x0_external hdiag with_symmetry =
     (let x0 = map (\<lambda>h. if h > 1 / 10 ^ 5 then complex_of_real (1 / h) else 0) hdiag
      in if \<not> with_symmetry then ebind (argmin hdiag) (\<lambda>i. Inr (x0[i := 1]))
         else Inr x0)"

text \<open>
  \<^verbatim>\<open>
  def hessian_x(x):
      return hop(x).real * 2
  \<close>
\<close>

definition hessian_x :: "aop \<Rightarrow> vec \<Rightarrow> pyerr + vec" where
  "hessian_x hop x = ebind (hop x) (\<lambda>y. Inr (map (\<lambda>z. complex_of_real (Re z * 2)) y))"

subsection \<open>Hessian-vector products of the external channels: RHF\<close>

text \<open>
  \<^verbatim>\<open>orbsym_v[viridx].reshape(-1,1) != orbsym_o[occidx]\<close>: the buffer of the mask of shape
  \<^verbatim>\<open>(nvir, nocc)\<close> that is true where the two orbitals carry different labels.
\<close>

definition sym_forbid_of :: "int list \<Rightarrow> nat list \<Rightarrow> int list \<Rightarrow> nat list \<Rightarrow> pyerr + bool list" where
  "sym_forbid_of symv viridx symo occidx =
     (if (\<forall>i \<in> set viridx. i < length symv) \<and> (\<forall>j \<in> set occidx. j < length symo)
      then Inr (map (\<lambda>k. symv ! (viridx ! (k div length occidx)) \<noteq>
                          symo ! (occidx ! (k mod length occidx)))
                  [0..<length viridx * length occidx])
      else Inl IndexError)"

text \<open>
  \<^verbatim>\<open>
  if with_symmetry and mol.symmetry:
      x1 = x1.copy()
      x1[sym_forbid] = 0
  \<close>
  The mask is \<open>None\<close> when the condition fails (the builder then never computes it).
\<close>

definition apply_forbid :: "bool list option \<Rightarrow> mat \<Rightarrow> pyerr + mat" where
  "apply_forbid sf x =
     (case sf of None \<Rightarrow> Inr x
      | Some m \<Rightarrow> ebind (mask_zero (dat x) m) (\<lambda>d. Inr (x\<lparr>dat := d\<rparr>)))"

definition apply_forbid_flat :: "bool list option \<Rightarrow> 'a::zero list \<Rightarrow> pyerr + 'a list" where
  "apply_forbid_flat sf x = (case sf of None \<Rightarrow> Inr x | Some m \<Rightarrow> mask_zero x m)"

text \<open>
  \<^verbatim>\<open>fvv.diagonal().reshape(-1,1) - foo.diagonal()\<close>, raveled. The orbitals of a real
  solution give a real Fock matrix; the model keeps complex entries for all matrices
  and reads the diagonal through \<open>Re\<close>.
\<close>

definition diag_diff :: "mat \<Rightarrow> mat \<Rightarrow> real list" where
  "diag_diff fvv foo =
     map (\<lambda>k. Re (entry fvv (k div nrows foo) (k div nrows foo)) -
              Re (entry foo (k mod nrows foo) (k mod nrows foo)))
       [0..<nrows fvv * nrows foo]"

text \<open>
  The two nested operators of \<^verbatim>\<open>_gen_hop_rhf_external\<close>, with the variables they
  capture as arguments.
  \<^verbatim>\<open>
  def hop_real2complex(x1):
      x1 = x1.reshape(nvir,nocc)
      if with_symmetry and mol.symmetry:
          x1 = x1.copy()
          x1[sym_forbid] = 0
      x2 = numpy.einsum('ps,sq->pq', fvv, x1)
      x2-= numpy.einsum('ps,rp->rs', foo, x1)
      d1 = reduce(numpy.dot, (orbv, x1*2, orbo.conj().T))
      dm1 = d1 - d1.conj().T
      v1 = vrespz(dm1)
      x2 += reduce(numpy.dot, (orbv.conj().T, v1, orbo))
      if with_symmetry and mol.symmetry:
          x2[sym_forbid] = 0
      return x2.ravel()
  \<close>
  \<^verbatim>\<open>hop_rhf2uhf\<close> differs in \<^verbatim>\<open>dm1 = d1 + d1.conj().T\<close>, in the response function
  and in returning \<^verbatim>\<open>x2.real.ravel()\<close>.
\<close>

definition hop_real2complex_rhf ::
  "mat \<Rightarrow> mat \<Rightarrow> mat \<Rightarrow> mat \<Rightarrow> (mat \<Rightarrow> mat) \<Rightarrow> bool list option \<Rightarrow> nat \<Rightarrow> nat \<Rightarrow> aop" where
  "hop_real2complex_rhf fvv foo orbv orbo vrespz sf nvir nocc x =
     ebind (reshape x nvir nocc) (\<lambda>x1.
     ebind (apply_forbid sf x1) (\<lambda>x1.
     ebind (dot fvv x1) (\<lambda>a.
     ebind (dot x1 foo) (\<lambda>b.
     ebind (mat_sub a b) (\<lambda>x2.
     ebind (dot3 orbv (scale x1 2) (conjT orbo)) (\<lambda>d1.
     ebind (mat_sub d1 (conjT d1)) (\<lambda>dm1.
     ebind (dot3 (conjT orbv) (vrespz dm1) orbo) (\<lambda>t.
     ebind (mat_add x2 t) (\<lambda>x2.
     ebind (apply_forbid sf x2) (\<lambda>x2.
     Inr (ravel x2)))))))))))"

definition hop_rhf2uhf ::
  "mat \<Rightarrow> mat \<Rightarrow> mat \<Rightarrow> mat \<Rightarrow> (mat \<Rightarrow> mat) \<Rightarrow> bool list option \<Rightarrow> nat \<Rightarrow> nat \<Rightarrow> aop" where
  "hop_rhf2uhf fvv foo orbv orbo vresp1 sf nvir nocc x =
     ebind (reshape x nvir nocc) (\<lambda>x1.
     ebind (apply_forbid sf x1) (\<lambda>x1.
     ebind (dot fvv x1) (\<lambda>a.
     ebind (dot x1 foo) (\<lambda>b.
     ebind (mat_sub a b) (\<lambda>x2.
     ebind (dot3 orbv (scale x1 2) (conjT orbo)) (\<lambda>d1.
     ebind (mat_add d1 (conjT d1)) (\<lambda>dm1.
     ebind (dot3 (conjT orbv) (vresp1 dm1) orbo) (\<lambda>t.
     ebind (mat_add x2 t) (\<lambda>x2.
     ebind (apply_forbid sf x2) (\<lambda>x2.
     Inr (real_part (ravel x2))))))))))))"

text \<open>
  \<^verbatim>\<open>_gen_hop_rhf_external(mf, with_symmetry)\<close> returns
  \<^verbatim>\<open>hop_real2complex, hdiag, hop_rhf2uhf, hdiag\<close>. Occupied orbitals are those of
  occupation 2, virtual ones those of occupation 0.
\<close>

definition gen_hop_rhf_external ::
  "(mat, real list, int list, mat) scf \<Rightarrow> bool \<Rightarrow> pyerr + (aop \<times> real list \<times> aop \<times> real list)" where
  "gen_hop_rhf_external mf with_symmetry =
     (let occidx = where_idx (\<lambda>n. n = 2) (mo_occ mf);
          viridx = where_idx (\<lambda>n. n = 0) (mo_occ mf);
          nocc = length occidx;
          nvir = length viridx
      in ebind (cols (mo_coeff mf) viridx) (\<lambda>orbv.
         ebind (cols (mo_coeff mf) occidx) (\<lambda>orbo.
         ebind (if with_symmetry \<and> symmetry mf
                then ebind (sym_forbid_of (get_orbsym mf) viridx (get_orbsym mf) occidx)
                       (\<lambda>m. Inr (Some m))
                else Inr None) (\<lambda>sf.
         let h1e = get_hcore mf;
             dm0 = make_rdm1 mf (mo_coeff mf) (mo_occ mf)
         in ebind (mat_add h1e (get_veff mf dm0)) (\<lambda>fock_ao.
            ebind (dot3 (conjT (mo_coeff mf)) fock_ao (mo_coeff mf)) (\<lambda>fock.
            ebind (submat fock occidx occidx) (\<lambda>foo.
            ebind (submat fock viridx viridx) (\<lambda>fvv.
            ebind (apply_forbid_flat sf (diag_diff fvv foo)) (\<lambda>hdiag.
            Inr (hop_real2complex_rhf fvv foo orbv orbo
                   (gen_response mf [Singlet None, Hermi 2]) sf nvir nocc,
                 hdiag,
                 hop_rhf2uhf fvv foo orbv orbo
                   (gen_response mf [Singlet (Some False), Hermi 1]) sf nvir nocc,
                 hdiag))))))))))"

subsection \<open>Entry points of the internal channels\<close>

text \<open>
  \<^verbatim>\<open>lib.davidson\<close> is a parameter of every entry point. Each returns its value with the
  lines it logged. The body of \<^verbatim>\<open>rhf_internal\<close> after the guess:
  \<^verbatim>\<open>
  e, v = lib.davidson(hessian_x, x0, precond, tol=tol, verbose=log, nroots=nroots)
  log.info('rhf_internal: lowest eigs of H = %s', e)
  if nroots != 1:
      e, v = e[0], v[0]
  stable = not (e < -1e-5)
  dump_status(log, stable, f'{mf.__class__}', 'internal')
  if stable:
      mo = mf.mo_coeff
  else:
      mo = _rotate_mo(mf.mo_coeff, mf.mo_occ, v)
  if return_status:
      return mo, stable
  else:
      return mo
  \<close>
\<close>

definition rhf_internal ::
  "davidson_t \<Rightarrow> (mat, real list, 's, 'd) scf \<Rightarrow> bool \<Rightarrow> bool \<Rightarrow> int \<Rightarrow> real
     \<Rightarrow> pyerr + (mat ret \<times> logline list)" where
  "rhf_internal davidson mf with_symmetry return_status nroots tol =
     (case gen_g_hop mf (Some with_symmetry) of (g, hop, hdiag0) \<Rightarrow>
      let hdiag = map (\<lambda>h. h * 2) hdiag0 in
      ebind (x0_internal g hdiag with_symmetry) (\<lambda>x0.
      ebind (davidson (hessian_x hop) x0 (precond hdiag) tol nroots) (\<lambda>r.
      let lg = [Info ''rhf_internal: lowest eigs of H = '' (eigs r)] in
      ebind (if nroots \<noteq> 1 then first_root r else Inr r) (\<lambda>r.
      ebind (below r) (\<lambda>b.
      let stab = \<not> b;
          lg = lg @ [dump_status stab (cls mf) ''internal''] in
      ebind (if stab then Inr (mo_coeff mf)
             else ebind (vec_of r) (rotate_mo (mo_coeff mf) (mo_occ mf))) (\<lambda>mo.
      Inr (ret_of return_status mo stab, lg)))))))"

definition rohf_internal ::
  "davidson_t \<Rightarrow> (mat, real list, 's, 'd) scf \<Rightarrow> bool \<Rightarrow> bool \<Rightarrow> int \<Rightarrow> real
     \<Rightarrow> pyerr + (mat ret \<times> logline list)" where
  "rohf_internal davidson mf with_symmetry return_status nroots tol =
     (case gen_g_hop mf (Some with_symmetry) of (g, hop, hdiag0) \<Rightarrow>
      let hdiag = map (\<lambda>h. h * 2) hdiag0 in
      ebind (x0_internal g hdiag with_symmetry) (\<lambda>x0.
      ebind (davidson (hessian_x hop) x0 (precond hdiag) tol nroots) (\<lambda>r.
      let lg = [Info ''rohf_internal: lowest eigs of H = '' (eigs r)] in
      ebind (if nroots \<noteq> 1 then first_root r else Inr r) (\<lambda>r.
      ebind (below r) (\<lambda>b.
      let stab = \<not> b;
          lg = lg @ [dump_status stab (cls mf) ''internal''] in
      ebind (if stab then Inr (mo_coeff mf)
             else ebind (vec_of r) (rotate_mo (mo_coeff mf) (mo_occ mf))) (\<lambda>mo.
      Inr (ret_of return_status mo stab, lg)))))))"

text \<open>
  \<^verbatim>\<open>uhf_internal\<close> rotates the two spin blocks with the two halves of the eigenvector:
  \<^verbatim>\<open>
  nocca = numpy.count_nonzero(mf.mo_occ[0]> 0)
  nvira = numpy.count_nonzero(mf.mo_occ[0]==0)
  mo = (_rotate_mo(mf.mo_coeff[0], mf.mo_occ[0], v[:nocca*nvira]),
        _rotate_mo(mf.mo_coeff[1], mf.mo_occ[1], v[nocca*nvira:]))
  \<close>
\<close>

definition uhf_internal ::
  "davidson_t \<Rightarrow> (mat \<times> mat, real list \<times> real list, 's, 'd) scf \<Rightarrow> bool \<Rightarrow> bool \<Rightarrow> int \<Rightarrow> real
     \<Rightarrow> pyerr + ((mat \<times> mat) ret \<times> logline list)" where
  "uhf_internal davidson mf with_symmetry return_status nroots tol =
     (case gen_g_hop mf (Some with_symmetry) of (g, hop, hdiag0) \<Rightarrow>
      let hdiag = map (\<lambda>h. h * 2) hdiag0 in
      ebind (x0_internal g hdiag with_symmetry) (\<lambda>x0.
      ebind (davidson (hessian_x hop) x0 (precond hdiag) tol nroots) (\<lambda>r.
      let lg = [Info ''uhf_internal: lowest eigs of H = '' (eigs r)] in
      ebind (if nroots \<noteq> 1 then first_root r else Inr r) (\<lambda>r.
      ebind (below r) (\<lambda>b.
      let stab = \<not> b;
          lg = lg @ [dump_status stab (cls mf) ''internal''] in
      ebind (if stab then Inr (mo_coeff mf)
             else ebind (vec_of r) (\<lambda>v.
                  let nocca = length (filter (\<lambda>n. n > 0) (fst (mo_occ mf)));
                      nvira = length (filter (\<lambda>n. n = 0) (fst (mo_occ mf))) in
                  ebind (rotate_mo (fst (mo_coeff mf)) (fst (mo_occ mf)) (take (nocca * nvira) v)) (\<lambda>ma.
                  ebind (rotate_mo (snd (mo_coeff mf)) (snd (mo_occ mf)) (drop (nocca * nvira) v)) (\<lambda>mb.
                  Inr (ma, mb))))) (\<lambda>mo.
      Inr (ret_of return_status mo stab, lg)))))))"

text \<open>
  \<^verbatim>\<open>dhf_stability\<close> always sets the entry of the guess at the least diagonal to 1, and
  goes from the solver's result straight to the comparison:
  \<^verbatim>\<open>
  e, v = lib.davidson(hessian_x, x0, precond, tol=tol, verbose=log, nroots=nroots)
  if e < -1e-5:
      log.note(f'{mf.__class__} wavefunction has an internal instability')
      mo = _rotate_mo(mf.mo_coeff, mf.mo_occ, v)
      stable = False
  else:
      log.note(f'{mf.__class__} wavefunction is stable in the internal '
               'stability analysis')
      mo = mf.mo_coeff
  \<close>
\<close>

definition dhf_stability ::
  "davidson_t \<Rightarrow> (mat, real list, 's, 'd) scf \<Rightarrow> bool \<Rightarrow> int \<Rightarrow> real
     \<Rightarrow> pyerr + (mat ret \<times> logline list)" where
  "dhf_stability davidson mf return_status nroots tol =
     (case gen_g_hop mf None of (g, hop, hdiag0) \<Rightarrow>
      let hdiag = map (\<lambda>h. h * 2) hdiag0 in
      ebind (x0_internal g hdiag False) (\<lambda>x0.
      ebind (davidson (hessian_x hop) x0 (precond hdiag) tol nroots) (\<lambda>r.
      ebind (below r) (\<lambda>b.
      if b then
        ebind (ebind (vec_of r) (rotate_mo (mo_coeff mf) (mo_occ mf))) (\<lambda>mo.
        Inr (ret_of return_status mo False,
             [Note (cls mf @ '' wavefunction has an internal instability'')]))
      else
        Inr (ret_of return_status (mo_coeff mf) True,
             [Note (cls mf @ '' wavefunction is stable in the internal stability analysis'')])))))"

subsection \<open>External channels of RHF and ROHF\<close>

text \<open>
  \<^verbatim>\<open>rhf_external\<close> solves the real -> complex problem, logs its verdict, and solves
  the RHF -> UHF problem from the first eigenvector as guess (\<^verbatim>\<open>x0 = v1\<close>):
  \<^verbatim>\<open>
  stable1 = not (e1 < -1e-5)
  dump_status(log, stable1, f'{mf.__class__}', 'real -> complex')
  ...
  x0 = v1
  e3, v3 = lib.davidson(hop2, x0, precond, tol=tol, verbose=log, nroots=nroots)
  log.info('rhf_external: lowest eigs of H = %s', e3)
  if nroots != 1:
      e3, v3 = e3[0], v3[0]
  stable = not (e3 < -1e-5)
  dump_status(log, stable, f'{mf.__class__}', 'RHF/RKS -> UHF/UKS')
  if stable:
      mo = (mf.mo_coeff, mf.mo_coeff)
  else:
      mo = (_rotate_mo(mf.mo_coeff, mf.mo_occ, v3), mf.mo_coeff)
  \<close>
  The solver of the model takes one guess vector; \<open>vec_of\<close> refuses a sequence of
  vectors, which the solver returns only for \<^verbatim>\<open>nroots != 1\<close>, where the code has
  taken its first element before.
\<close>

definition rhf_external ::
  "davidson_t \<Rightarrow> (mat, real list, int list, mat) scf \<Rightarrow> bool \<Rightarrow> bool \<Rightarrow> int \<Rightarrow> real
     \<Rightarrow> pyerr + ((mat \<times> mat) ret \<times> logline list)" where
  "rhf_external davidson mf with_symmetry return_status nroots tol =
     ebind (gen_hop_rhf_external mf with_symmetry) (\<lambda>(hop1, hdiag1, hop2, hdiag2).
     ebind (x0_external hdiag1 with_symmetry) (\<lambda>x0.
     ebind (davidson hop1 x0 (precond hdiag1) tol nroots) (\<lambda>r1.
     let lg = [Info ''rhf_real2complex: lowest eigs of H = '' (eigs r1)] in
     ebind (if nroots \<noteq> 1 then first_root r1 else Inr r1) (\<lambda>r1.
     ebind (below r1) (\<lambda>b1.
     let stable1 = \<not> b1;
         lg = lg @ [dump_status stable1 (cls mf) ''real -> complex''] in
     ebind (vec_of r1) (\<lambda>x0.
     ebind (davidson hop2 x0 (precond hdiag2) tol nroots) (\<lambda>r3.
     let lg = lg @ [Info ''rhf_external: lowest eigs of H = '' (eigs r3)] in
     ebind (if nroots \<noteq> 1 then first_root r3 else Inr r3) (\<lambda>r3.
     ebind (below r3) (\<lambda>b3.
     let stab = \<not> b3;
         lg = lg @ [dump_status stab (cls mf) ''RHF/RKS -> UHF/UKS''] in
     ebind (if stab then Inr (mo_coeff mf, mo_coeff mf)
            else ebind (vec_of r3) (\<lambda>v3.
                 ebind (rotate_mo (mo_coeff mf) (mo_occ mf) v3) (\<lambda>m.
                 Inr (m, mo_coeff mf)))) (\<lambda>mo.
     Inr (ret_of return_status mo stab, lg)))))))))))"

text \<open>
  \<^verbatim>\<open>
  def rohf_external(mf, with_symmetry=True, verbose=None, return_status=False,
                    nroots=STAB_NROOTS, tol=1e-4):
      raise NotImplementedError
  \<close>
\<close>

definition rohf_external ::
  "davidson_t \<Rightarrow> (mat, real list, 's, 'd) scf \<Rightarrow> bool \<Rightarrow> bool \<Rightarrow> int \<Rightarrow> real
     \<Rightarrow> pyerr + (mat ret \<times> logline list)" where
  "rohf_external davidson mf with_symmetry return_status nroots tol = Inl NotImplementedError"

text \<open>
  The dispatcher returns \<^verbatim>\<open>(mo_i, mo_e)\<close>, or \<^verbatim>\<open>(mo_i, mo_e, stable_i, stable_e)\<close>
  under \<^verbatim>\<open>return_status\<close>; a channel that was not asked for leaves \<^verbatim>\<open>None\<close>.
  \<^verbatim>\<open>
  mo_i = mo_e = None
  if return_status:
      stable_i = stable_e = None
      if internal:
          mo_i, stable_i = rohf_internal(mf, verbose=verbose, return_status=True, nroots=nroots, tol=tol)
      if external:
          mo_e, stable_e = rohf_external(mf, verbose=verbose, return_status=True, nroots=nroots, tol=tol)
      return mo_i, mo_e, stable_i, stable_e
  else:
      if internal:
          mo_i = rohf_internal(mf, verbose=verbose, nroots=nroots, tol=tol)
      if external:
          mo_e = rohf_external(mf, verbose=verbose, nroots=nroots, tol=tol)
      return mo_i, mo_e
  \<close>
  \<open>unpack2\<close> is the assignment of a returned pair to two names.
\<close>

datatype ('i, 'e) stab_ret =
  Ret2 "'i option" "'e option"
| Ret4 "'i option" "'e option" "bool option" "bool option"

definition unpack2 :: "'m ret \<Rightarrow> pyerr + ('m \<times> bool)" where
  "unpack2 r = (case r of WithStatus m s \<Rightarrow> Inr (m, s) | OnlyMo m \<Rightarrow> Inl ValueError)"

definition rohf_stability ::
  "davidson_t \<Rightarrow> (mat, real list, 's, 'd) scf \<Rightarrow> bool \<Rightarrow> bool \<Rightarrow> bool \<Rightarrow> int \<Rightarrow> real
     \<Rightarrow> pyerr + ((mat, mat) stab_ret \<times> logline list)" where
  "rohf_stability davidson mf internal external return_status nroots tol =
     (if return_status then
        ebind (if internal
               then ebind (rohf_internal davidson mf True True nroots tol) (\<lambda>(r, lg).
                    ebind (unpack2 r) (\<lambda>(m, s). Inr (Some m, Some s, lg)))
               else Inr (None, None, [])) (\<lambda>(mo_i, stable_i, lg).
        ebind (if external
               then ebind (rohf_external davidson mf True True nroots tol) (\<lambda>(r, lg').
                    ebind (unpack2 r) (\<lambda>(m, s). Inr (Some m, Some s, lg')))
               else Inr (None, None, [])) (\<lambda>(mo_e, stable_e, lg').
        Inr (Ret4 mo_i mo_e stable_i stable_e, lg @ lg')))
      else
        ebind (if internal
               then ebind (rohf_internal davidson mf True False nroots tol) (\<lambda>(r, lg).
                    Inr (Some (ret_mo r), lg))
               else Inr (None, [])) (\<lambda>(mo_i, lg).
        ebind (if external
               then ebind (rohf_external davidson mf True False nroots tol) (\<lambda>(r, lg').
                    Inr (Some (ret_mo r), lg'))
               else Inr (None, [])) (\<lambda>(mo_e, lg').
        Inr (Ret2 mo_i mo_e, lg @ lg'))))"

subsection \<open>Hessian-vector products of the external channels: UHF\<close>

text \<open>
  The operators of \<^verbatim>\<open>_gen_hop_uhf_external\<close> work on the concatenation of two
  blocks. For the real -> complex channel:
  \<^verbatim>\<open>
  def hop_real2complex(x1):
      if with_symmetry and mol.symmetry:
          x1 = x1.copy()
          x1[sym_forbid1] = 0
      x1a = x1[:nvira*nocca].reshape(nvira,nocca)
      x1b = x1[nvira*nocca:].reshape(nvirb,noccb)
      x2a = numpy.einsum('pr,rq->pq', fvva, x1a)
      x2a-= numpy.einsum('sq,ps->pq', fooa, x1a)
      x2b = numpy.einsum('pr,rq->pq', fvvb, x1b)
      x2b-= numpy.einsum('qs,ps->pq', foob, x1b)
      d1a = reduce(numpy.dot, (orbva, x1a, orboa.conj().T))
      d1b = reduce(numpy.dot, (orbvb, x1b, orbob.conj().T))
      dm1 = numpy.array((d1a-d1a.conj().T, d1b-d1b.conj().T))
      v1 = vrespz(dm1)
      x2a += reduce(numpy.dot, (orbva.conj().T, v1[0], orboa))
      x2b += reduce(numpy.dot, (orbvb.conj().T, v1[1], orbob))
      x2 = numpy.hstack((x2a.ravel(), x2b.ravel()))
      if with_symmetry and mol.symmetry:
          x2[sym_forbid1] = 0
      return x2
  \<close>
  \<^verbatim>\<open>hop_uhf2ghf\<close> couples the virtual orbitals of one spin with the occupied ones of
  the other, builds \<^verbatim>\<open>dm1 = numpy.array((d1ab+d1ba.conj().T, d1ba+d1ab.conj().T))\<close> and
  stacks the real parts. \<^verbatim>\<open>numpy.array\<close> of two matrices needs them of one shape.
\<close>

definition stack2 :: "mat \<Rightarrow> mat \<Rightarrow> pyerr + (mat \<times> mat)" where
  "stack2 a b =
     (if nrows a = nrows b \<and> ncols a = ncols b then Inr (a, b) else Inl ValueError)"

definition hop_real2complex_uhf ::
  "mat \<Rightarrow> mat \<Rightarrow> mat \<Rightarrow> mat \<Rightarrow> mat \<Rightarrow> mat \<Rightarrow> mat \<Rightarrow> mat \<Rightarrow> (mat \<times> mat \<Rightarrow> mat \<times> mat)
     \<Rightarrow> bool list option \<Rightarrow> nat \<Rightarrow> nat \<Rightarrow> nat \<Rightarrow> nat \<Rightarrow> aop" where
  "hop_real2complex_uhf fvva fooa fvvb foob orbva orboa orbvb orbob vrespz sf
       nvira nocca nvirb noccb x =
     ebind (apply_forbid_flat sf x) (\<lambda>x1.
     ebind (reshape (take (nvira * nocca) x1) nvira nocca) (\<lambda>x1a.
     ebind (reshape (drop (nvira * nocca) x1) nvirb noccb) (\<lambda>x1b.
     ebind (dot fvva x1a) (\<lambda>a1.
     ebind (dot x1a fooa) (\<lambda>a2.
     ebind (mat_sub a1 a2) (\<lambda>x2a.
     ebind (dot fvvb x1b) (\<lambda>b1.
     ebind (dot x1b (transp foob)) (\<lambda>b2.
     ebind (mat_sub b1 b2) (\<lambda>x2b.
     ebind (dot3 orbva x1a (conjT orboa)) (\<lambda>d1a.
     ebind (dot3 orbvb x1b (conjT orbob)) (\<lambda>d1b.
     ebind (mat_sub d1a (conjT d1a)) (\<lambda>dma.
     ebind (mat_sub d1b (conjT d1b)) (\<lambda>dmb.
     ebind (stack2 dma dmb) (\<lambda>dm1.
     let v1 = vrespz dm1 in
     ebind (dot3 (conjT orbva) (fst v1) orboa) (\<lambda>ta.
     ebind (mat_add x2a ta) (\<lambda>x2a.
     ebind (dot3 (conjT orbvb) (snd v1) orbob) (\<lambda>tb.
     ebind (mat_add x2b tb) (\<lambda>x2b.
     apply_forbid_flat sf (ravel x2a @ ravel x2b)))))))))))))))))))"

definition hop_uhf2ghf ::
  "mat \<Rightarrow> mat \<Rightarrow> mat \<Rightarrow> mat \<Rightarrow> mat \<Rightarrow> mat \<Rightarrow> mat \<Rightarrow> mat \<Rightarrow> (mat \<times> mat \<Rightarrow> mat \<times> mat)
     \<Rightarrow> bool list option \<Rightarrow> nat \<Rightarrow> nat \<Rightarrow> nat \<Rightarrow> nat \<Rightarrow> aop" where
  "hop_uhf2ghf fvva fooa fvvb foob orbva orboa orbvb orbob vresp1 sf
       nvira nocca nvirb noccb x =
     ebind (apply_forbid_flat sf x) (\<lambda>x1.
     ebind (reshape (take (nvira * noccb) x1) nvira noccb) (\<lambda>x1ab.
     ebind (reshape (drop (nvira * noccb) x1) nvirb nocca) (\<lambda>x1ba.
     ebind (dot fvva x1ab) (\<lambda>a1.
     ebind (dot x1ab foob) (\<lambda>a2.
     ebind (mat_sub a1 a2) (\<lambda>x2ab.
     ebind (dot fvvb x1ba) (\<lambda>b1.
     ebind (dot x1ba (transp fooa)) (\<lambda>b2.
     ebind (mat_sub b1 b2) (\<lambda>x2ba.
     ebind (dot3 orbva x1ab (conjT orbob)) (\<lambda>d1ab.
     ebind (dot3 orbvb x1ba (conjT orboa)) (\<lambda>d1ba.
     ebind (mat_add d1ab (conjT d1ba)) (\<lambda>dma.
     ebind (mat_add d1ba (conjT d1ab)) (\<lambda>dmb.
     ebind (stack2 dma dmb) (\<lambda>dm1.
     let v1 = vresp1 dm1 in
     ebind (dot3 (conjT orbva) (fst v1) orbob) (\<lambda>ta.
     ebind (mat_add x2ab ta) (\<lambda>x2ab.
     ebind (dot3 (conjT orbvb) (snd v1) orboa) (\<lambda>tb.
     ebind (mat_add x2ba tb) (\<lambda>x2ba.
     apply_forbid_flat sf (real_part (ravel x2ab) @ real_part (ravel x2ba))))))))))))))))))))"

text \<open>
  \<^verbatim>\<open>_gen_hop_uhf_external(mf, with_symmetry)\<close> returns
  \<^verbatim>\<open>hop_real2complex, hdiag1, hop_uhf2ghf, hdiag2\<close>. Occupied orbitals of a spin are
  those of positive occupation, virtual ones those of occupation 0; the core
  Hamiltonian is added to the potential of each spin.
\<close>

definition gen_hop_uhf_external ::
  "(mat \<times> mat, real list \<times> real list, int list \<times> int list, mat \<times> mat) scf \<Rightarrow> bool
     \<Rightarrow> pyerr + (aop \<times> real list \<times> aop \<times> real list)" where
  "gen_hop_uhf_external mf with_symmetry =
     (let ca = fst (mo_coeff mf);
          cb = snd (mo_coeff mf);
          occidxa = where_idx (\<lambda>n. n > 0) (fst (mo_occ mf));
          occidxb = where_idx (\<lambda>n. n > 0) (snd (mo_occ mf));
          viridxa = where_idx (\<lambda>n. n = 0) (fst (mo_occ mf));
          viridxb = where_idx (\<lambda>n. n = 0) (snd (mo_occ mf));
          nocca = length occidxa;
          noccb = length occidxb;
          nvira = length viridxa;
          nvirb = length viridxb;
          orbsyma = fst (get_orbsym mf);
          orbsymb = snd (get_orbsym mf)
      in ebind (cols ca occidxa) (\<lambda>orboa.
         ebind (cols cb occidxb) (\<lambda>orbob.
         ebind (cols ca viridxa) (\<lambda>orbva.
         ebind (cols cb viridxb) (\<lambda>orbvb.
         ebind (if with_symmetry \<and> symmetry mf
                then ebind (sym_forbid_of orbsyma viridxa orbsyma occidxa) (\<lambda>sym_forbida.
                     ebind (sym_forbid_of orbsymb viridxb orbsymb occidxb) (\<lambda>sym_forbidb.
                     Inr (Some (sym_forbida @ sym_forbidb))))
                else Inr None) (\<lambda>sym_forbid1.
         let h1e = get_hcore mf;
             dm0 = make_rdm1 mf (mo_coeff mf) (mo_occ mf);
             veff = get_veff mf dm0
         in ebind (mat_add h1e (fst veff)) (\<lambda>fock_ao_a.
            ebind (mat_add h1e (snd veff)) (\<lambda>fock_ao_b.
            ebind (dot3 (conjT ca) fock_ao_a ca) (\<lambda>focka.
            ebind (dot3 (conjT cb) fock_ao_b cb) (\<lambda>fockb.
            ebind (submat focka occidxa occidxa) (\<lambda>fooa.
            ebind (submat focka viridxa viridxa) (\<lambda>fvva.
            ebind (submat fockb occidxb occidxb) (\<lambda>foob.
            ebind (submat fockb viridxb viridxb) (\<lambda>fvvb.
            ebind (apply_forbid_flat sym_forbid1
                     (diag_diff fvva fooa @ diag_diff fvvb foob)) (\<lambda>hdiag1.
            ebind (if with_symmetry \<and> symmetry mf
                   then ebind (sym_forbid_of orbsyma viridxa orbsymb occidxb) (\<lambda>sym_forbidab.
                        ebind (sym_forbid_of orbsymb viridxb orbsyma occidxa) (\<lambda>sym_forbidba.
                        Inr (Some (sym_forbidab @ sym_forbidba))))
                   else Inr None) (\<lambda>sym_forbid2.
            ebind (apply_forbid_flat sym_forbid2
                     (diag_diff fvva foob @ diag_diff fvvb fooa)) (\<lambda>hdiag2.
            Inr (hop_real2complex_uhf fvva fooa fvvb foob orbva orboa orbvb orbob
                   (gen_response mf [With_j False, Hermi 2]) sym_forbid1
                   nvira nocca nvirb noccb,
                 hdiag1,
                 hop_uhf2ghf fvva fooa fvvb foob orbva orboa orbvb orbob
                   (gen_response mf [With_j False, Hermi 0]) sym_forbid2
                   nvira nocca nvirb noccb,
                 hdiag2))))))))))))))))))"

subsection \<open>The external entry point of UHF\<close>

text \<open>\<^verbatim>\<open>scipy.linalg.block_diag\<close> of two matrices.\<close>

definition block_diag :: "mat \<Rightarrow> mat \<Rightarrow> mat" where
  "block_diag a b =
     mk (nrows a + nrows b) (ncols a + ncols b)
       (\<lambda>i j. if i < nrows a \<and> j < ncols a then entry a i j
              else if nrows a \<le> i \<and> ncols a \<le> j then entry b (i - nrows a) (j - ncols a)
              else 0)"

text \<open>
  \<^verbatim>\<open>m[ridx[:,None], cidx] = blk\<close> for index arrays without repetitions (those of
  \<^verbatim>\<open>numpy.where\<close>): an index out of range raises IndexError, a block of another shape
  than the indexed one ValueError.
\<close>

fun pos :: "nat list \<Rightarrow> nat \<Rightarrow> nat option" where
  "pos [] i = None"
| "pos (x # xs) i = (if x = i then Some 0 else map_option Suc (pos xs i))"

definition put_block :: "mat \<Rightarrow> nat list \<Rightarrow> nat list \<Rightarrow> mat \<Rightarrow> pyerr + mat" where
  "put_block m ridx cidx blk =
     (if \<not> ((\<forall>i \<in> set ridx. i < nrows m) \<and> (\<forall>j \<in> set cidx. j < ncols m)) then Inl IndexError
      else if nrows blk \<noteq> length ridx \<or> ncols blk \<noteq> length cidx then Inl ValueError
      else Inr (mk (nrows m) (ncols m)
                  (\<lambda>i j. case pos ridx i of
                            None \<Rightarrow> entry m i j
                          | Some a \<Rightarrow> (case pos cidx j of
                                         None \<Rightarrow> entry m i j
                                       | Some b \<Rightarrow> entry blk a b))))"

text \<open>
  \<^verbatim>\<open>numpy.hstack\<close> of column slices \<^verbatim>\<open>m[:, a:b]\<close> of one matrix: the columns of the
  slices one after the other, a slice ending at the last column at the latest.
\<close>

definition slice :: "nat \<Rightarrow> nat \<Rightarrow> nat \<Rightarrow> nat list" where
  "slice a b n = [a..<min b n]"

definition hstack_cols :: "mat \<Rightarrow> nat list \<Rightarrow> mat" where
  "hstack_cols m js = mk (nrows m) (length js) (\<lambda>i j. entry m i (js ! j))"

text \<open>
  The unstable branch of \<^verbatim>\<open>uhf_external\<close>:
  \<^verbatim>\<open>
  occidxa = numpy.where(mf.mo_occ[0]> 0)[0]
  viridxa = numpy.where(mf.mo_occ[0]==0)[0]
  occidxb = numpy.where(mf.mo_occ[1]> 0)[0]
  viridxb = numpy.where(mf.mo_occ[1]==0)[0]
  nocca = len(occidxa); nvira = len(viridxa); noccb = len(occidxb); nvirb = len(viridxb)
  nmo = nocca + nvira
  dx = numpy.zeros((nmo*2,nmo*2))
  dx[viridxa[:,None],nmo+occidxb] = v[:nvira*noccb].reshape(nvira,noccb)
  dx[nmo+viridxb[:,None],occidxa] = v[nvira*noccb:].reshape(nvirb,nocca)
  u = newton_ah.expmat(dx - dx.conj().T)
  mo = numpy.dot(mo, u)
  mo = numpy.hstack([mo[:,:nocca], mo[:,nmo:nmo+noccb],
                     mo[:,nocca:nmo], mo[:,nmo+noccb:]])
  \<close>
\<close>

definition rotate_uhf2ghf :: "mat \<Rightarrow> real list \<times> real list \<Rightarrow> vec \<Rightarrow> pyerr + mat" where
  "rotate_uhf2ghf mo occ v =
     (let occidxa = where_idx (\<lambda>n. n > 0) (fst occ);
          viridxa = where_idx (\<lambda>n. n = 0) (fst occ);
          occidxb = where_idx (\<lambda>n. n > 0) (snd occ);
          viridxb = where_idx (\<lambda>n. n = 0) (snd occ);
          nocca = length occidxa;
          nvira = length viridxa;
          noccb = length occidxb;
          nvirb = length viridxb;
          nmo = nocca + nvira
      in ebind (reshape (take (nvira * noccb) v) nvira noccb) (\<lambda>blk1.
         ebind (put_block (zeros (nmo * 2) (nmo * 2)) viridxa (map (\<lambda>j. nmo + j) occidxb) blk1) (\<lambda>dx.
         ebind (reshape (drop (nvira * noccb) v) nvirb nocca) (\<lambda>blk2.
         ebind (put_block dx (map (\<lambda>i. nmo + i) viridxb) occidxa blk2) (\<lambda>dx.
         ebind (mat_sub dx (conjT dx)) (\<lambda>gen.
         ebind (expmat gen) (\<lambda>u.
         ebind (dot mo u) (\<lambda>mo.
         Inr (hstack_cols mo
                (slice 0 nocca (ncols mo) @ slice nmo (nmo + noccb) (ncols mo) @
                 slice nocca nmo (ncols mo) @ slice (nmo + noccb) (ncols mo) (ncols mo)))))))))))"

text \<open>
  \<^verbatim>\<open>uhf_external\<close> builds the second guess from \<^verbatim>\<open>hdiag2\<close>; its value starts as
  \<^verbatim>\<open>mo = scipy.linalg.block_diag(*mf.mo_coeff)\<close>.
\<close>

definition uhf_external ::
  "davidson_t \<Rightarrow> (mat \<times> mat, real list \<times> real list, int list \<times> int list, mat \<times> mat) scf
     \<Rightarrow> bool \<Rightarrow> bool \<Rightarrow> int \<Rightarrow> real \<Rightarrow> pyerr + (mat ret \<times> logline list)" where
  "uhf_external davidson mf with_symmetry return_status nroots tol =
     ebind (gen_hop_uhf_external mf with_symmetry) (\<lambda>(hop1, hdiag1, hop2, hdiag2).
     ebind (x0_external hdiag1 with_symmetry) (\<lambda>x0.
     ebind (davidson hop1 x0 (precond hdiag1) tol nroots) (\<lambda>r1.
     let lg = [Info ''uhf_real2complex: lowest eigs of H = '' (eigs r1)] in
     ebind (if nroots \<noteq> 1 then first_root r1 else Inr r1) (\<lambda>r1.
     ebind (below r1) (\<lambda>b1.
     let stable1 = \<not> b1;
         lg = lg @ [dump_status stable1 (cls mf) ''real -> complex''] in
     ebind (x0_external hdiag2 with_symmetry) (\<lambda>x0.
     ebind (davidson hop2 x0 (precond hdiag2) tol nroots) (\<lambda>r3.
     let lg = lg @ [Info ''uhf_external: lowest eigs of H = '' (eigs r3)] in
     ebind (if nroots \<noteq> 1 then first_root r3 else Inr r3) (\<lambda>r3.
     ebind (below r3) (\<lambda>b3.
     let stab = \<not> b3;
         lg = lg @ [dump_status stab (cls mf) ''UHF/UKS -> GHF/GKS''];
         mo = block_diag (fst (mo_coeff mf)) (snd (mo_coeff mf)) in
     ebind (if \<not> stab then ebind (vec_of r3) (rotate_uhf2ghf mo (mo_occ mf)) else Inr mo) (\<lambda>mo.
     Inr (ret_of return_status mo stab, lg)))))))))))"

subsection \<open>GHF: the real -> complex operator and the real entry point\<close>

text \<open>
  \<^verbatim>\<open>_gen_hop_ghf_real2complex\<close> follows the RHF builder with occupied orbitals of
  occupation 1, the Fock matrix of \<^verbatim>\<open>mf.get_fock(h1e, dm=dm0)\<close>, the response
  function of \<^verbatim>\<open>gen_response(with_j=False, hermi=0)\<close> and
  \<^verbatim>\<open>d1 = reduce(numpy.dot, (orbv, x1, orbo.conj().T))\<close>.
\<close>

definition hop_real2complex_ghf ::
  "mat \<Rightarrow> mat \<Rightarrow> mat \<Rightarrow> mat \<Rightarrow> (mat \<Rightarrow> mat) \<Rightarrow> bool list option \<Rightarrow> nat \<Rightarrow> nat \<Rightarrow> aop" where
  "hop_real2complex_ghf fvv foo orbv orbo vrespz sf nvir nocc x =
     ebind (reshape x nvir nocc) (\<lambda>x1.
     ebind (apply_forbid sf x1) (\<lambda>x1.
     ebind (dot fvv x1) (\<lambda>a.
     ebind (dot x1 foo) (\<lambda>b.
     ebind (mat_sub a b) (\<lambda>x2.
     ebind (dot3 orbv x1 (conjT orbo)) (\<lambda>d1.
     ebind (mat_sub d1 (conjT d1)) (\<lambda>dm1.
     ebind (dot3 (conjT orbv) (vrespz dm1) orbo) (\<lambda>t.
     ebind (mat_add x2 t) (\<lambda>x2.
     ebind (apply_forbid sf x2) (\<lambda>x2.
     Inr (ravel x2)))))))))))"

definition gen_hop_ghf_real2complex ::
  "(mat, real list, int list, mat) scf \<Rightarrow> bool \<Rightarrow> pyerr + (aop \<times> real list)" where
  "gen_hop_ghf_real2complex mf with_symmetry =
     (let occidx = where_idx (\<lambda>n. n = 1) (mo_occ mf);
          viridx = where_idx (\<lambda>n. n = 0) (mo_occ mf);
          nocc = length occidx;
          nvir = length viridx
      in ebind (cols (mo_coeff mf) viridx) (\<lambda>orbv.
         ebind (cols (mo_coeff mf) occidx) (\<lambda>orbo.
         ebind (if with_symmetry \<and> symmetry mf
                then ebind (sym_forbid_of (get_orbsym mf) viridx (get_orbsym mf) occidx)
                       (\<lambda>m. Inr (Some m))
                else Inr None) (\<lambda>sf.
         let h1e = get_hcore mf;
             dm0 = make_rdm1 mf (mo_coeff mf) (mo_occ mf);
             fock_ao = get_fock mf h1e dm0
         in ebind (dot3 (conjT (mo_coeff mf)) fock_ao (mo_coeff mf)) (\<lambda>fock.
            ebind (submat fock occidx occidx) (\<lambda>foo.
            ebind (submat fock viridx viridx) (\<lambda>fvv.
            ebind (apply_forbid_flat sf (diag_diff fvv foo)) (\<lambda>hdiag.
            Inr (hop_real2complex_ghf fvv foo orbv orbo
                   (gen_response mf [With_j False, Hermi 0]) sf nvir nocc,
                 hdiag)))))))))"

text \<open>
  \<^verbatim>\<open>ghf_real\<close> runs the internal channel as \<^verbatim>\<open>rhf_internal\<close> does (with
  \<^verbatim>\<open>newton_ah.gen_g_hop_ghf(mf, mf.mo_coeff, mf.mo_occ)\<close>), then the
  real -> complex channel, of which it only logs the verdict:
  \<^verbatim>\<open>
  e2, v2 = lib.davidson(hop_r2c, x0, precond, tol=tol, verbose=log, nroots=nroots)
  log.info('ghf_real2complex: lowest eigs of H = %s', e2)
  if nroots != 1:
      e2, v = e2[0], v[0]
  stable_r2c = not (e2 < -1e-5)
  dump_status(log, stable_r2c, f'{mf.__class__} (real)', 'real -> complex')
  if return_status:
      return mo, stable
  else:
      return mo
  \<close>
  There \<^verbatim>\<open>v[0]\<close> indexes the eigenvector of the internal channel, and raises on an
  empty one.
\<close>

definition first_root_r2c :: "dav \<Rightarrow> dav \<Rightarrow> pyerr + dav" where
  "first_root_r2c r2 r =
     (case r2 of
        Scalar e2 v2 \<Rightarrow> Inl IndexError
      | Seq es vs \<Rightarrow>
          (case es of
             [] \<Rightarrow> Inl IndexError
           | e2 # es' \<Rightarrow>
               (case r of
                  Scalar e v \<Rightarrow> (if v = [] then Inl IndexError else Inr (Scalar e2 []))
                | Seq es0 vs0 \<Rightarrow> (if vs0 = [] then Inl IndexError else Inr (Scalar e2 [])))))"

definition ghf_real ::
  "davidson_t \<Rightarrow> (mat, real list, int list, mat) scf \<Rightarrow> bool \<Rightarrow> bool \<Rightarrow> int \<Rightarrow> real
     \<Rightarrow> pyerr + (mat ret \<times> logline list)" where
  "ghf_real davidson mf with_symmetry return_status nroots tol =
     (case gen_g_hop mf None of (g, hop, hdiag0) \<Rightarrow>
      let hdiag = map (\<lambda>h. h * 2) hdiag0 in
      ebind (x0_internal g hdiag with_symmetry) (\<lambda>x0.
      ebind (davidson (hessian_x hop) x0 (precond hdiag) tol nroots) (\<lambda>r.
      let lg = [Info ''ghf_real_internal: lowest eigs of H = '' (eigs r)] in
      ebind (if nroots \<noteq> 1 then first_root r else Inr r) (\<lambda>r.
      ebind (below r) (\<lambda>b.
      let stab = \<not> b;
          lg = lg @ [dump_status stab (cls mf @ '' (real)'') ''internal''] in
      ebind (if stab then Inr (mo_coeff mf)
             else ebind (vec_of r) (rotate_mo (mo_coeff mf) (mo_occ mf))) (\<lambda>mo.
      ebind (gen_hop_ghf_real2complex mf with_symmetry) (\<lambda>(hop_r2c, hdiag_r2c).
      ebind (x0_external hdiag_r2c with_symmetry) (\<lambda>x0.
      ebind (davidson hop_r2c x0 (precond hdiag_r2c) tol nroots) (\<lambda>r2.
      let lg = lg @ [Info ''ghf_real2complex: lowest eigs of H = '' (eigs r2)] in
      ebind (if nroots \<noteq> 1 then first_root_r2c r2 r else Inr r2) (\<lambda>r2.
      ebind (below r2) (\<lambda>b2.
      let stable_r2c = \<not> b2;
          lg = lg @ [dump_status stable_r2c (cls mf @ '' (real)'') ''real -> complex''] in
      Inr (ret_of return_status mo stab, lg))))))))))))"

subsection \<open>GHF: the complex internal operator and entry point\<close>

text \<open>
  \<^verbatim>\<open>_gen_hop_ghf_complex_internal\<close> takes the Fock blocks from the orbital energies
  (\<^verbatim>\<open>foo = numpy.diag(mo_energy[occidx])\<close>) and works on the pair \<^verbatim>\<open>(X, Y)\<close> of
  shape \<^verbatim>\<open>(2, nocc, nvir)\<close>. Its symmetry mask compares two one-dimensional arrays,
  \<^verbatim>\<open>sym_forbid = orbsym[viridx] != orbsym[occidx]\<close>: numpy compares entry by entry,
  broadcasting an array of length one and raising on other unequal lengths, and the
  mask then selects rows (\<^verbatim>\<open>hdiag[sym_forbid]\<close>, \<^verbatim>\<open>x1[:,sym_forbid]\<close>) or columns
  (\<^verbatim>\<open>v1ov[:,sym_forbid]\<close>), which needs it as long as that axis.
\<close>

definition diag_mat :: "real list \<Rightarrow> mat" where
  "diag_mat es = mk (length es) (length es) (\<lambda>i j. if i = j then complex_of_real (es ! i) else 0)"

definition conj_mat :: "mat \<Rightarrow> mat" where
  "conj_mat m = m\<lparr>dat := map cnj (dat m)\<rparr>"

definition pick :: "'a list \<Rightarrow> nat list \<Rightarrow> pyerr + 'a list" where
  "pick xs idx = (if \<forall>i \<in> set idx. i < length xs then Inr (map (\<lambda>i. xs ! i) idx) else Inl IndexError)"

definition neq_1d :: "int list \<Rightarrow> int list \<Rightarrow> pyerr + bool list" where
  "neq_1d a b =
     (if length a = length b then Inr (map2 (\<lambda>x y. x \<noteq> y) a b)
      else if length b = 1 then Inr (map (\<lambda>x. x \<noteq> b ! 0) a)
      else if length a = 1 then Inr (map (\<lambda>y. a ! 0 \<noteq> y) b)
      else Inl ValueError)"

definition mask_rows :: "bool list option \<Rightarrow> mat \<Rightarrow> pyerr + mat" where
  "mask_rows sf m =
     (case sf of None \<Rightarrow> Inr m
      | Some msk \<Rightarrow>
          if length msk = nrows m
          then Inr (mk (nrows m) (ncols m) (\<lambda>i j. if msk ! i then 0 else entry m i j))
          else Inl IndexError)"

definition mask_cols :: "bool list option \<Rightarrow> mat \<Rightarrow> pyerr + mat" where
  "mask_cols sf m =
     (case sf of None \<Rightarrow> Inr m
      | Some msk \<Rightarrow>
          if length msk = ncols m
          then Inr (mk (nrows m) (ncols m) (\<lambda>i j. if msk ! j then 0 else entry m i j))
          else Inl IndexError)"

text \<open>
  \<^verbatim>\<open>
  def hop(x1):
      x1 = numpy.asarray(x1).reshape(2,nocc,nvir)
      if with_symmetry and mol.symmetry:
          x1 = numpy.copy(x1)
          x1[:,sym_forbid] = 0
      xs, ys = x1
      dms  = lib.einsum('ov,qv,po->pq', xs, orbv.conj(), orbo)
      dms += lib.einsum('ov,pv,qo->pq', ys, orbv, orbo.conj())
      v1ao = vresp(dms)
      v1ov = lib.einsum('pq,po,qv->ov', v1ao, orbo.conj(), orbv)
      v1vo = lib.einsum('pq,qo,pv->ov', v1ao, orbo, orbv.conj())
      v1ov += lib.einsum('qs,sp->qp', xs, fvv)  # AX
      v1ov -= lib.einsum('pr,sp->sr', xs, foo)  # AX
      v1vo += lib.einsum('qs,sp->qp', ys, fvv.conj())  # (A*)Y
      v1vo -= lib.einsum('pr,sp->sr', ys, foo.conj())  # (A*)Y
      if with_symmetry and mol.symmetry:
          v1ov[:,sym_forbid] = 0
          v1vo[:,sym_forbid] = 0
      hx = numpy.hstack((v1ov.ravel(), v1vo.ravel()))
      return hx
  \<close>
  Each einsum is written as the matrix products it denotes.
\<close>

definition hop_ghf_complex ::
  "mat \<Rightarrow> mat \<Rightarrow> mat \<Rightarrow> mat \<Rightarrow> (mat \<Rightarrow> mat) \<Rightarrow> bool list option \<Rightarrow> nat \<Rightarrow> nat \<Rightarrow> aop" where
  "hop_ghf_complex fvv foo orbv orbo vresp sf nvir nocc x =
     (if length x \<noteq> 2 * nocc * nvir then Inl ValueError
      else
        ebind (reshape (take (nocc * nvir) x) nocc nvir) (\<lambda>xs.
        ebind (reshape (drop (nocc * nvir) x) nocc nvir) (\<lambda>ys.
        ebind (mask_rows sf xs) (\<lambda>xs.
        ebind (mask_rows sf ys) (\<lambda>ys.
        ebind (dot3 orbo xs (conjT orbv)) (\<lambda>dms.
        ebind (dot3 orbv (transp ys) (conjT orbo)) (\<lambda>dms'.
        ebind (mat_add dms dms') (\<lambda>dms.
        let v1ao = vresp dms in
        ebind (dot3 (conjT orbo) v1ao orbv) (\<lambda>v1ov.
        ebind (dot3 (conjT orbv) v1ao orbo) (\<lambda>t.
        let v1vo = transp t in
        ebind (dot xs fvv) (\<lambda>a.
        ebind (mat_add v1ov a) (\<lambda>v1ov.
        ebind (dot foo xs) (\<lambda>a.
        ebind (mat_sub v1ov a) (\<lambda>v1ov.
        ebind (dot ys (conj_mat fvv)) (\<lambda>a.
        ebind (mat_add v1vo a) (\<lambda>v1vo.
        ebind (dot (conj_mat foo) ys) (\<lambda>a.
        ebind (mat_sub v1vo a) (\<lambda>v1vo.
        ebind (mask_cols sf v1ov) (\<lambda>v1ov.
        ebind (mask_cols sf v1vo) (\<lambda>v1vo.
        Inr (ravel v1ov @ ravel v1vo)))))))))))))))))))))"

definition gen_hop_ghf_complex_internal ::
  "(mat, real list, int list, mat) scf \<Rightarrow> bool \<Rightarrow> pyerr + (aop \<times> real list)" where
  "gen_hop_ghf_complex_internal mf with_symmetry =
     (let occidx = where_idx (\<lambda>n. n = 1) (mo_occ mf);
          viridx = where_idx (\<lambda>n. n = 0) (mo_occ mf);
          nocc = length occidx;
          nvir = length viridx
      in ebind (cols (mo_coeff mf) viridx) (\<lambda>orbv.
         ebind (cols (mo_coeff mf) occidx) (\<lambda>orbo.
         ebind (if with_symmetry \<and> symmetry mf
                then ebind (pick (get_orbsym mf) viridx) (\<lambda>sv.
                     ebind (pick (get_orbsym mf) occidx) (\<lambda>so.
                     ebind (neq_1d sv so) (\<lambda>m. Inr (Some m))))
                else Inr None) (\<lambda>sf.
         ebind (pick (mo_energy mf) occidx) (\<lambda>eo.
         ebind (pick (mo_energy mf) viridx) (\<lambda>ev.
         let foo = diag_mat eo;
             fvv = diag_mat ev
         in ebind (mask_rows sf (mk nocc nvir (\<lambda>i j. complex_of_real (ev ! j - eo ! i)))) (\<lambda>hd.
            let hdiag = map Re (ravel hd)
            in Inr (hop_ghf_complex fvv foo orbv orbo (gen_response mf [Hermi 0]) sf nvir nocc,
                    hdiag @ hdiag))))))))"

text \<open>
  \<^verbatim>\<open>ghf_complex\<close> sets \<^verbatim>\<open>with_symmetry = True\<close>, calls the builder with its default
  and hands the operator and the diagonal to the solver as they are:
  \<^verbatim>\<open>
  hop, hdiag = _gen_hop_ghf_complex_internal(mf)
  ...
  e, v = lib.davidson(hop, x0, precond, tol=tol, verbose=log, nroots=nroots)
  \<close>
\<close>

definition ghf_complex ::
  "davidson_t \<Rightarrow> (mat, real list, int list, mat) scf \<Rightarrow> bool \<Rightarrow> int \<Rightarrow> real
     \<Rightarrow> pyerr + (mat ret \<times> logline list)" where
  "ghf_complex davidson mf return_status nroots tol =
     (let with_symmetry = True in
      ebind (gen_hop_ghf_complex_internal mf True) (\<lambda>(hop, hdiag).
      ebind (x0_external hdiag with_symmetry) (\<lambda>x0.
      ebind (davidson hop x0 (precond hdiag) tol nroots) (\<lambda>r.
      let lg = [Info ''ghf_complex_internal: lowest eigs of H = '' (eigs r)] in
      ebind (if nroots \<noteq> 1 then first_root r else Inr r) (\<lambda>r.
      ebind (below r) (\<lambda>b.
      let stab = \<not> b;
          lg = lg @ [dump_status stab (cls mf @ '' (complex)'') ''internal''] in
      ebind (if stab then Inr (mo_coeff mf)
             else ebind (vec_of r) (rotate_mo (mo_coeff mf) (mo_occ mf))) (\<lambda>mo.
      Inr (ret_of return_status mo stab, lg))))))))"

subsection \<open>The stabilize-and-reoptimize driver\<close>

text \<open>
  \<^verbatim>\<open>
  def _get_internal_stability_status(mf):
      res = mf.stability(return_status=True)
      if len(res) == 4:
          return res[0], res[2]
      elif len(res) == 2:
          return res

  def stable_opt_internal(mf, max_attempt=10):
      log = logger.new_logger(mf)
      mo1, stable = _get_internal_stability_status(mf)
      cyc = 0
      while (not stable and cyc < max_attempt):
          log.note('Try to optimize orbitals until stable, attempt %d' % cyc)
          dm1 = mf.make_rdm1(mo1, mf.mo_occ)
          mf = mf.run(dm1)
          mo1, stable = _get_internal_stability_status(mf)
          cyc += 1
      if not stable:
          log.note('Stability Opt failed after %d attempts' % cyc)
      return mf
  \<close>
  The SCF object is abstract here; the driver reaches it through three methods:
  \<open>stability\<close> is \<^verbatim>\<open>mf.stability(return_status=True)\<close>, a tuple of four, of two
  or of another length, \<open>rdm1_from\<close> is \<^verbatim>\<open>mf.make_rdm1(mo1, mf.mo_occ)\<close> and
  \<open>run\<close> is \<^verbatim>\<open>mf.run(dm1)\<close>. A status may be \<^verbatim>\<open>None\<close>, which \<^verbatim>\<open>not\<close> reads as
  false. For a tuple of another length the helper returns \<^verbatim>\<open>None\<close>, and unpacking it
  raises TypeError.
\<close>

datatype 'mo status_tuple =
  Tuple4 'mo 'mo "bool option" "bool option"
| Tuple2 'mo "bool option"
| TupleOther

record ('mf, 'mo, 'dm) driver =
  stability :: "'mf \<Rightarrow> pyerr + 'mo status_tuple"
  rdm1_from :: "'mf \<Rightarrow> 'mo \<Rightarrow> 'dm"
  run :: "'mf \<Rightarrow> 'dm \<Rightarrow> 'mf"

definition truthy :: "bool option \<Rightarrow> bool" where
  "truthy b = (case b of None \<Rightarrow> False | Some v \<Rightarrow> v)"

definition get_internal_stability_status ::
  "('mf, 'mo, 'dm) driver \<Rightarrow> 'mf \<Rightarrow> pyerr + ('mo \<times> bool option)" where
  "get_internal_stability_status d mf =
     ebind (stability d mf) (\<lambda>res.
       case res of
         Tuple4 mo_i mo_e stable_i stable_e \<Rightarrow> Inr (mo_i, stable_i)
       | Tuple2 mo_i stable_i \<Rightarrow> Inr (mo_i, stable_i)
       | TupleOther \<Rightarrow> Inl TypeError)"

function stable_loop ::
  "('mf, 'mo, 'dm) driver \<Rightarrow> int \<Rightarrow> 'mf \<Rightarrow> 'mo \<Rightarrow> bool option \<Rightarrow> int \<Rightarrow> logline list
     \<Rightarrow> pyerr + ('mf \<times> 'mo \<times> bool option \<times> int \<times> logline list)" where
  "stable_loop d max_attempt mf mo1 stab cyc lg =
     (if \<not> truthy stab \<and> cyc < max_attempt then
        (case get_internal_stability_status d (run d mf (rdm1_from d mf mo1)) of
           Inl err \<Rightarrow> Inl err
         | Inr (mo1', stab') \<Rightarrow>
             stable_loop d max_attempt (run d mf (rdm1_from d mf mo1)) mo1' stab' (cyc + 1)
               (lg @ [NoteInt ''Try to optimize orbitals until stable, attempt %d'' cyc]))
      else Inr (mf, mo1, stab, cyc, lg))"
  by pat_completeness auto
termination
  by (relation "measure (\<lambda>(d, max_attempt, mf, mo1, stab, cyc, lg). nat (max_attempt - cyc))") auto

declare stable_loop.simps [simp del]

definition stable_opt_internal ::
  "('mf, 'mo, 'dm) driver \<Rightarrow> 'mf \<Rightarrow> int \<Rightarrow> pyerr + ('mf \<times> logline list)" where
  "stable_opt_internal d mf max_attempt =
     ebind (get_internal_stability_status d mf) (\<lambda>(mo1, stab).
     ebind (stable_loop d max_attempt mf mo1 stab 0 []) (\<lambda>(mf', mo1', stab', cyc, lg).
     Inr (mf', if \<not> truthy stab'
               then lg @ [NoteInt ''Stability Opt failed after %d attempts'' cyc]
               else lg)))"

subsection \<open>Notions for stating the properties of the driver\<close>

text \<open>
  One re-optimization: the solution that \<^verbatim>\<open>mf.run\<close> returns from the density of the
  orbitals the stability query proposes; whether the query calls a solution unstable
  (\<^verbatim>\<open>not stable\<close>); and the notes of \<open>n\<close> attempts counted from \<open>cyc\<close>.
\<close>

definition reopt :: "('mf, 'mo, 'dm) driver \<Rightarrow> 'mf \<Rightarrow> 'mf" where
  "reopt d mf =
     (case get_internal_stability_status d mf of
        Inl err \<Rightarrow> mf
      | Inr (mo1, stab) \<Rightarrow> run d mf (rdm1_from d mf mo1))"

definition unstable_at :: "('mf, 'mo, 'dm) driver \<Rightarrow> 'mf \<Rightarrow> bool" where
  "unstable_at d mf =
     (case get_internal_stability_status d mf of
        Inl err \<Rightarrow> False
      | Inr (mo1, stab) \<Rightarrow> \<not> truthy stab)"

definition attempt_notes :: "int \<Rightarrow> nat \<Rightarrow> logline list" where
  "attempt_notes cyc n =
     map (\<lambda>k. NoteInt ''Try to optimize orbitals until stable, attempt %d'' (cyc + int k)) [0..<n]"

text \<open>
  An example: solutions are numbered, solution \<open>m\<close> is stable from \<open>m = 3\<close> on, and a
  re-optimization leads from one solution to the next.
\<close>

definition ex_driver :: "(nat, nat, nat) driver" where
  "ex_driver = \<lparr>stability = (\<lambda>m. Inr (Tuple4 m m (Some (3 \<le> m)) None)),
                 rdm1_from = (\<lambda>m mo. mo),
                 run = (\<lambda>m dm. Suc dm)\<rparr>"

subsection \<open>Notions for stating the properties of the entry points\<close>

text \<open>
  The lowest eigenvalue of a solver result and its vector: the scalar form itself, or
  the first element of the ascending sequence. \<open>solved\<close> says that \<open>r\<close> is an answer
  of the solver, under the tolerance and root count of the call, whose eigenvalues the
  entry point logged under the given heading.
\<close>

definition lowest_eig :: "dav \<Rightarrow> real option" where
  "lowest_eig r =
     (case r of Scalar e v \<Rightarrow> Some e
      | Seq es vs \<Rightarrow> (case es of [] \<Rightarrow> None | e # es' \<Rightarrow> Some e))"

definition lowest_vec :: "dav \<Rightarrow> vec option" where
  "lowest_vec r =
     (case r of Scalar e v \<Rightarrow> Some v
      | Seq es vs \<Rightarrow> (case vs of [] \<Rightarrow> None | v # vs' \<Rightarrow> Some v))"

definition solved :: "davidson_t \<Rightarrow> real \<Rightarrow> int \<Rightarrow> logline list \<Rightarrow> string \<Rightarrow> dav \<Rightarrow> bool" where
  "solved D tol n lg heading r =
     ((\<exists>aop x0 pre. D aop x0 pre tol n = Inr r) \<and> Info heading (eigs r) \<in> set lg)"

subsection \<open>Notions for stating the symmetry projection\<close>

text \<open>
  A trial vector whose nonzero entries all lie at positions the mask forbids, and a
  vector that is zero at every forbidden position.
\<close>

definition forbidden_only :: "bool list \<Rightarrow> vec \<Rightarrow> bool" where
  "forbidden_only m x = (length x = length m \<and> (\<forall>i < length x. x ! i \<noteq> 0 \<longrightarrow> m ! i))"

definition zero_where :: "bool list \<Rightarrow> vec \<Rightarrow> bool" where
  "zero_where m y = (length y = length m \<and> (\<forall>i < length m. m ! i \<longrightarrow> y ! i = 0))"

subsection \<open>Examples\<close>

text \<open>
  A solver for the examples: it applies the operator to the first unit vector of the
  dimension of the guess and returns the first entry of the image as lowest eigenvalue
  (exact for a diagonal operator whose first entry is its least), as a scalar for one
  root and as three ascending eigenvalues otherwise.
\<close>

definition ex_davidson :: davidson_t where
  "ex_davidson aop x0 pre tol nroots =
     (let u = 1 # replicate (length x0 - 1) 0
      in ebind (aop u) (\<lambda>y.
           Inr (if nroots = 1 then Scalar (Re (hd y)) u
                else Seq [Re (hd y), Re (hd y) + 1, Re (hd y) + 2] [u, u, u])))"

text \<open>
  Two orbitals in an orthonormal basis, the first doubly occupied; the Fock matrix is
  diagonal with entries -1 and 1; the response to an anti-Hermitian density is three
  times its negative, every other response is zero; the internal operator is the
  identity. The second example labels the two orbitals with different symmetries.
\<close>

definition ex_rhf :: "(mat, real list, int list, mat) scf" where
  "ex_rhf =
     \<lparr>cls = ''RHF'',
      mo_coeff = \<lparr>nrows = 2, ncols = 2, dat = [1, 0, 0, 1]\<rparr>,
      mo_occ = [2, 0],
      mo_energy = [- 1, 1],
      symmetry = False,
      get_orbsym = [0, 1],
      get_hcore = \<lparr>nrows = 2, ncols = 2, dat = [- 1, 0, 0, 1]\<rparr>,
      make_rdm1 = (\<lambda>c occ. \<lparr>nrows = 2, ncols = 2, dat = [2, 0, 0, 0]\<rparr>),
      get_veff = (\<lambda>d. \<lparr>nrows = 2, ncols = 2, dat = [0, 0, 0, 0]\<rparr>),
      get_fock = (\<lambda>h d. h),
      gen_response = (\<lambda>kw d. if Hermi 1 \<in> set kw then scale d 0 else scale d (- 3)),
      gen_g_hop = (\<lambda>kw. ([1], (\<lambda>x. Inr x), [1]))\<rparr>"

definition ex_rhf_sym :: "(mat, real list, int list, mat) scf" where
  "ex_rhf_sym = ex_rhf\<lparr>symmetry := True\<rparr>"

text \<open>The same orbitals as a GHF solution, the first orbital singly occupied.\<close>

definition ex_ghf :: "(mat, real list, int list, mat) scf" where
  "ex_ghf = ex_rhf\<lparr>cls := ''GHF'', mo_occ := [1, 0], gen_response := (\<lambda>kw d. scale d 0)\<rparr>"

text \<open>
  A UHF solution of the same kind: both spins have the orbitals and the Fock matrix of
  the first example, and the response is zero but for anti-Hermitian densities.
\<close>

definition ex_uhf ::
  "(mat \<times> mat, real list \<times> real list, int list \<times> int list, mat \<times> mat) scf" where
  "ex_uhf =
     \<lparr>cls = ''UHF'',
      mo_coeff = (\<lparr>nrows = 2, ncols = 2, dat = [1, 0, 0, 1]\<rparr>,
                  \<lparr>nrows = 2, ncols = 2, dat = [1, 0, 0, 1]\<rparr>),
      mo_occ = ([1, 0], [1, 0]),
      mo_energy = [- 1, 1],
      symmetry = False,
      get_orbsym = ([0, 1], [0, 1]),
      get_hcore = \<lparr>nrows = 2, ncols = 2, dat = [- 1, 0, 0, 1]\<rparr>,
      make_rdm1 = (\<lambda>c occ. (\<lparr>nrows = 2, ncols = 2, dat = [1, 0, 0, 0]\<rparr>,
                              \<lparr>nrows = 2, ncols = 2, dat = [1, 0, 0, 0]\<rparr>)),
      get_veff = (\<lambda>d. (\<lparr>nrows = 2, ncols = 2, dat = [0, 0, 0, 0]\<rparr>,
                        \<lparr>nrows = 2, ncols = 2, dat = [0, 0, 0, 0]\<rparr>)),
      get_fock = (\<lambda>h d. h),
      gen_response = (\<lambda>kw d. if Hermi 2 \<in> set kw then (scale (fst d) (- 3), scale (snd d) (- 3))
                             else (scale (fst d) 0, scale (snd d) 0)),
      gen_g_hop = (\<lambda>kw. ([1, 1], (\<lambda>x. Inr x), [1, 1]))\<rparr>"

definition ex_uhf_sym ::
  "(mat \<times> mat, real list \<times> real list, int list \<times> int list, mat \<times> mat) scf" where
  "ex_uhf_sym = ex_uhf\<lparr>symmetry := True\<rparr>"

text \<open>
  The masks of the builders: \<^verbatim>\<open>sym_forbid\<close> of \<^verbatim>\<open>_gen_hop_rhf_external\<close> and of
  \<^verbatim>\<open>_gen_hop_ghf_real2complex\<close>, \<^verbatim>\<open>sym_forbid1\<close> and \<^verbatim>\<open>sym_forbid2\<close> of
  \<^verbatim>\<open>_gen_hop_uhf_external\<close>.
\<close>

definition rhf_forbid :: "(mat, real list, int list, mat) scf \<Rightarrow> pyerr + bool list" where
  "rhf_forbid mf =
     sym_forbid_of (get_orbsym mf) (where_idx (\<lambda>n. n = 0) (mo_occ mf))
       (get_orbsym mf) (where_idx (\<lambda>n. n = 2) (mo_occ mf))"

definition ghf_forbid :: "(mat, real list, int list, mat) scf \<Rightarrow> pyerr + bool list" where
  "ghf_forbid mf =
     sym_forbid_of (get_orbsym mf) (where_idx (\<lambda>n. n = 0) (mo_occ mf))
       (get_orbsym mf) (where_idx (\<lambda>n. n = 1) (mo_occ mf))"

definition uhf_forbid1 ::
  "(mat \<times> mat, real list \<times> real list, int list \<times> int list, mat \<times> mat) scf
     \<Rightarrow> pyerr + bool list" where
  "uhf_forbid1 mf =
     ebind (sym_forbid_of (fst (get_orbsym mf)) (where_idx (\<lambda>n. n = 0) (fst (mo_occ mf)))
              (fst (get_orbsym mf)) (where_idx (\<lambda>n. n > 0) (fst (mo_occ mf)))) (\<lambda>sym_forbida.
     ebind (sym_forbid_of (snd (get_orbsym mf)) (where_idx (\<lambda>n. n = 0) (snd (mo_occ mf)))
              (snd (get_orbsym mf)) (where_idx (\<lambda>n. n > 0) (snd (mo_occ mf)))) (\<lambda>sym_forbidb.
     Inr (sym_forbida @ sym_forbidb)))"

definition uhf_forbid2 ::
  "(mat \<times> mat, real list \<times> real list, int list \<times> int list, mat \<times> mat) scf
     \<Rightarrow> pyerr + bool list" where
  "uhf_forbid2 mf =
     ebind (sym_forbid_of (fst (get_orbsym mf)) (where_idx (\<lambda>n. n = 0) (fst (mo_occ mf)))
              (snd (get_orbsym mf)) (where_idx (\<lambda>n. n > 0) (snd (mo_occ mf)))) (\<lambda>sym_forbidab.
     ebind (sym_forbid_of (snd (get_orbsym mf)) (where_idx (\<lambda>n. n = 0) (snd (mo_occ mf)))
              (fst (get_orbsym mf)) (where_idx (\<lambda>n. n > 0) (fst (mo_occ mf)))) (\<lambda>sym_forbidba.
     Inr (sym_forbidab @ sym_forbidba)))"

text \<open>The GHF example with symmetry labels.\<close>

definition ex_ghf_sym :: "(mat, real list, int list, mat) scf" where
  "ex_ghf_sym = ex_ghf\<lparr>symmetry := True\<rparr>"

text \<open>
  A solver that reports what it was handed: the image of \<open>x\<close> under the operator and
  the preconditioned \<open>dx\<close> at the estimate 0, as its list of eigenvalues.
\<close>

definition probe_davidson :: "vec \<Rightarrow> vec \<Rightarrow> davidson_t" where
  "probe_davidson x dx aop x0 pre tol nroots =
     ebind (aop x) (\<lambda>y.
     ebind (pre dx 0 x0) (\<lambda>p.
     Inr (Seq (map Re (y @ p)) [x])))"

text \<open>
  The RHF and the UHF example with the responses exchanged: the response to a
  Hermitian density (RHF), to a density of no symmetry (UHF), is three times its
  negative and every other response is zero, so that the solver of the examples finds
  the eigenvalue 2 for the real -> complex operator and a negative one (-4, -1) for the
  operator of the reference extension.
\<close>

definition ex_rhf_triplet :: "(mat, real list, int list, mat) scf" where
  "ex_rhf_triplet =
     ex_rhf\<lparr>gen_response := (\<lambda>kw d. if Hermi 1 \<in> set kw then scale d (- 3) else scale d 0)\<rparr>"

definition ex_uhf_flip ::
  "(mat \<times> mat, real list \<times> real list, int list \<times> int list, mat \<times> mat) scf" where
  "ex_uhf_flip =
     ex_uhf\<lparr>gen_response := (\<lambda>kw d. if Hermi 0 \<in> set kw then (scale (fst d) (- 3), scale (snd d) (- 3))
                             else (scale (fst d) 0, scale (snd d) 0))\<rparr>"

text \<open>A solver that raises whenever it is called.\<close>

definition failing_davidson :: davidson_t where
  "failing_davidson aop x0 pre tol nroots = Inl ValueError"

section \<open>Properties\<close>

subsection \<open>Properties of the preconditioner\<close>

lemma hdiagd_length: "length (hdiagd hdiag e) = length hdiag"
  by (simp add: hdiagd_def)

lemma hdiagd_nth:
  "i < length hdiag \<Longrightarrow>
   hdiagd hdiag e ! i =
     (if \<bar>hdiag ! i - e\<bar> < 1 / 10 ^ 8 then 1 / 10 ^ 8 else hdiag ! i - e)"
  by (simp add: hdiagd_def)

lemma hdiagd_floor: "i < length hdiag \<Longrightarrow> 1 / 10 ^ 8 \<le> \<bar>hdiagd hdiag e ! i\<bar>"
  by (simp add: hdiagd_nth)

text \<open>
  C8. The divisor of the preconditioner is the diagonal minus the eigenvalue estimate,
  with every entry of magnitude below 1e-8 replaced by 1e-8: each divisor has magnitude
  at least 1e-8 (so is not zero), and on operands of equal length the result is the
  residual divided entry by entry by that divisor.
\<close>

theorem precond_divisor_floored:
  "precond hdiag dx e x0 = np_div dx (hdiagd hdiag e) \<and>
   length (hdiagd hdiag e) = length hdiag \<and>
   (\<forall>i < length hdiag.
      hdiagd hdiag e ! i =
        (if \<bar>hdiag ! i - e\<bar> < 1 / 10 ^ 8 then 1 / 10 ^ 8 else hdiag ! i - e) \<and>
      1 / 10 ^ 8 \<le> \<bar>hdiagd hdiag e ! i\<bar> \<and> hdiagd hdiag e ! i \<noteq> 0) \<and>
   (length dx = length hdiag \<longrightarrow>
      (\<exists>r. precond hdiag dx e x0 = Inr r \<and> length r = length hdiag \<and>
        (\<forall>i < length hdiag. r ! i = dx ! i / complex_of_real (hdiagd hdiag e ! i))))"
proof -
  have nz: "hdiagd hdiag e ! i \<noteq> 0" if "i < length hdiag" for i
    using hdiagd_floor [OF that, of e] by auto
  have "\<exists>r. precond hdiag dx e x0 = Inr r \<and> length r = length hdiag \<and>
        (\<forall>i < length hdiag. r ! i = dx ! i / complex_of_real (hdiagd hdiag e ! i))"
    if "length dx = length hdiag"
    using that by (simp add: precond_def np_div_def hdiagd_length)
  then show ?thesis
    using nz by (simp add: precond_def hdiagd_length hdiagd_nth hdiagd_floor)
qed

theorem precond_divisor_floored_witness:
  "precond [1, 3] [2, 6] 1 [] = Inr [200000000, 3] \<and>
   hdiagd [1, 3] 1 = [1 / 10 ^ 8, 2]"
  using precond_divisor_floored [of "[1, 3]" "[2, 6]" 1 "[]"]
  by (simp add: precond_def np_div_def hdiagd_def)

subsection \<open>The driver\<close>

lemma attempt_notes_Suc:
  "NoteInt ''Try to optimize orbitals until stable, attempt %d'' cyc # attempt_notes (cyc + 1) n
     = attempt_notes cyc (Suc n)"
proof -
  have "[0..<Suc n] = 0 # map Suc [0..<n]"
    by (simp add: upt_conv_Cons map_Suc_upt del: upt_Suc)
  then show ?thesis
    by (simp add: attempt_notes_def o_def add.commute add.left_commute del: upt_Suc)
qed

lemma stable_loop_run:
  shows "\<forall>m. \<exists>t. get_internal_stability_status d m = Inr t \<Longrightarrow>
     get_internal_stability_status d mf = Inr (mo1, stab) \<Longrightarrow>
     \<exists>n mo' stab'.
       stable_loop d M mf mo1 stab cyc lg =
         Inr ((reopt d ^^ n) mf, mo', stab', cyc + int n, lg @ attempt_notes cyc n) \<and>
       get_internal_stability_status d ((reopt d ^^ n) mf) = Inr (mo', stab') \<and>
       (\<forall>k<n. unstable_at d ((reopt d ^^ k) mf)) \<and>
       (truthy stab' \<or> M \<le> cyc + int n) \<and>
       (cyc \<le> M \<longrightarrow> cyc + int n \<le> M) \<and> (M < cyc \<longrightarrow> n = 0)"
proof (induction d M mf mo1 stab cyc lg rule: stable_loop.induct)
  case (1 d M mf mo1 stab cyc lg)
  note ok = "1.prems"(1) and cur = "1.prems"(2)
  show ?case
  proof (cases "\<not> truthy stab \<and> cyc < M")
    case False
    have "stable_loop d M mf mo1 stab cyc lg = Inr (mf, mo1, stab, cyc, lg)"
      using False by (subst stable_loop.simps) auto
    then show ?thesis
      using False cur
      by (intro exI [of _ 0] exI [of _ mo1] exI [of _ stab]) (auto simp: attempt_notes_def)
  next
    case True
    define mf' where "mf' = run d mf (rdm1_from d mf mo1)"
    obtain mo1' stab' where st: "get_internal_stability_status d mf' = Inr (mo1', stab')"
      using ok by (metis surj_pair)
    have re: "reopt d mf = mf'"
      using cur by (simp add: reopt_def mf'_def)
    have un: "unstable_at d mf"
      using cur True by (simp add: unstable_at_def)
    from "1.IH" [OF True st [unfolded mf'_def] refl ok st [unfolded mf'_def]]
    obtain n mo'' stab'' where
      ih: "stable_loop d M mf' mo1' stab' (cyc + 1)
             (lg @ [NoteInt ''Try to optimize orbitals until stable, attempt %d'' cyc]) =
           Inr ((reopt d ^^ n) mf', mo'', stab'', cyc + 1 + int n,
                (lg @ [NoteInt ''Try to optimize orbitals until stable, attempt %d'' cyc]) @
                attempt_notes (cyc + 1) n)"
      and st': "get_internal_stability_status d ((reopt d ^^ n) mf') = Inr (mo'', stab'')"
      and un': "\<forall>k<n. unstable_at d ((reopt d ^^ k) mf')"
      and ex: "truthy stab'' \<or> M \<le> cyc + 1 + int n"
      and le: "cyc + 1 \<le> M \<longrightarrow> cyc + 1 + int n \<le> M"
      unfolding mf'_def by blast
    have step: "stable_loop d M mf mo1 stab cyc lg =
        stable_loop d M mf' mo1' stab' (cyc + 1)
          (lg @ [NoteInt ''Try to optimize orbitals until stable, attempt %d'' cyc])"
      using True st by (subst stable_loop.simps) (simp add: mf'_def)
    have pw: "(reopt d ^^ k) mf' = (reopt d ^^ Suc k) mf" for k
      by (simp add: funpow_swap1 re)
    have un2: "\<forall>k<Suc n. unstable_at d ((reopt d ^^ k) mf)"
    proof (intro allI impI)
      fix k assume "k < Suc n"
      then show "unstable_at d ((reopt d ^^ k) mf)"
        using un un' pw by (cases k) (auto simp del: funpow.simps)
    qed
    show ?thesis
      apply (intro exI [of _ "Suc n"] exI [of _ mo''] exI [of _ stab''])
      unfolding step ih
      using st' ex le True un2
      by (simp add: pw attempt_notes_Suc add.assoc del: funpow.simps)
  qed
qed


text \<open>
  C3. When every stability query returns a tuple of two or of four,
  \<^verbatim>\<open>stable_opt_internal\<close> returns (it never raises) the solution reached after \<open>n\<close>
  re-optimizations, where \<open>n\<close> is at most \<^verbatim>\<open>max_attempt\<close> (and 0 for a negative
  \<^verbatim>\<open>max_attempt\<close>): every solution before the returned one was unstable, the counter
  that the notes print runs from 0 to \<open>n - 1\<close>, and a returned solution that is still
  unstable means that the budget is used up, which is only logged.
\<close>

theorem stable_opt_internal_bounded:
  assumes "\<forall>m. \<exists>t. get_internal_stability_status d m = Inr t"
  shows "\<exists>n. stable_opt_internal d mf max_attempt =
            Inr ((reopt d ^^ n) mf,
                 attempt_notes 0 n @
                 (if unstable_at d ((reopt d ^^ n) mf)
                  then [NoteInt ''Stability Opt failed after %d attempts'' (int n)] else [])) \<and>
          int n \<le> max 0 max_attempt \<and>
          (\<forall>k<n. unstable_at d ((reopt d ^^ k) mf)) \<and>
          (unstable_at d ((reopt d ^^ n) mf) \<longrightarrow> int n = max 0 max_attempt)"
proof -
  obtain mo1 stab where st: "get_internal_stability_status d mf = Inr (mo1, stab)"
    using assms by (metis surj_pair)
  from stable_loop_run [OF assms st, of max_attempt 0 "[]"]
  obtain n mo' stab' where
    run: "stable_loop d max_attempt mf mo1 stab 0 [] =
            Inr ((reopt d ^^ n) mf, mo', stab', 0 + int n, [] @ attempt_notes 0 n)"
    and st': "get_internal_stability_status d ((reopt d ^^ n) mf) = Inr (mo', stab')"
    and un: "\<forall>k<n. unstable_at d ((reopt d ^^ k) mf)"
    and ex: "truthy stab' \<or> max_attempt \<le> 0 + int n"
    and le: "0 \<le> max_attempt \<longrightarrow> 0 + int n \<le> max_attempt"
    and neg: "max_attempt < 0 \<longrightarrow> n = 0"
    by blast
  have u: "unstable_at d ((reopt d ^^ n) mf) = (\<not> truthy stab')"
    by (simp add: unstable_at_def st')
  show ?thesis
    apply (intro exI [of _ n])
    using un ex le neg
    by (auto simp: stable_opt_internal_def st ebind_def run u)
qed

theorem stable_opt_internal_bounded_witness:
  "(\<forall>m. \<exists>t. get_internal_stability_status ex_driver m = Inr t) \<and>
   stable_opt_internal ex_driver 0 10 = Inr (3, attempt_notes 0 3) \<and>
   stable_opt_internal ex_driver 0 2 =
     Inr (2, attempt_notes 0 2 @ [NoteInt ''Stability Opt failed after %d attempts'' 2])"
proof -
  have h: "\<forall>m. \<exists>t. get_internal_stability_status ex_driver m = Inr t"
    by (simp add: get_internal_stability_status_def ex_driver_def ebind_def)
  have a: "stable_opt_internal ex_driver 0 10 = Inr (3, attempt_notes 0 3)"
    by (simp add: stable_opt_internal_def get_internal_stability_status_def ex_driver_def
        ebind_def stable_loop.simps truthy_def attempt_notes_def upt_rec)
  have b: "stable_opt_internal ex_driver 0 2 =
     Inr (2, attempt_notes 0 2 @ [NoteInt ''Stability Opt failed after %d attempts'' 2])"
    by (simp add: stable_opt_internal_def get_internal_stability_status_def ex_driver_def
        ebind_def stable_loop.simps truthy_def attempt_notes_def upt_rec)
  show ?thesis
    using stable_opt_internal_bounded [OF h, of 0 10] h a b by simp
qed

subsection \<open>Arrays\<close>

lemma idx_less: "i < r \<Longrightarrow> j < c \<Longrightarrow> i * c + j < r * (c::nat)"
proof -
  assume a: "i < r" "j < c"
  then have "i * c + j < i * c + c" by simp
  also have "\<dots> = Suc i * c" by simp
  also have "\<dots> \<le> r * c" using a(1) by (intro mult_le_mono1) simp
  finally show ?thesis .
qed

lemma entry_mk: "i < r \<Longrightarrow> j < c \<Longrightarrow> entry (mk r c f) i j = f i j"
  by (simp add: entry_def mk_def idx_less)

lemma dims_mk [simp]: "nrows (mk r c f) = r" "ncols (mk r c f) = c" "length (dat (mk r c f)) = r * c"
  by (simp_all add: mk_def)

lemma wf_mk [simp]: "wf_mat (mk r c f)"
  by (simp add: wf_mat_def)

lemma div_mod_less: "k < r * c \<Longrightarrow> k div c < r \<and> k mod c < (c::nat)"
  by (metis less_mult_imp_div_less mod_less_divisor mult.commute mult_0_right not_gr_zero not_less_zero)

lemma mk_cong: "(\<And>i j. i < r \<Longrightarrow> j < c \<Longrightarrow> f i j = g i j) \<Longrightarrow> mk r c f = mk r c g"
  by (simp add: mk_def div_mod_less)

lemma mk_zero: "mk r c (\<lambda>i j. 0) = zeros r c"
  by (simp add: mk_def zeros_def map_replicate_const)

lemma entry_zeros: "i < r \<Longrightarrow> j < c \<Longrightarrow> entry (zeros r c) i j = 0"
  by (simp add: entry_def zeros_def idx_less)

lemma dims_zeros [simp]: "nrows (zeros r c) = r" "ncols (zeros r c) = c" "length (dat (zeros r c)) = r * c"
  by (simp_all add: zeros_def)

lemma sum_list_zero: "(\<And>x. x \<in> set xs \<Longrightarrow> f x = (0::complex)) \<Longrightarrow> sum_list (map f xs) = 0"
  by (induction xs) auto

lemma dims_matmul [simp]: "nrows (matmul a b) = nrows a" "ncols (matmul a b) = ncols b" "wf_mat (matmul a b)"
  by (simp_all add: matmul_def)

lemma matmul_zeros_right: "ncols a = r \<Longrightarrow> matmul a (zeros r c) = zeros (nrows a) c"
proof -
  assume "ncols a = r"
  then have "matmul a (zeros r c) = mk (nrows a) c (\<lambda>i j. 0)"
    unfolding matmul_def by (simp, intro mk_cong sum_list_zero) (simp add: entry_zeros)
  then show ?thesis by (simp add: mk_zero)
qed

lemma matmul_zeros_left: "matmul (zeros r c) b = zeros r (ncols b)"
proof -
  have "matmul (zeros r c) b = mk r (ncols b) (\<lambda>i j. 0)"
    unfolding matmul_def by (simp, intro mk_cong sum_list_zero) (simp add: entry_zeros)
  then show ?thesis by (simp add: mk_zero)
qed

lemma conjT_zeros: "conjT (zeros r c) = zeros c r"
proof -
  have "conjT (zeros r c) = mk c r (\<lambda>i j. 0)"
    unfolding conjT_def by (simp, intro mk_cong) (simp add: entry_zeros)
  then show ?thesis by (simp add: mk_zero)
qed

lemma map2_replicate_zero: "map2 f (replicate n a) (replicate n b) = replicate n (f a b)"
  by (induction n) auto

lemma mat_sub_zeros: "mat_sub (zeros r c) (zeros r c) = Inr (zeros r c)"
  by (simp add: mat_sub_def zeros_def map2_replicate_zero)

lemma mat_add_zeros: "mat_add (zeros r c) (zeros r c) = Inr (zeros r c)"
  by (simp add: mat_add_def zeros_def map2_replicate_zero)

lemma scale_zeros: "scale (zeros r c) z = zeros r c"
  by (simp add: scale_def zeros_def)

lemma mk_entry: "wf_mat m \<Longrightarrow> mk (nrows m) (ncols m) (entry m) = m"
  by (cases m) (auto simp: wf_mat_def mk_def entry_def intro!: nth_equalityI)

lemma dims_eye [simp]: "nrows (eye n) = n" "ncols (eye n) = n" "wf_mat (eye n)"
  by (simp_all add: eye_def)

lemma sum_list_delta:
  "j < n \<Longrightarrow> (\<Sum>k\<leftarrow>[0..<n]. f k * (if k = j then 1 else 0)) = (f j :: complex)"
proof -
  assume "j < n"
  have "(\<Sum>k\<leftarrow>[0..<n]. f k * (if k = j then 1 else 0)) = (\<Sum>k\<in>{0..<n}. f k * (if k = j then 1 else 0))"
    by (simp add: interv_sum_list_conv_sum_set_nat)
  also have "\<dots> = (\<Sum>k\<in>{0..<n}. if k = j then f k else 0)"
    by (intro sum.cong) auto
  also have "\<dots> = f j" using \<open>j < n\<close> by simp
  finally show ?thesis .
qed

lemma matmul_eye: "wf_mat a \<Longrightarrow> matmul a (eye (ncols a)) = a"
proof -
  assume wf: "wf_mat a"
  have "(\<Sum>k\<leftarrow>[0..<ncols a]. entry a i k * entry (eye (ncols a)) k j) = entry a i j"
    if "j < ncols a" for i j
  proof -
    have "(\<Sum>k\<leftarrow>[0..<ncols a]. entry a i k * entry (eye (ncols a)) k j)
        = (\<Sum>k\<leftarrow>[0..<ncols a]. entry a i k * (if k = j then 1 else 0))"
      by (intro arg_cong [where f = sum_list] map_cong) (simp_all add: entry_mk eye_def that)
    then show ?thesis by (simp add: sum_list_delta that)
  qed
  then have "matmul a (eye (ncols a)) = mk (nrows a) (ncols a) (entry a)"
    unfolding matmul_def by (simp add: eye_def, intro mk_cong) (simp add: eye_def)
  then show ?thesis using wf by (simp add: mk_entry)
qed

lemma scatter_zeros: "scatter ms (replicate n 0) = replicate (length ms) 0"
proof (induction ms arbitrary: n)
  case Nil then show ?case by simp
next
  case (Cons b ms)
  show ?case
  proof (cases b)
    case True
    then show ?thesis using Cons [of "n - 1"] Cons [of 0] by (cases n) auto
  next
    case False
    then show ?thesis using Cons by simp
  qed
qed

lemma ncols_mpow: "ncols (mpow (zeros n n) k) = n" "nrows (mpow (zeros n n) k) = n"
  by (induction k) simp_all

lemma mpow_zeros: "mpow (zeros n n) (Suc k) = zeros n n"
  by (simp add: matmul_zeros_right ncols_mpow)

lemma suminf_head: "(\<And>k. f (Suc k) = 0) \<Longrightarrow> (\<Sum>k. f k) = (f 0 :: complex)"
proof -
  assume a: "\<And>k. f (Suc k) = 0"
  have "(\<Sum>k. f k) = (\<Sum>k\<in>{0}. f k)"
    by (rule suminf_finite) (use a in \<open>auto simp: gr0_conv_Suc\<close>)
  then show ?thesis by simp
qed

lemma expmat_zeros: "expmat (zeros n n) = Inr (eye n)"
proof -
  have "(\<Sum>k. entry (mpow (zeros n n) k) i j / fact k) = entry (eye n) i j"
    if "i < n" "j < n" for i j
    by (subst suminf_head) (simp_all add: mpow_zeros entry_zeros that del: mpow.simps(2))
  then have "mk n n (\<lambda>i j. \<Sum>k. entry (mpow (zeros n n) k) i j / fact k) = mk n n (entry (eye n))"
    by (intro mk_cong) simp
  also have "\<dots> = eye n"
    using mk_entry [of "eye n"] by simp
  finally show ?thesis
    by (simp add: expmat_def)
qed

lemma unpack_zero:
  "unpack_uniq_var (replicate (length (filter id (uniq_var_indices occ))) 0) occ
     = Inr (zeros (length occ) (length occ))"
proof -
  have "\<lparr>nrows = length occ, ncols = length occ,
          dat = scatter (uniq_var_indices occ) (replicate (length (filter id (uniq_var_indices occ))) 0)\<rparr>
        = zeros (length occ) (length occ)"
    by (simp add: scatter_zeros zeros_def uniq_var_indices_def Let_def)
  then show ?thesis
    by (simp add: unpack_uniq_var_def Let_def conjT_zeros mat_sub_zeros)
qed

subsection \<open>The rotation with a zero vector\<close>

text \<open>
  C9. Rotating with the all-zero eigenvector returns the coefficient matrix unchanged:
  for every coefficient matrix (an array, with one column per orbital of the occupation
  vector) \<^verbatim>\<open>_rotate_mo(C, n, 0) = C\<close>, the zero vector having the size of the
  rotation block. The scattered generator is the zero matrix, its exponential is the
  identity, and the product with the identity is \<open>C\<close>.
\<close>

theorem rotate_mo_zero_identity:
  "wf_mat c \<Longrightarrow> ncols c = length occ \<Longrightarrow>
   rotate_mo c occ (replicate (length (filter id (uniq_var_indices occ))) 0) = Inr c"
  using matmul_eye [of c] by (simp add: rotate_mo_def unpack_zero ebind_def expmat_zeros dot_def)

lemma uniq_var_indices_example: "length (filter id (uniq_var_indices [2, 0])) = 1"
  by code_simp

theorem rotate_mo_zero_identity_witness:
  "rotate_mo \<lparr>nrows = 2, ncols = 2, dat = [1, 2, 3, 4]\<rparr> [2, 0] [0]
     = Inr \<lparr>nrows = 2, ncols = 2, dat = [1, 2, 3, 4]\<rparr>"
  using rotate_mo_zero_identity [of "\<lparr>nrows = 2, ncols = 2, dat = [1, 2, 3, 4]\<rparr>" "[2, 0]"]
  by (simp add: wf_mat_def uniq_var_indices_example)

subsection \<open>What an entry point that returns has done\<close>

lemma ebind_Inr: "ebind m f = Inr y \<longleftrightarrow> (\<exists>x. m = Inr x \<and> f x = Inr y)"
  by (cases m) (simp_all add: ebind_def)

lemma ebind_Inl_left [simp]: "ebind (Inl err) f = Inl err"
  by (simp add: ebind_def)

lemma ebind_Inr_left [simp]: "ebind (Inr x) f = f x"
  by (simp add: ebind_def)

lemma select_below:
  "(if n \<noteq> (1::int) then first_root r else Inr r) = Inr r' \<Longrightarrow> below r' = Inr b \<Longrightarrow>
   \<exists>e. lowest_eig r = Some e \<and> b = (e < - (1 / 10 ^ 5))"
  by (cases r; cases r')
     (auto simp: first_root_def below_def lowest_eig_def length_Suc_conv
           split: if_splits list.splits)

lemma select_vec:
  "(if n \<noteq> (1::int) then first_root r else Inr r) = Inr r' \<Longrightarrow> vec_of r' = Inr v \<Longrightarrow>
   lowest_vec r = Some v"
  by (cases r; cases r')
     (auto simp: first_root_def vec_of_def lowest_vec_def split: if_splits list.splits)

lemma channel_tail:
  assumes s: "(if n \<noteq> (1::int) then first_root r else Inr r) = Inr r'"
    and b: "below r' = Inr b"
    and mo: "(if \<not> b then Inr c else ebind (vec_of r') f) = Inr mo"
  shows "\<exists>e. lowest_eig r = Some e \<and> b = (e < - (1 / 10 ^ 5)) \<and>
           (- (1 / 10 ^ 5) \<le> e \<longrightarrow> mo = c) \<and>
           (e < - (1 / 10 ^ 5) \<longrightarrow> (\<exists>v. lowest_vec r = Some v \<and> f v = Inr mo))"
proof -
  from select_below [OF s b] obtain e where e: "lowest_eig r = Some e" "b = (e < - (1 / 10 ^ 5))"
    by blast
  show ?thesis
  proof (cases b)
    case True
    with mo obtain v where v: "vec_of r' = Inr v" "f v = Inr mo"
      by (auto simp: ebind_Inr)
    from select_vec [OF s v(1)] v(2) e True show ?thesis by auto
  next
    case False
    with mo e show ?thesis by auto
  qed
qed

lemma dump_status_internal:
  "Note (c @ '' wavefunction has an internal instability'') = dump_status False c ''internal''"
  "Note (c @ '' wavefunction is stable in the internal stability analysis'') = dump_status True c ''internal''"
  by (simp_all add: dump_status_def)

lemma ret_of_mo [simp]: "ret_mo (ret_of rs mo st) = mo"
  by (simp add: ret_of_def)

lemma rhf_internal_ret:
  assumes "rhf_internal D mf ws rs n tol = Inr (ret, lg)"
  shows "\<exists>r e. solved D tol n lg ''rhf_internal: lowest eigs of H = '' r \<and>
           lowest_eig r = Some e \<and>
           dump_status (\<not> e < - (1 / 10 ^ 5)) (cls mf) ''internal'' \<in> set lg \<and>
           ret = ret_of rs (ret_mo ret) (\<not> e < - (1 / 10 ^ 5)) \<and>
           (- (1 / 10 ^ 5) \<le> e \<longrightarrow> ret_mo ret = mo_coeff mf)"
proof -
  obtain g hop hd0 where gh: "gen_g_hop mf (Some ws) = (g, hop, hd0)"
    by (metis prod_cases3)
  from assms obtain x0 r r' b mo where
    d: "D (hessian_x hop) x0 (precond (map (\<lambda>h. h * 2) hd0)) tol n = Inr r"
    and s: "(if n \<noteq> 1 then first_root r else Inr r) = Inr r'"
    and b: "below r' = Inr b"
    and mo: "(if \<not> b then Inr (mo_coeff mf)
              else ebind (vec_of r') (rotate_mo (mo_coeff mf) (mo_occ mf))) = Inr mo"
    and ret: "ret = ret_of rs mo (\<not> b)"
    and lg: "lg = [Info ''rhf_internal: lowest eigs of H = '' (eigs r),
                   dump_status (\<not> b) (cls mf) ''internal'']"
    by (auto simp: rhf_internal_def gh Let_def ebind_Inr)
  from channel_tail [OF s b mo] obtain e where
    e: "lowest_eig r = Some e" "b = (e < - (1 / 10 ^ 5))" "- (1 / 10 ^ 5) \<le> e \<longrightarrow> mo = mo_coeff mf"
    by blast
  have "solved D tol n lg ''rhf_internal: lowest eigs of H = '' r"
    using d lg by (auto simp: solved_def)
  then show ?thesis
    using e ret lg by (intro exI [of _ r] exI [of _ e]) auto
qed


lemma rohf_internal_ret:
  assumes "rohf_internal D mf ws rs n tol = Inr (ret, lg)"
  shows "\<exists>r e. solved D tol n lg ''rohf_internal: lowest eigs of H = '' r \<and>
           lowest_eig r = Some e \<and>
           dump_status (\<not> e < - (1 / 10 ^ 5)) (cls mf) ''internal'' \<in> set lg \<and>
           ret = ret_of rs (ret_mo ret) (\<not> e < - (1 / 10 ^ 5)) \<and>
           (- (1 / 10 ^ 5) \<le> e \<longrightarrow> ret_mo ret = mo_coeff mf)"
proof -
  obtain g hop hd0 where gh: "gen_g_hop mf (Some ws) = (g, hop, hd0)"
    by (metis prod_cases3)
  from assms obtain x0 r r' b mo where
    d: "D (hessian_x hop) x0 (precond (map (\<lambda>h. h * 2) hd0)) tol n = Inr r"
    and s: "(if n \<noteq> 1 then first_root r else Inr r) = Inr r'"
    and b: "below r' = Inr b"
    and mo: "(if \<not> b then Inr (mo_coeff mf)
              else ebind (vec_of r') (rotate_mo (mo_coeff mf) (mo_occ mf))) = Inr mo"
    and ret: "ret = ret_of rs mo (\<not> b)"
    and lg: "lg = [Info ''rohf_internal: lowest eigs of H = '' (eigs r),
                   dump_status (\<not> b) (cls mf) ''internal'']"
    by (auto simp: rohf_internal_def gh Let_def ebind_Inr)
  from channel_tail [OF s b mo] obtain e where
    e: "lowest_eig r = Some e" "b = (e < - (1 / 10 ^ 5))" "- (1 / 10 ^ 5) \<le> e \<longrightarrow> mo = mo_coeff mf"
    by blast
  have "solved D tol n lg ''rohf_internal: lowest eigs of H = '' r"
    using d lg by (auto simp: solved_def)
  then show ?thesis
    using e ret lg by (intro exI [of _ r] exI [of _ e]) auto
qed

lemma uhf_internal_ret:
  assumes "uhf_internal D mf ws rs n tol = Inr (ret, lg)"
  shows "\<exists>r e. solved D tol n lg ''uhf_internal: lowest eigs of H = '' r \<and>
           lowest_eig r = Some e \<and>
           dump_status (\<not> e < - (1 / 10 ^ 5)) (cls mf) ''internal'' \<in> set lg \<and>
           ret = ret_of rs (ret_mo ret) (\<not> e < - (1 / 10 ^ 5)) \<and>
           (- (1 / 10 ^ 5) \<le> e \<longrightarrow> ret_mo ret = mo_coeff mf)"
proof -
  obtain g hop hd0 where gh: "gen_g_hop mf (Some ws) = (g, hop, hd0)"
    by (metis prod_cases3)
  from assms obtain x0 r r' b mo where
    d: "D (hessian_x hop) x0 (precond (map (\<lambda>h. h * 2) hd0)) tol n = Inr r"
    and s: "(if n \<noteq> 1 then first_root r else Inr r) = Inr r'"
    and b: "below r' = Inr b"
    and mo: "(if \<not> b then Inr (mo_coeff mf)
              else ebind (vec_of r') (\<lambda>v.
                  let nocca = length (filter (\<lambda>n. n > 0) (fst (mo_occ mf)));
                      nvira = length (filter (\<lambda>n. n = 0) (fst (mo_occ mf))) in
                  ebind (rotate_mo (fst (mo_coeff mf)) (fst (mo_occ mf)) (take (nocca * nvira) v)) (\<lambda>ma.
                  ebind (rotate_mo (snd (mo_coeff mf)) (snd (mo_occ mf)) (drop (nocca * nvira) v)) (\<lambda>mb.
                  Inr (ma, mb))))) = Inr mo"
    and ret: "ret = ret_of rs mo (\<not> b)"
    and lg: "lg = [Info ''uhf_internal: lowest eigs of H = '' (eigs r),
                   dump_status (\<not> b) (cls mf) ''internal'']"
    by (auto simp: uhf_internal_def gh Let_def ebind_Inr)
  from channel_tail [OF s b mo] obtain e where
    e: "lowest_eig r = Some e" "b = (e < - (1 / 10 ^ 5))" "- (1 / 10 ^ 5) \<le> e \<longrightarrow> mo = mo_coeff mf"
    by blast
  have "solved D tol n lg ''uhf_internal: lowest eigs of H = '' r"
    using d lg by (auto simp: solved_def)
  then show ?thesis
    using e ret lg by (intro exI [of _ r] exI [of _ e]) auto
qed

lemma ghf_complex_ret:
  assumes "ghf_complex D mf rs n tol = Inr (ret, lg)"
  shows "\<exists>r e. solved D tol n lg ''ghf_complex_internal: lowest eigs of H = '' r \<and>
           lowest_eig r = Some e \<and>
           dump_status (\<not> e < - (1 / 10 ^ 5)) (cls mf @ '' (complex)'') ''internal'' \<in> set lg \<and>
           ret = ret_of rs (ret_mo ret) (\<not> e < - (1 / 10 ^ 5)) \<and>
           (- (1 / 10 ^ 5) \<le> e \<longrightarrow> ret_mo ret = mo_coeff mf)"
proof -
  from assms obtain hop hdiag x0 r r' b mo where
    d: "D hop x0 (precond hdiag) tol n = Inr r"
    and s: "(if n \<noteq> 1 then first_root r else Inr r) = Inr r'"
    and b: "below r' = Inr b"
    and mo: "(if \<not> b then Inr (mo_coeff mf)
              else ebind (vec_of r') (rotate_mo (mo_coeff mf) (mo_occ mf))) = Inr mo"
    and ret: "ret = ret_of rs mo (\<not> b)"
    and lg: "lg = [Info ''ghf_complex_internal: lowest eigs of H = '' (eigs r),
                   dump_status (\<not> b) (cls mf @ '' (complex)'') ''internal'']"
    by (auto simp: ghf_complex_def Let_def ebind_Inr)
  from channel_tail [OF s b mo] obtain e where
    e: "lowest_eig r = Some e" "b = (e < - (1 / 10 ^ 5))" "- (1 / 10 ^ 5) \<le> e \<longrightarrow> mo = mo_coeff mf"
    by blast
  have "solved D tol n lg ''ghf_complex_internal: lowest eigs of H = '' r"
    using d lg by (auto simp: solved_def)
  then show ?thesis
    using e ret lg by (intro exI [of _ r] exI [of _ e]) auto
qed

lemma below_lowest:
  "below r = Inr b \<Longrightarrow> \<exists>e. lowest_eig r = Some e \<and> b = (e < - (1 / 10 ^ 5))"
  using select_below [of 1 r r b] by simp

lemma dhf_stability_ret:
  assumes "dhf_stability D mf rs n tol = Inr (ret, lg)"
  shows "\<exists>aop x0 pre r e. D aop x0 pre tol n = Inr r \<and>
           lowest_eig r = Some e \<and>
           lg = [dump_status (\<not> e < - (1 / 10 ^ 5)) (cls mf) ''internal''] \<and>
           ret = ret_of rs (ret_mo ret) (\<not> e < - (1 / 10 ^ 5)) \<and>
           (- (1 / 10 ^ 5) \<le> e \<longrightarrow> ret_mo ret = mo_coeff mf)"
proof -
  obtain g hop hd0 where gh: "gen_g_hop mf None = (g, hop, hd0)"
    by (metis prod_cases3)
  from assms obtain x0 r b where
    d: "D (hessian_x hop) x0 (precond (map (\<lambda>h. h * 2) hd0)) tol n = Inr r"
    and b: "below r = Inr b"
    and fin: "(if b then
        ebind (ebind (vec_of r) (rotate_mo (mo_coeff mf) (mo_occ mf))) (\<lambda>mo.
        Inr (ret_of rs mo False,
             [Note (cls mf @ '' wavefunction has an internal instability'')]))
      else
        Inr (ret_of rs (mo_coeff mf) True,
             [Note (cls mf @ '' wavefunction is stable in the internal stability analysis'')]))
      = Inr (ret, lg)"
    unfolding dhf_stability_def gh Let_def ebind_Inr prod.case by blast
  have rest: "(b \<and> (\<exists>mo. ret = ret_of rs mo False) \<and>
                  lg = [dump_status False (cls mf) ''internal'']) \<or>
               (\<not> b \<and> ret = ret_of rs (mo_coeff mf) True \<and>
                  lg = [dump_status True (cls mf) ''internal''])"
    using fin by (cases b) (auto simp: ebind_Inr dump_status_internal)
  from below_lowest [OF b] obtain e where
    e: "lowest_eig r = Some e" "b = (e < - (1 / 10 ^ 5))"
    by blast
  show ?thesis
    using d e rest
    by (intro exI [of _ "hessian_x hop"] exI [of _ x0]
        exI [of _ "precond (map (\<lambda>h. h * 2) hd0)"] exI [of _ r] exI [of _ e]) auto
qed

lemma select_below_r2c:
  "(if n \<noteq> (1::int) then first_root_r2c r2 r else Inr r2) = Inr r2' \<Longrightarrow> below r2' = Inr b \<Longrightarrow>
   \<exists>e. lowest_eig r2 = Some e \<and> b = (e < - (1 / 10 ^ 5))"
  by (cases r2; cases r2'; cases r)
     (auto simp: first_root_r2c_def below_def lowest_eig_def length_Suc_conv
           split: if_splits list.splits)

lemma ghf_real_ret:
  assumes "ghf_real D mf ws rs n tol = Inr (ret, lg)"
  shows "\<exists>r e r2 e2. solved D tol n lg ''ghf_real_internal: lowest eigs of H = '' r \<and>
           lowest_eig r = Some e \<and>
           dump_status (\<not> e < - (1 / 10 ^ 5)) (cls mf @ '' (real)'') ''internal'' \<in> set lg \<and>
           ret = ret_of rs (ret_mo ret) (\<not> e < - (1 / 10 ^ 5)) \<and>
           (- (1 / 10 ^ 5) \<le> e \<longrightarrow> ret_mo ret = mo_coeff mf) \<and>
           solved D tol n lg ''ghf_real2complex: lowest eigs of H = '' r2 \<and>
           lowest_eig r2 = Some e2 \<and>
           dump_status (\<not> e2 < - (1 / 10 ^ 5)) (cls mf @ '' (real)'') ''real -> complex'' \<in> set lg"
proof -
  obtain g hop hd0 where gh: "gen_g_hop mf None = (g, hop, hd0)"
    by (metis prod_cases3)
  from assms obtain x0 r r' b mo hop2 hd2 x02 r2 r2' b2 where
    d: "D (hessian_x hop) x0 (precond (map (\<lambda>h. h * 2) hd0)) tol n = Inr r"
    and s: "(if n \<noteq> 1 then first_root r else Inr r) = Inr r'"
    and b: "below r' = Inr b"
    and mo: "(if \<not> b then Inr (mo_coeff mf)
              else ebind (vec_of r') (rotate_mo (mo_coeff mf) (mo_occ mf))) = Inr mo"
    and d2: "D hop2 x02 (precond hd2) tol n = Inr r2"
    and s2: "(if n \<noteq> 1 then first_root_r2c r2 r' else Inr r2) = Inr r2'"
    and b2: "below r2' = Inr b2"
    and ret: "ret = ret_of rs mo (\<not> b)"
    and lg: "lg = [Info ''ghf_real_internal: lowest eigs of H = '' (eigs r),
                   dump_status (\<not> b) (cls mf @ '' (real)'') ''internal'',
                   Info ''ghf_real2complex: lowest eigs of H = '' (eigs r2),
                   dump_status (\<not> b2) (cls mf @ '' (real)'') ''real -> complex'']"
    by (clarsimp simp: ghf_real_def gh Let_def ebind_Inr)
  from channel_tail [OF s b mo] obtain e where
    e: "lowest_eig r = Some e" "b = (e < - (1 / 10 ^ 5))" "- (1 / 10 ^ 5) \<le> e \<longrightarrow> mo = mo_coeff mf"
    by blast
  from select_below_r2c [OF s2 b2] obtain e2 where
    e2: "lowest_eig r2 = Some e2" "b2 = (e2 < - (1 / 10 ^ 5))"
    by blast
  have sol: "solved D tol n lg ''ghf_real_internal: lowest eigs of H = '' r"
       "solved D tol n lg ''ghf_real2complex: lowest eigs of H = '' r2"
    using d d2 by (auto simp: solved_def lg)
  have mem: "dump_status (\<not> e < - (1 / 10 ^ 5)) (cls mf @ '' (real)'') ''internal'' \<in> set lg"
       "dump_status (\<not> e2 < - (1 / 10 ^ 5)) (cls mf @ '' (real)'') ''real -> complex'' \<in> set lg"
    by (simp_all add: lg e(2) e2(2))
  have st: "ret = ret_of rs (ret_mo ret) (\<not> e < - (1 / 10 ^ 5))" and m: "ret_mo ret = mo"
    by (simp_all add: ret e(2))
  show ?thesis
    using sol mem st e(1) e(3) e2(1) m
    by (intro exI [of _ r] exI [of _ e] exI [of _ r2] exI [of _ e2]) simp
qed

lemma rhf_external_ret:
  assumes "rhf_external D mf ws rs n tol = Inr (ret, lg)"
  shows "\<exists>r1 e1 r3 e3.
           solved D tol n lg ''rhf_real2complex: lowest eigs of H = '' r1 \<and>
           lowest_eig r1 = Some e1 \<and>
           dump_status (\<not> e1 < - (1 / 10 ^ 5)) (cls mf) ''real -> complex'' \<in> set lg \<and>
           solved D tol n lg ''rhf_external: lowest eigs of H = '' r3 \<and>
           lowest_eig r3 = Some e3 \<and>
           dump_status (\<not> e3 < - (1 / 10 ^ 5)) (cls mf) ''RHF/RKS -> UHF/UKS'' \<in> set lg \<and>
           ret = ret_of rs (ret_mo ret) (\<not> e3 < - (1 / 10 ^ 5)) \<and>
           (- (1 / 10 ^ 5) \<le> e3 \<longrightarrow> ret_mo ret = (mo_coeff mf, mo_coeff mf)) \<and>
           (e3 < - (1 / 10 ^ 5) \<longrightarrow>
              (\<exists>v3 m. lowest_vec r3 = Some v3 \<and>
                 rotate_mo (mo_coeff mf) (mo_occ mf) v3 = Inr m \<and>
                 ret_mo ret = (m, mo_coeff mf)))"
proof -
  from assms obtain hop1 hd1 hop2 hd2 x0 r1 r1' b1 v1 r3 r3' b3 mo where
    d1: "D hop1 x0 (precond hd1) tol n = Inr r1"
    and s1: "(if n \<noteq> 1 then first_root r1 else Inr r1) = Inr r1'"
    and b1: "below r1' = Inr b1"
    and d3: "D hop2 v1 (precond hd2) tol n = Inr r3"
    and s3: "(if n \<noteq> 1 then first_root r3 else Inr r3) = Inr r3'"
    and b3: "below r3' = Inr b3"
    and mo: "(if \<not> b3 then Inr (mo_coeff mf, mo_coeff mf)
              else ebind (vec_of r3') (\<lambda>v3.
                 ebind (rotate_mo (mo_coeff mf) (mo_occ mf) v3) (\<lambda>m.
                 Inr (m, mo_coeff mf)))) = Inr mo"
    and ret: "ret = ret_of rs mo (\<not> b3)"
    and lg: "lg = [Info ''rhf_real2complex: lowest eigs of H = '' (eigs r1),
                   dump_status (\<not> b1) (cls mf) ''real -> complex'',
                   Info ''rhf_external: lowest eigs of H = '' (eigs r3),
                   dump_status (\<not> b3) (cls mf) ''RHF/RKS -> UHF/UKS'']"
    by (clarsimp simp: rhf_external_def Let_def ebind_Inr)
  from select_below [OF s1 b1] obtain e1 where
    e1: "lowest_eig r1 = Some e1" "b1 = (e1 < - (1 / 10 ^ 5))"
    by blast
  from channel_tail [OF s3 b3 mo] obtain e3 where
    e3: "lowest_eig r3 = Some e3" "b3 = (e3 < - (1 / 10 ^ 5))"
      "- (1 / 10 ^ 5) \<le> e3 \<longrightarrow> mo = (mo_coeff mf, mo_coeff mf)"
      "e3 < - (1 / 10 ^ 5) \<longrightarrow> (\<exists>v. lowest_vec r3 = Some v \<and>
         ebind (rotate_mo (mo_coeff mf) (mo_occ mf) v) (\<lambda>m. Inr (m, mo_coeff mf)) = Inr mo)"
    by blast
  have sol: "solved D tol n lg ''rhf_real2complex: lowest eigs of H = '' r1"
       "solved D tol n lg ''rhf_external: lowest eigs of H = '' r3"
    using d1 d3 by (auto simp: solved_def lg)
  have mem: "dump_status (\<not> e1 < - (1 / 10 ^ 5)) (cls mf) ''real -> complex'' \<in> set lg"
       "dump_status (\<not> e3 < - (1 / 10 ^ 5)) (cls mf) ''RHF/RKS -> UHF/UKS'' \<in> set lg"
    by (simp_all add: lg e1(2) e3(2))
  have st: "ret = ret_of rs (ret_mo ret) (\<not> e3 < - (1 / 10 ^ 5))" and m: "ret_mo ret = mo"
    by (simp_all add: ret e3(2))
  have rot: "e3 < - (1 / 10 ^ 5) \<longrightarrow>
              (\<exists>v3 m. lowest_vec r3 = Some v3 \<and>
                 rotate_mo (mo_coeff mf) (mo_occ mf) v3 = Inr m \<and>
                 ret_mo ret = (m, mo_coeff mf))"
    using e3(4) unfolding m ebind_Inr by blast
  show ?thesis
    using sol mem st rot e1(1) e3(1) e3(3) m
    by (intro exI [of _ r1] exI [of _ e1] exI [of _ r3] exI [of _ e3]) simp
qed

lemma uhf_external_ret:
  assumes "uhf_external D mf ws rs n tol = Inr (ret, lg)"
  shows "\<exists>r1 e1 r3 e3.
           solved D tol n lg ''uhf_real2complex: lowest eigs of H = '' r1 \<and>
           lowest_eig r1 = Some e1 \<and>
           dump_status (\<not> e1 < - (1 / 10 ^ 5)) (cls mf) ''real -> complex'' \<in> set lg \<and>
           solved D tol n lg ''uhf_external: lowest eigs of H = '' r3 \<and>
           lowest_eig r3 = Some e3 \<and>
           dump_status (\<not> e3 < - (1 / 10 ^ 5)) (cls mf) ''UHF/UKS -> GHF/GKS'' \<in> set lg \<and>
           ret = ret_of rs (ret_mo ret) (\<not> e3 < - (1 / 10 ^ 5)) \<and>
           (- (1 / 10 ^ 5) \<le> e3 \<longrightarrow>
              ret_mo ret = block_diag (fst (mo_coeff mf)) (snd (mo_coeff mf))) \<and>
           (e3 < - (1 / 10 ^ 5) \<longrightarrow>
              (\<exists>v3. lowest_vec r3 = Some v3 \<and>
                 rotate_uhf2ghf (block_diag (fst (mo_coeff mf)) (snd (mo_coeff mf)))
                   (mo_occ mf) v3 = Inr (ret_mo ret)))"
proof -
  from assms obtain hop1 hd1 hop2 hd2 x0 r1 r1' b1 x02 r3 r3' b3 mo where
    d1: "D hop1 x0 (precond hd1) tol n = Inr r1"
    and s1: "(if n \<noteq> 1 then first_root r1 else Inr r1) = Inr r1'"
    and b1: "below r1' = Inr b1"
    and d3: "D hop2 x02 (precond hd2) tol n = Inr r3"
    and s3: "(if n \<noteq> 1 then first_root r3 else Inr r3) = Inr r3'"
    and b3: "below r3' = Inr b3"
    and mo0: "(if b3 then ebind (vec_of r3')
                     (rotate_uhf2ghf (block_diag (fst (mo_coeff mf)) (snd (mo_coeff mf)))
                        (mo_occ mf))
               else Inr (block_diag (fst (mo_coeff mf)) (snd (mo_coeff mf)))) = Inr mo"
    and ret: "ret = ret_of rs mo (\<not> b3)"
    and lg: "lg = [Info ''uhf_real2complex: lowest eigs of H = '' (eigs r1),
                   dump_status (\<not> b1) (cls mf) ''real -> complex'',
                   Info ''uhf_external: lowest eigs of H = '' (eigs r3),
                   dump_status (\<not> b3) (cls mf) ''UHF/UKS -> GHF/GKS'']"
    by (clarsimp simp: uhf_external_def Let_def ebind_Inr)
  have mo: "(if \<not> b3 then Inr (block_diag (fst (mo_coeff mf)) (snd (mo_coeff mf)))
              else ebind (vec_of r3')
                     (rotate_uhf2ghf (block_diag (fst (mo_coeff mf)) (snd (mo_coeff mf)))
                        (mo_occ mf))) = Inr mo"
    using mo0 by (cases b3) simp_all
  from select_below [OF s1 b1] obtain e1 where
    e1: "lowest_eig r1 = Some e1" "b1 = (e1 < - (1 / 10 ^ 5))"
    by blast
  from channel_tail [OF s3 b3 mo] obtain e3 where
    e3: "lowest_eig r3 = Some e3" "b3 = (e3 < - (1 / 10 ^ 5))"
      "- (1 / 10 ^ 5) \<le> e3 \<longrightarrow> mo = block_diag (fst (mo_coeff mf)) (snd (mo_coeff mf))"
      "e3 < - (1 / 10 ^ 5) \<longrightarrow> (\<exists>v. lowest_vec r3 = Some v \<and>
         rotate_uhf2ghf (block_diag (fst (mo_coeff mf)) (snd (mo_coeff mf))) (mo_occ mf) v = Inr mo)"
    by blast
  have sol: "solved D tol n lg ''uhf_real2complex: lowest eigs of H = '' r1"
       "solved D tol n lg ''uhf_external: lowest eigs of H = '' r3"
    using d1 d3 by (auto simp: solved_def lg)
  have mem: "dump_status (\<not> e1 < - (1 / 10 ^ 5)) (cls mf) ''real -> complex'' \<in> set lg"
       "dump_status (\<not> e3 < - (1 / 10 ^ 5)) (cls mf) ''UHF/UKS -> GHF/GKS'' \<in> set lg"
    by (simp_all add: lg e1(2) e3(2))
  have st: "ret = ret_of rs (ret_mo ret) (\<not> e3 < - (1 / 10 ^ 5))" and m: "ret_mo ret = mo"
    by (simp_all add: ret e3(2))
  show ?thesis
    using sol mem st e1(1) e3(1) e3(3) e3(4) m
    by (intro exI [of _ r1] exI [of _ e1] exI [of _ r3] exI [of _ e3]) simp
qed

subsection \<open>Runs of the entry points on the examples\<close>

lemma ex_rhf_internal_run:
  "rhf_internal ex_davidson ex_rhf True True 3 (1 / 10 ^ 4) =
     Inr (WithStatus (mo_coeff ex_rhf) True,
          [Info ''rhf_internal: lowest eigs of H = '' [2, 3, 4],
           dump_status True ''RHF'' ''internal''])"
  by code_simp

lemma ex_rohf_internal_run:
  "rohf_internal ex_davidson ex_rhf True False 1 (1 / 10 ^ 4) =
     Inr (OnlyMo (mo_coeff ex_rhf),
          [Info ''rohf_internal: lowest eigs of H = '' [2],
           dump_status True ''RHF'' ''internal''])"
  by code_simp

lemma ex_uhf_internal_run:
  "uhf_internal ex_davidson ex_uhf True True 3 (1 / 10 ^ 4) =
     Inr (WithStatus (mo_coeff ex_uhf) True,
          [Info ''uhf_internal: lowest eigs of H = '' [2, 3, 4],
           dump_status True ''UHF'' ''internal''])"
  by code_simp

lemma ex_ghf_real_run:
  "ghf_real ex_davidson ex_ghf True True 3 (1 / 10 ^ 4) =
     Inr (WithStatus (mo_coeff ex_ghf) True,
          [Info ''ghf_real_internal: lowest eigs of H = '' [2, 3, 4],
           dump_status True ''GHF (real)'' ''internal'',
           Info ''ghf_real2complex: lowest eigs of H = '' [2, 3, 4],
           dump_status True ''GHF (real)'' ''real -> complex''])"
  by code_simp

lemma ex_ghf_complex_run:
  "ghf_complex ex_davidson ex_ghf True 3 (1 / 10 ^ 4) =
     Inr (WithStatus (mo_coeff ex_ghf) True,
          [Info ''ghf_complex_internal: lowest eigs of H = '' [2, 3, 4],
           dump_status True ''GHF (complex)'' ''internal''])"
  by code_simp

lemma ex_dhf_stability_run:
  "dhf_stability ex_davidson ex_rhf True 1 (1 / 10 ^ 4) =
     Inr (WithStatus (mo_coeff ex_rhf) True, [dump_status True ''RHF'' ''internal''])"
  by code_simp

lemma ex_rhf_external_run:
  "rhf_external ex_davidson ex_rhf True True 3 (1 / 10 ^ 4) =
     Inr (WithStatus (mo_coeff ex_rhf, mo_coeff ex_rhf) True,
          [Info ''rhf_real2complex: lowest eigs of H = '' [- 4, - 3, - 2],
           dump_status False ''RHF'' ''real -> complex'',
           Info ''rhf_external: lowest eigs of H = '' [2, 3, 4],
           dump_status True ''RHF'' ''RHF/RKS -> UHF/UKS''])"
  by code_simp

lemma ex_uhf_external_run:
  "uhf_external ex_davidson ex_uhf True True 3 (1 / 10 ^ 4) =
     Inr (WithStatus (block_diag (fst (mo_coeff ex_uhf)) (snd (mo_coeff ex_uhf))) True,
          [Info ''uhf_real2complex: lowest eigs of H = '' [- 1, 0, 1],
           dump_status False ''UHF'' ''real -> complex'',
           Info ''uhf_external: lowest eigs of H = '' [2, 3, 4],
           dump_status True ''UHF'' ''UHF/UKS -> GHF/GKS''])"
  by code_simp

subsection \<open>The verdict\<close>

text \<open>
  C1. In every channel the verdict is \<^verbatim>\<open>stable = not (e < -1e-5)\<close> for the lowest
  eigenvalue \<open>e\<close> of the solver's answer: whenever an entry point returns, the solver
  has given an answer whose eigenvalues are the logged ones, the note of the channel is
  the one \<^verbatim>\<open>dump_status\<close> writes for \<open>\<not> e < -1e-5\<close>, and the status handed back (by
  the channels that hand one back) is \<open>\<not> e < -1e-5\<close>. So an eigenvalue of 0 or above is
  stable and one below -1e-5 unstable.
\<close>

theorem verdict_is_threshold:
  "(\<forall>ret lg. rhf_internal D mf ws rs n tol = Inr (ret, lg) \<longrightarrow>
        (\<exists>r e. solved D tol n lg ''rhf_internal: lowest eigs of H = '' r \<and>
           lowest_eig r = Some e \<and>
           dump_status (\<not> e < - (1 / 10 ^ 5)) (cls mf) ''internal'' \<in> set lg \<and>
           ret = ret_of rs (ret_mo ret) (\<not> e < - (1 / 10 ^ 5)))) \<and>
   (\<forall>ret lg. rohf_internal D mf ws rs n tol = Inr (ret, lg) \<longrightarrow>
        (\<exists>r e. solved D tol n lg ''rohf_internal: lowest eigs of H = '' r \<and>
           lowest_eig r = Some e \<and>
           dump_status (\<not> e < - (1 / 10 ^ 5)) (cls mf) ''internal'' \<in> set lg \<and>
           ret = ret_of rs (ret_mo ret) (\<not> e < - (1 / 10 ^ 5)))) \<and>
   (\<forall>ret lg. uhf_internal D mfu ws rs n tol = Inr (ret, lg) \<longrightarrow>
        (\<exists>r e. solved D tol n lg ''uhf_internal: lowest eigs of H = '' r \<and>
           lowest_eig r = Some e \<and>
           dump_status (\<not> e < - (1 / 10 ^ 5)) (cls mfu) ''internal'' \<in> set lg \<and>
           ret = ret_of rs (ret_mo ret) (\<not> e < - (1 / 10 ^ 5)))) \<and>
   (\<forall>ret lg. ghf_real D mfg ws rs n tol = Inr (ret, lg) \<longrightarrow>
        (\<exists>r e. solved D tol n lg ''ghf_real_internal: lowest eigs of H = '' r \<and>
           lowest_eig r = Some e \<and>
           dump_status (\<not> e < - (1 / 10 ^ 5)) (cls mfg @ '' (real)'') ''internal'' \<in> set lg \<and>
           ret = ret_of rs (ret_mo ret) (\<not> e < - (1 / 10 ^ 5))) \<and>
        (\<exists>r e. solved D tol n lg ''ghf_real2complex: lowest eigs of H = '' r \<and>
           lowest_eig r = Some e \<and>
           dump_status (\<not> e < - (1 / 10 ^ 5)) (cls mfg @ '' (real)'') ''real -> complex'' \<in> set lg)) \<and>
   (\<forall>ret lg. ghf_complex D mfg rs n tol = Inr (ret, lg) \<longrightarrow>
        (\<exists>r e. solved D tol n lg ''ghf_complex_internal: lowest eigs of H = '' r \<and>
           lowest_eig r = Some e \<and>
           dump_status (\<not> e < - (1 / 10 ^ 5)) (cls mfg @ '' (complex)'') ''internal'' \<in> set lg \<and>
           ret = ret_of rs (ret_mo ret) (\<not> e < - (1 / 10 ^ 5)))) \<and>
   (\<forall>ret lg. dhf_stability D mf rs n tol = Inr (ret, lg) \<longrightarrow>
        (\<exists>aop x0 pre r e. D aop x0 pre tol n = Inr r \<and>
           lowest_eig r = Some e \<and>
           lg = [dump_status (\<not> e < - (1 / 10 ^ 5)) (cls mf) ''internal''] \<and>
           ret = ret_of rs (ret_mo ret) (\<not> e < - (1 / 10 ^ 5)))) \<and>
   (\<forall>ret lg. rhf_external D mfs ws rs n tol = Inr (ret, lg) \<longrightarrow>
        (\<exists>r e. solved D tol n lg ''rhf_real2complex: lowest eigs of H = '' r \<and>
           lowest_eig r = Some e \<and>
           dump_status (\<not> e < - (1 / 10 ^ 5)) (cls mfs) ''real -> complex'' \<in> set lg) \<and>
        (\<exists>r e. solved D tol n lg ''rhf_external: lowest eigs of H = '' r \<and>
           lowest_eig r = Some e \<and>
           dump_status (\<not> e < - (1 / 10 ^ 5)) (cls mfs) ''RHF/RKS -> UHF/UKS'' \<in> set lg \<and>
           ret = ret_of rs (ret_mo ret) (\<not> e < - (1 / 10 ^ 5)))) \<and>
   (\<forall>ret lg. uhf_external D mfx ws rs n tol = Inr (ret, lg) \<longrightarrow>
        (\<exists>r e. solved D tol n lg ''uhf_real2complex: lowest eigs of H = '' r \<and>
           lowest_eig r = Some e \<and>
           dump_status (\<not> e < - (1 / 10 ^ 5)) (cls mfx) ''real -> complex'' \<in> set lg) \<and>
        (\<exists>r e. solved D tol n lg ''uhf_external: lowest eigs of H = '' r \<and>
           lowest_eig r = Some e \<and>
           dump_status (\<not> e < - (1 / 10 ^ 5)) (cls mfx) ''UHF/UKS -> GHF/GKS'' \<in> set lg \<and>
           ret = ret_of rs (ret_mo ret) (\<not> e < - (1 / 10 ^ 5))))"
proof -
  have a: "\<And>P Q. (\<exists>r e. P r e \<and> Q r e) \<Longrightarrow> (\<exists>r e. P r e)" by blast
  show ?thesis
    apply (intro conjI allI impI)
    subgoal for ret lg using rhf_internal_ret [of D mf ws rs n tol ret lg] by blast
    subgoal for ret lg using rohf_internal_ret [of D mf ws rs n tol ret lg] by blast
    subgoal for ret lg using uhf_internal_ret [of D mfu ws rs n tol ret lg] by blast
    subgoal for ret lg using ghf_real_ret [of D mfg ws rs n tol ret lg] by blast
    subgoal for ret lg using ghf_real_ret [of D mfg ws rs n tol ret lg] by blast
    subgoal for ret lg using ghf_complex_ret [of D mfg rs n tol ret lg] by blast
    subgoal for ret lg using dhf_stability_ret [of D mf rs n tol ret lg] by blast
    subgoal for ret lg using rhf_external_ret [of D mfs ws rs n tol ret lg] by blast
    subgoal for ret lg using rhf_external_ret [of D mfs ws rs n tol ret lg] by blast
    subgoal for ret lg using uhf_external_ret [of D mfx ws rs n tol ret lg] by blast
    subgoal for ret lg using uhf_external_ret [of D mfx ws rs n tol ret lg] by blast
    done
qed

theorem verdict_is_threshold_witness:
  "rhf_internal ex_davidson ex_rhf True True 3 (1 / 10 ^ 4) =
     Inr (WithStatus (mo_coeff ex_rhf) True,
          [Info ''rhf_internal: lowest eigs of H = '' [2, 3, 4],
           dump_status True ''RHF'' ''internal'']) \<and>
   (\<exists>r e. solved ex_davidson (1 / 10 ^ 4) 3
            [Info ''rhf_internal: lowest eigs of H = '' [2, 3, 4],
             dump_status True ''RHF'' ''internal'']
            ''rhf_internal: lowest eigs of H = '' r \<and>
          lowest_eig r = Some e \<and>
          dump_status (\<not> e < - (1 / 10 ^ 5)) (cls ex_rhf) ''internal''
            \<in> set [Info ''rhf_internal: lowest eigs of H = '' [2, 3, 4],
                   dump_status True ''RHF'' ''internal''] \<and>
          WithStatus (mo_coeff ex_rhf) True =
            ret_of True (ret_mo (WithStatus (mo_coeff ex_rhf) True)) (\<not> e < - (1 / 10 ^ 5)))"
  using verdict_is_threshold [where D = ex_davidson and mf = ex_rhf and ws = True and rs = True
      and n = 3 and tol = "1 / 10 ^ 4", THEN conjunct1, rule_format, OF ex_rhf_internal_run]
    ex_rhf_internal_run
  by blast

text \<open>
  C2. An internal-channel call on a solution whose lowest internal eigenvalue is at
  least -1e-5 returns the coefficient matrix of the input, \<^verbatim>\<open>mf.mo_coeff\<close>, itself;
  other orbitals than the input's come back only for an eigenvalue below -1e-5.
\<close>

theorem stable_returns_input_orbitals:
  "(\<forall>ret lg. rhf_internal D mf ws rs n tol = Inr (ret, lg) \<longrightarrow>
        (\<exists>r e. solved D tol n lg ''rhf_internal: lowest eigs of H = '' r \<and>
           lowest_eig r = Some e \<and>
           (- (1 / 10 ^ 5) \<le> e \<longrightarrow> ret_mo ret = mo_coeff mf) \<and>
           (ret_mo ret \<noteq> mo_coeff mf \<longrightarrow> e < - (1 / 10 ^ 5)))) \<and>
   (\<forall>ret lg. rohf_internal D mf ws rs n tol = Inr (ret, lg) \<longrightarrow>
        (\<exists>r e. solved D tol n lg ''rohf_internal: lowest eigs of H = '' r \<and>
           lowest_eig r = Some e \<and>
           (- (1 / 10 ^ 5) \<le> e \<longrightarrow> ret_mo ret = mo_coeff mf) \<and>
           (ret_mo ret \<noteq> mo_coeff mf \<longrightarrow> e < - (1 / 10 ^ 5)))) \<and>
   (\<forall>ret lg. uhf_internal D mfu ws rs n tol = Inr (ret, lg) \<longrightarrow>
        (\<exists>r e. solved D tol n lg ''uhf_internal: lowest eigs of H = '' r \<and>
           lowest_eig r = Some e \<and>
           (- (1 / 10 ^ 5) \<le> e \<longrightarrow> ret_mo ret = mo_coeff mfu) \<and>
           (ret_mo ret \<noteq> mo_coeff mfu \<longrightarrow> e < - (1 / 10 ^ 5)))) \<and>
   (\<forall>ret lg. ghf_real D mfg ws rs n tol = Inr (ret, lg) \<longrightarrow>
        (\<exists>r e. solved D tol n lg ''ghf_real_internal: lowest eigs of H = '' r \<and>
           lowest_eig r = Some e \<and>
           (- (1 / 10 ^ 5) \<le> e \<longrightarrow> ret_mo ret = mo_coeff mfg) \<and>
           (ret_mo ret \<noteq> mo_coeff mfg \<longrightarrow> e < - (1 / 10 ^ 5)))) \<and>
   (\<forall>ret lg. ghf_complex D mfg rs n tol = Inr (ret, lg) \<longrightarrow>
        (\<exists>r e. solved D tol n lg ''ghf_complex_internal: lowest eigs of H = '' r \<and>
           lowest_eig r = Some e \<and>
           (- (1 / 10 ^ 5) \<le> e \<longrightarrow> ret_mo ret = mo_coeff mfg) \<and>
           (ret_mo ret \<noteq> mo_coeff mfg \<longrightarrow> e < - (1 / 10 ^ 5)))) \<and>
   (\<forall>ret lg. dhf_stability D mf rs n tol = Inr (ret, lg) \<longrightarrow>
        (\<exists>aop x0 pre r e. D aop x0 pre tol n = Inr r \<and>
           lowest_eig r = Some e \<and>
           (- (1 / 10 ^ 5) \<le> e \<longrightarrow> ret_mo ret = mo_coeff mf) \<and>
           (ret_mo ret \<noteq> mo_coeff mf \<longrightarrow> e < - (1 / 10 ^ 5))))"
  apply (intro conjI allI impI)
  subgoal for ret lg using rhf_internal_ret [of D mf ws rs n tol ret lg] by (metis not_le)
  subgoal for ret lg using rohf_internal_ret [of D mf ws rs n tol ret lg] by (metis not_le)
  subgoal for ret lg using uhf_internal_ret [of D mfu ws rs n tol ret lg] by (metis not_le)
  subgoal for ret lg using ghf_real_ret [of D mfg ws rs n tol ret lg] by (metis not_le)
  subgoal for ret lg using ghf_complex_ret [of D mfg rs n tol ret lg] by (metis not_le)
  subgoal for ret lg using dhf_stability_ret [of D mf rs n tol ret lg] by (metis not_le)
  done

theorem stable_returns_input_orbitals_witness:
  "rhf_internal ex_davidson ex_rhf True True 3 (1 / 10 ^ 4) =
     Inr (WithStatus (mo_coeff ex_rhf) True,
          [Info ''rhf_internal: lowest eigs of H = '' [2, 3, 4],
           dump_status True ''RHF'' ''internal'']) \<and>
   (\<exists>r e. solved ex_davidson (1 / 10 ^ 4) 3
            [Info ''rhf_internal: lowest eigs of H = '' [2, 3, 4],
             dump_status True ''RHF'' ''internal'']
            ''rhf_internal: lowest eigs of H = '' r \<and>
          lowest_eig r = Some e \<and>
          (- (1 / 10 ^ 5) \<le> e \<longrightarrow>
             ret_mo (WithStatus (mo_coeff ex_rhf) True) = mo_coeff ex_rhf) \<and>
          (ret_mo (WithStatus (mo_coeff ex_rhf) True) \<noteq> mo_coeff ex_rhf \<longrightarrow>
             e < - (1 / 10 ^ 5)))"
  using stable_returns_input_orbitals [where D = ex_davidson and mf = ex_rhf and ws = True
      and rs = True and n = 3 and tol = "1 / 10 ^ 4", THEN conjunct1, rule_format,
      OF ex_rhf_internal_run]
    ex_rhf_internal_run
  by blast

subsection \<open>The external entry points\<close>

lemma gen_hop_rhf_external_ops:
  assumes "gen_hop_rhf_external mf ws = Inr (hop1, hd1, hop2, hd2)"
  shows "\<exists>fvv foo orbv orbo sf.
     hop1 = hop_real2complex_rhf fvv foo orbv orbo (gen_response mf [Singlet None, Hermi 2]) sf
              (length (where_idx (\<lambda>n. n = 0) (mo_occ mf)))
              (length (where_idx (\<lambda>n. n = 2) (mo_occ mf))) \<and>
     hop2 = hop_rhf2uhf fvv foo orbv orbo (gen_response mf [Singlet (Some False), Hermi 1]) sf
              (length (where_idx (\<lambda>n. n = 0) (mo_occ mf)))
              (length (where_idx (\<lambda>n. n = 2) (mo_occ mf)))"
  using assms unfolding gen_hop_rhf_external_def Let_def
  by (clarsimp simp: ebind_Inr) blast

lemma gen_hop_uhf_external_ops:
  assumes "gen_hop_uhf_external mf ws = Inr (hop1, hd1, hop2, hd2)"
  shows "\<exists>fvva fooa fvvb foob orbva orboa orbvb orbob sf1 sf2.
     hop1 = hop_real2complex_uhf fvva fooa fvvb foob orbva orboa orbvb orbob
              (gen_response mf [With_j False, Hermi 2]) sf1
              (length (where_idx (\<lambda>n. n = 0) (fst (mo_occ mf))))
              (length (where_idx (\<lambda>n. n > 0) (fst (mo_occ mf))))
              (length (where_idx (\<lambda>n. n = 0) (snd (mo_occ mf))))
              (length (where_idx (\<lambda>n. n > 0) (snd (mo_occ mf)))) \<and>
     hop2 = hop_uhf2ghf fvva fooa fvvb foob orbva orboa orbvb orbob
              (gen_response mf [With_j False, Hermi 0]) sf2
              (length (where_idx (\<lambda>n. n = 0) (fst (mo_occ mf))))
              (length (where_idx (\<lambda>n. n > 0) (fst (mo_occ mf))))
              (length (where_idx (\<lambda>n. n = 0) (snd (mo_occ mf))))
              (length (where_idx (\<lambda>n. n > 0) (snd (mo_occ mf))))"
  using assms unfolding gen_hop_uhf_external_def Let_def
  by (clarsimp simp: ebind_Inr) blast

lemma rhf_external_channels:
  assumes "rhf_external D mf ws rs n tol = Inr (ret, lg)"
  shows "\<exists>hop1 hd1 hop2 hd2 x0 r1 e1 v1 r3 e3 mo.
           gen_hop_rhf_external mf ws = Inr (hop1, hd1, hop2, hd2) \<and>
           x0_external hd1 ws = Inr x0 \<and>
           D hop1 x0 (precond hd1) tol n = Inr r1 \<and>
           lowest_eig r1 = Some e1 \<and> lowest_vec r1 = Some v1 \<and>
           D hop2 v1 (precond hd2) tol n = Inr r3 \<and>
           lowest_eig r3 = Some e3 \<and>
           lg = [Info ''rhf_real2complex: lowest eigs of H = '' (eigs r1),
                 dump_status (\<not> e1 < - (1 / 10 ^ 5)) (cls mf) ''real -> complex'',
                 Info ''rhf_external: lowest eigs of H = '' (eigs r3),
                 dump_status (\<not> e3 < - (1 / 10 ^ 5)) (cls mf) ''RHF/RKS -> UHF/UKS''] \<and>
           ret = (if rs then WithStatus mo (\<not> e3 < - (1 / 10 ^ 5)) else OnlyMo mo) \<and>
           (- (1 / 10 ^ 5) \<le> e3 \<longrightarrow> mo = (mo_coeff mf, mo_coeff mf)) \<and>
           (e3 < - (1 / 10 ^ 5) \<longrightarrow>
              (\<exists>v3 m. lowest_vec r3 = Some v3 \<and>
                 rotate_mo (mo_coeff mf) (mo_occ mf) v3 = Inr m \<and>
                 mo = (m, mo_coeff mf)))"
proof -
  from assms obtain hop1 hd1 hop2 hd2 x0 r1 r1' b1 v1 r3 r3' b3 mo where
    g: "gen_hop_rhf_external mf ws = Inr (hop1, hd1, hop2, hd2)"
    and x0: "x0_external hd1 ws = Inr x0"
    and d1: "D hop1 x0 (precond hd1) tol n = Inr r1"
    and s1: "(if n \<noteq> 1 then first_root r1 else Inr r1) = Inr r1'"
    and b1: "below r1' = Inr b1"
    and v1: "vec_of r1' = Inr v1"
    and d3: "D hop2 v1 (precond hd2) tol n = Inr r3"
    and s3: "(if n \<noteq> 1 then first_root r3 else Inr r3) = Inr r3'"
    and b3: "below r3' = Inr b3"
    and mo: "(if \<not> b3 then Inr (mo_coeff mf, mo_coeff mf)
              else ebind (vec_of r3') (\<lambda>v3.
                 ebind (rotate_mo (mo_coeff mf) (mo_occ mf) v3) (\<lambda>m.
                 Inr (m, mo_coeff mf)))) = Inr mo"
    and ret: "ret = ret_of rs mo (\<not> b3)"
    and lg: "lg = [Info ''rhf_real2complex: lowest eigs of H = '' (eigs r1),
                   dump_status (\<not> b1) (cls mf) ''real -> complex'',
                   Info ''rhf_external: lowest eigs of H = '' (eigs r3),
                   dump_status (\<not> b3) (cls mf) ''RHF/RKS -> UHF/UKS'']"
    by (clarsimp simp: rhf_external_def Let_def ebind_Inr)
  from select_below [OF s1 b1] obtain e1 where
    e1: "lowest_eig r1 = Some e1" "b1 = (e1 < - (1 / 10 ^ 5))"
    by blast
  note lv1 = select_vec [OF s1 v1]
  from channel_tail [OF s3 b3 mo] obtain e3 where
    e3: "lowest_eig r3 = Some e3" "b3 = (e3 < - (1 / 10 ^ 5))"
      "- (1 / 10 ^ 5) \<le> e3 \<longrightarrow> mo = (mo_coeff mf, mo_coeff mf)"
      "e3 < - (1 / 10 ^ 5) \<longrightarrow> (\<exists>v. lowest_vec r3 = Some v \<and>
         ebind (rotate_mo (mo_coeff mf) (mo_occ mf) v) (\<lambda>m. Inr (m, mo_coeff mf)) = Inr mo)"
    by blast
  have lg': "lg = [Info ''rhf_real2complex: lowest eigs of H = '' (eigs r1),
                 dump_status (\<not> e1 < - (1 / 10 ^ 5)) (cls mf) ''real -> complex'',
                 Info ''rhf_external: lowest eigs of H = '' (eigs r3),
                 dump_status (\<not> e3 < - (1 / 10 ^ 5)) (cls mf) ''RHF/RKS -> UHF/UKS'']"
    by (simp add: lg e1(2) e3(2))
  have st: "ret = (if rs then WithStatus mo (\<not> e3 < - (1 / 10 ^ 5)) else OnlyMo mo)"
    by (simp add: ret e3(2) ret_of_def)
  have rot: "e3 < - (1 / 10 ^ 5) \<longrightarrow>
              (\<exists>v3 m. lowest_vec r3 = Some v3 \<and>
                 rotate_mo (mo_coeff mf) (mo_occ mf) v3 = Inr m \<and>
                 mo = (m, mo_coeff mf))"
    using e3(4) unfolding ebind_Inr by blast
  show ?thesis
    apply (rule exI [of _ hop1], rule exI [of _ hd1], rule exI [of _ hop2], rule exI [of _ hd2],
        rule exI [of _ x0], rule exI [of _ r1], rule exI [of _ e1], rule exI [of _ v1],
        rule exI [of _ r3], rule exI [of _ e3], rule exI [of _ mo])
    using g x0 d1 e1(1) lv1 d3 e3(1) lg' st e3(3) rot by blast
qed

lemma uhf_external_channels:
  assumes "uhf_external D mf ws rs n tol = Inr (ret, lg)"
  shows "\<exists>hop1 hd1 hop2 hd2 x0 r1 e1 x02 r3 e3 mo.
           gen_hop_uhf_external mf ws = Inr (hop1, hd1, hop2, hd2) \<and>
           x0_external hd1 ws = Inr x0 \<and>
           D hop1 x0 (precond hd1) tol n = Inr r1 \<and>
           lowest_eig r1 = Some e1 \<and>
           x0_external hd2 ws = Inr x02 \<and>
           D hop2 x02 (precond hd2) tol n = Inr r3 \<and>
           lowest_eig r3 = Some e3 \<and>
           lg = [Info ''uhf_real2complex: lowest eigs of H = '' (eigs r1),
                 dump_status (\<not> e1 < - (1 / 10 ^ 5)) (cls mf) ''real -> complex'',
                 Info ''uhf_external: lowest eigs of H = '' (eigs r3),
                 dump_status (\<not> e3 < - (1 / 10 ^ 5)) (cls mf) ''UHF/UKS -> GHF/GKS''] \<and>
           ret = (if rs then WithStatus mo (\<not> e3 < - (1 / 10 ^ 5)) else OnlyMo mo) \<and>
           (- (1 / 10 ^ 5) \<le> e3 \<longrightarrow>
              mo = block_diag (fst (mo_coeff mf)) (snd (mo_coeff mf))) \<and>
           (e3 < - (1 / 10 ^ 5) \<longrightarrow>
              (\<exists>v3. lowest_vec r3 = Some v3 \<and>
                 rotate_uhf2ghf (block_diag (fst (mo_coeff mf)) (snd (mo_coeff mf)))
                   (mo_occ mf) v3 = Inr mo))"
proof -
  from assms obtain hop1 hd1 hop2 hd2 x0 r1 r1' b1 x02 r3 r3' b3 mo where
    g: "gen_hop_uhf_external mf ws = Inr (hop1, hd1, hop2, hd2)"
    and x0: "x0_external hd1 ws = Inr x0"
    and d1: "D hop1 x0 (precond hd1) tol n = Inr r1"
    and s1: "(if n \<noteq> 1 then first_root r1 else Inr r1) = Inr r1'"
    and b1: "below r1' = Inr b1"
    and x02: "x0_external hd2 ws = Inr x02"
    and d3: "D hop2 x02 (precond hd2) tol n = Inr r3"
    and s3: "(if n \<noteq> 1 then first_root r3 else Inr r3) = Inr r3'"
    and b3: "below r3' = Inr b3"
    and mo0: "(if b3 then ebind (vec_of r3')
                     (rotate_uhf2ghf (block_diag (fst (mo_coeff mf)) (snd (mo_coeff mf)))
                        (mo_occ mf))
               else Inr (block_diag (fst (mo_coeff mf)) (snd (mo_coeff mf)))) = Inr mo"
    and ret: "ret = ret_of rs mo (\<not> b3)"
    and lg: "lg = [Info ''uhf_real2complex: lowest eigs of H = '' (eigs r1),
                   dump_status (\<not> b1) (cls mf) ''real -> complex'',
                   Info ''uhf_external: lowest eigs of H = '' (eigs r3),
                   dump_status (\<not> b3) (cls mf) ''UHF/UKS -> GHF/GKS'']"
    by (clarsimp simp: uhf_external_def Let_def ebind_Inr)
  have mo: "(if \<not> b3 then Inr (block_diag (fst (mo_coeff mf)) (snd (mo_coeff mf)))
              else ebind (vec_of r3')
                     (rotate_uhf2ghf (block_diag (fst (mo_coeff mf)) (snd (mo_coeff mf)))
                        (mo_occ mf))) = Inr mo"
    using mo0 by (cases b3) simp_all
  from select_below [OF s1 b1] obtain e1 where
    e1: "lowest_eig r1 = Some e1" "b1 = (e1 < - (1 / 10 ^ 5))"
    by blast
  from channel_tail [OF s3 b3 mo] obtain e3 where
    e3: "lowest_eig r3 = Some e3" "b3 = (e3 < - (1 / 10 ^ 5))"
      "- (1 / 10 ^ 5) \<le> e3 \<longrightarrow> mo = block_diag (fst (mo_coeff mf)) (snd (mo_coeff mf))"
      "e3 < - (1 / 10 ^ 5) \<longrightarrow> (\<exists>v. lowest_vec r3 = Some v \<and>
         rotate_uhf2ghf (block_diag (fst (mo_coeff mf)) (snd (mo_coeff mf))) (mo_occ mf) v = Inr mo)"
    by blast
  have lg': "lg = [Info ''uhf_real2complex: lowest eigs of H = '' (eigs r1),
                 dump_status (\<not> e1 < - (1 / 10 ^ 5)) (cls mf) ''real -> complex'',
                 Info ''uhf_external: lowest eigs of H = '' (eigs r3),
                 dump_status (\<not> e3 < - (1 / 10 ^ 5)) (cls mf) ''UHF/UKS -> GHF/GKS'']"
    by (simp add: lg e1(2) e3(2))
  have st: "ret = (if rs then WithStatus mo (\<not> e3 < - (1 / 10 ^ 5)) else OnlyMo mo)"
    by (simp add: ret e3(2) ret_of_def)
  show ?thesis
    apply (rule exI [of _ hop1], rule exI [of _ hd1], rule exI [of _ hop2], rule exI [of _ hd2],
        rule exI [of _ x0], rule exI [of _ r1], rule exI [of _ e1], rule exI [of _ x02],
        rule exI [of _ r3], rule exI [of _ e3], rule exI [of _ mo])
    using g x0 d1 e1(1) x02 d3 e3(1) lg' st e3(3) e3(4) by blast
qed

lemma ex_rhf_triplet_ops:
  "ebind (gen_hop_rhf_external ex_rhf_triplet True) (\<lambda>(hop1, hd1, hop2, hd2).
     ebind (hop1 [1]) (\<lambda>a. ebind (hop2 [1]) (\<lambda>b. Inr (a, b, hd1, hd2)))) =
   Inr ([2], [- 4], [2], [2])"
  by code_simp

lemma ex_rhf_triplet_unpack:
  "unpack_uniq_var [1] [2, 0] = Inr \<lparr>nrows = 2, ncols = 2, dat = [0, - 1, 1, 0]\<rparr>"
  by code_simp

lemma ex_rhf_triplet_rotate:
  "\<exists>m. rotate_mo (mo_coeff ex_rhf_triplet) (mo_occ ex_rhf_triplet) [1] = Inr m"
  by (simp add: rotate_mo_def ex_rhf_triplet_def ex_rhf_def ex_rhf_triplet_unpack expmat_def
        dot_def)

lemma ex_rhf_triplet_run:
  "rhf_external ex_davidson ex_rhf_triplet True True 3 (1 / 10 ^ 4) =
     ebind (rotate_mo (mo_coeff ex_rhf_triplet) (mo_occ ex_rhf_triplet) [1]) (\<lambda>m.
       Inr (WithStatus (m, mo_coeff ex_rhf_triplet) False,
          [Info ''rhf_real2complex: lowest eigs of H = '' [2, 3, 4],
           dump_status True ''RHF'' ''real -> complex'',
           Info ''rhf_external: lowest eigs of H = '' [- 4, - 3, - 2],
           dump_status False ''RHF'' ''RHF/RKS -> UHF/UKS'']))"
proof -
  from ex_rhf_triplet_ops obtain hop1 hop2 where
    g: "gen_hop_rhf_external ex_rhf_triplet True = Inr (hop1, [2], hop2, [2])"
    and h1: "hop1 [1] = Inr [2]" and h2: "hop2 [1] = Inr [- 4]"
    by (auto simp: ebind_Inr)
  have c: "cls ex_rhf_triplet = ''RHF''"
    by (simp add: ex_rhf_triplet_def ex_rhf_def)
  show ?thesis
    unfolding rhf_external_def g
    by (simp add: x0_external_def ex_davidson_def h1 h2 Let_def first_root_def below_def
          vec_of_def eigs_def ret_of_def c ebind_def split: sum.splits)
qed


lemma ex_uhf_flip_ops:
  "ebind (gen_hop_uhf_external ex_uhf_flip True) (\<lambda>(hop1, hd1, hop2, hd2).
     ebind (hop1 [1, 0]) (\<lambda>a. ebind (hop2 [1, 0]) (\<lambda>b. Inr (a, b, hd1, hd2)))) =
   Inr ([2, 0], [- 1, 0], [2, 2], [2, 2])"
  by code_simp

lemma ex_uhf_flip_idx:
  "where_idx (\<lambda>n. n > 0) [1, 0::real] = [0]" "where_idx (\<lambda>n. n = 0) [1, 0::real] = [1]"
  by code_simp+

lemma ex_uhf_flip_rotate:
  "\<exists>m. rotate_uhf2ghf (block_diag (fst (mo_coeff ex_uhf_flip)) (snd (mo_coeff ex_uhf_flip)))
         (mo_occ ex_uhf_flip) [1, 0] = Inr m"
  by (simp add: rotate_uhf2ghf_def ex_uhf_flip_def ex_uhf_def ex_uhf_flip_idx Let_def
        reshape_def put_block_def mat_sub_def conjT_def expmat_def dot_def block_diag_def)

lemma ex_uhf_flip_run:
  "uhf_external ex_davidson ex_uhf_flip True True 3 (1 / 10 ^ 4) =
     ebind (rotate_uhf2ghf (block_diag (fst (mo_coeff ex_uhf_flip)) (snd (mo_coeff ex_uhf_flip)))
              (mo_occ ex_uhf_flip) [1, 0]) (\<lambda>m.
       Inr (WithStatus m False,
          [Info ''uhf_real2complex: lowest eigs of H = '' [2, 3, 4],
           dump_status True ''UHF'' ''real -> complex'',
           Info ''uhf_external: lowest eigs of H = '' [- 1, 0, 1],
           dump_status False ''UHF'' ''UHF/UKS -> GHF/GKS'']))"
proof -
  from ex_uhf_flip_ops obtain hop1 hop2 where
    g: "gen_hop_uhf_external ex_uhf_flip True = Inr (hop1, [2, 2], hop2, [2, 2])"
    and h1: "hop1 [1, 0] = Inr [2, 0]" and h2: "hop2 [1, 0] = Inr [- 1, 0]"
    by (auto simp: ebind_Inr)
  have c: "cls ex_uhf_flip = ''UHF''"
    by (simp add: ex_uhf_flip_def ex_uhf_def)
  show ?thesis
    unfolding uhf_external_def g
    by (simp add: x0_external_def ex_davidson_def h1 h2 Let_def first_root_def below_def
          vec_of_def eigs_def ret_of_def c ebind_def split: sum.splits)
qed

text \<open>
  C10. A call of \<^verbatim>\<open>rhf_external\<close> or \<^verbatim>\<open>uhf_external\<close> that returns has run the solver
  twice, on the two operators of its builder: first on \<^verbatim>\<open>hop_real2complex\<close>, then on the
  operator of the reference extension (\<^verbatim>\<open>hop_rhf2uhf\<close>, \<^verbatim>\<open>hop_uhf2ghf\<close>) with the
  preconditioner over \<^verbatim>\<open>hdiag2\<close>. The returned status is \<open>\<not> e3 < -1e-5\<close> for the lowest
  eigenvalue \<open>e3\<close> of the second solve; the returned orbitals are the input's for a stable
  verdict and the input's rotated by the lowest eigenvector of the second solve
  otherwise. The lowest eigenvalue \<open>e1\<close> of the first solve decides the logged verdict
  of the real -> complex channel and occurs nowhere in the returned value. The first
  solve hands the second its eigenvector as initial guess in \<^verbatim>\<open>rhf_external\<close>;
  \<^verbatim>\<open>uhf_external\<close> builds that guess from \<^verbatim>\<open>hdiag2\<close>.
\<close>

theorem external_result_from_extension_channel:
  "(\<forall>ret lg. rhf_external D mfs ws rs n tol = Inr (ret, lg) \<longrightarrow>
      (\<exists>hop1 hd1 hop2 hd2 x0 r1 e1 v1 r3 e3 mo.
         gen_hop_rhf_external mfs ws = Inr (hop1, hd1, hop2, hd2) \<and>
         (\<exists>fvv foo orbv orbo sf.
            hop1 = hop_real2complex_rhf fvv foo orbv orbo
                     (gen_response mfs [Singlet None, Hermi 2]) sf
                     (length (where_idx (\<lambda>n. n = 0) (mo_occ mfs)))
                     (length (where_idx (\<lambda>n. n = 2) (mo_occ mfs))) \<and>
            hop2 = hop_rhf2uhf fvv foo orbv orbo
                     (gen_response mfs [Singlet (Some False), Hermi 1]) sf
                     (length (where_idx (\<lambda>n. n = 0) (mo_occ mfs)))
                     (length (where_idx (\<lambda>n. n = 2) (mo_occ mfs)))) \<and>
         x0_external hd1 ws = Inr x0 \<and>
         D hop1 x0 (precond hd1) tol n = Inr r1 \<and>
         lowest_eig r1 = Some e1 \<and> lowest_vec r1 = Some v1 \<and>
         D hop2 v1 (precond hd2) tol n = Inr r3 \<and>
         lowest_eig r3 = Some e3 \<and>
         lg = [Info ''rhf_real2complex: lowest eigs of H = '' (eigs r1),
               dump_status (\<not> e1 < - (1 / 10 ^ 5)) (cls mfs) ''real -> complex'',
               Info ''rhf_external: lowest eigs of H = '' (eigs r3),
               dump_status (\<not> e3 < - (1 / 10 ^ 5)) (cls mfs) ''RHF/RKS -> UHF/UKS''] \<and>
         ret = (if rs then WithStatus mo (\<not> e3 < - (1 / 10 ^ 5)) else OnlyMo mo) \<and>
         (- (1 / 10 ^ 5) \<le> e3 \<longrightarrow> mo = (mo_coeff mfs, mo_coeff mfs)) \<and>
         (e3 < - (1 / 10 ^ 5) \<longrightarrow>
            (\<exists>v3 m. lowest_vec r3 = Some v3 \<and>
               rotate_mo (mo_coeff mfs) (mo_occ mfs) v3 = Inr m \<and>
               mo = (m, mo_coeff mfs))))) \<and>
   (\<forall>ret lg. uhf_external D mfx ws rs n tol = Inr (ret, lg) \<longrightarrow>
      (\<exists>hop1 hd1 hop2 hd2 x0 r1 e1 x02 r3 e3 mo.
         gen_hop_uhf_external mfx ws = Inr (hop1, hd1, hop2, hd2) \<and>
         (\<exists>fvva fooa fvvb foob orbva orboa orbvb orbob sf1 sf2.
            hop1 = hop_real2complex_uhf fvva fooa fvvb foob orbva orboa orbvb orbob
                     (gen_response mfx [With_j False, Hermi 2]) sf1
                     (length (where_idx (\<lambda>n. n = 0) (fst (mo_occ mfx))))
                     (length (where_idx (\<lambda>n. n > 0) (fst (mo_occ mfx))))
                     (length (where_idx (\<lambda>n. n = 0) (snd (mo_occ mfx))))
                     (length (where_idx (\<lambda>n. n > 0) (snd (mo_occ mfx)))) \<and>
            hop2 = hop_uhf2ghf fvva fooa fvvb foob orbva orboa orbvb orbob
                     (gen_response mfx [With_j False, Hermi 0]) sf2
                     (length (where_idx (\<lambda>n. n = 0) (fst (mo_occ mfx))))
                     (length (where_idx (\<lambda>n. n > 0) (fst (mo_occ mfx))))
                     (length (where_idx (\<lambda>n. n = 0) (snd (mo_occ mfx))))
                     (length (where_idx (\<lambda>n. n > 0) (snd (mo_occ mfx))))) \<and>
         x0_external hd1 ws = Inr x0 \<and>
         D hop1 x0 (precond hd1) tol n = Inr r1 \<and>
         lowest_eig r1 = Some e1 \<and>
         x0_external hd2 ws = Inr x02 \<and>
         D hop2 x02 (precond hd2) tol n = Inr r3 \<and>
         lowest_eig r3 = Some e3 \<and>
         lg = [Info ''uhf_real2complex: lowest eigs of H = '' (eigs r1),
               dump_status (\<not> e1 < - (1 / 10 ^ 5)) (cls mfx) ''real -> complex'',
               Info ''uhf_external: lowest eigs of H = '' (eigs r3),
               dump_status (\<not> e3 < - (1 / 10 ^ 5)) (cls mfx) ''UHF/UKS -> GHF/GKS''] \<and>
         ret = (if rs then WithStatus mo (\<not> e3 < - (1 / 10 ^ 5)) else OnlyMo mo) \<and>
         (- (1 / 10 ^ 5) \<le> e3 \<longrightarrow>
            mo = block_diag (fst (mo_coeff mfx)) (snd (mo_coeff mfx))) \<and>
         (e3 < - (1 / 10 ^ 5) \<longrightarrow>
            (\<exists>v3. lowest_vec r3 = Some v3 \<and>
               rotate_uhf2ghf (block_diag (fst (mo_coeff mfx)) (snd (mo_coeff mfx)))
                 (mo_occ mfx) v3 = Inr mo))))"
proof (intro conjI allI impI)
  fix ret lg
  assume "rhf_external D mfs ws rs n tol = Inr (ret, lg)"
  from rhf_external_channels [OF this] obtain hop1 hd1 hop2 hd2 x0 r1 e1 v1 r3 e3 mo where
    g: "gen_hop_rhf_external mfs ws = Inr (hop1, hd1, hop2, hd2)"
    and rest: "x0_external hd1 ws = Inr x0 \<and>
         D hop1 x0 (precond hd1) tol n = Inr r1 \<and>
         lowest_eig r1 = Some e1 \<and> lowest_vec r1 = Some v1 \<and>
         D hop2 v1 (precond hd2) tol n = Inr r3 \<and>
         lowest_eig r3 = Some e3 \<and>
         lg = [Info ''rhf_real2complex: lowest eigs of H = '' (eigs r1),
               dump_status (\<not> e1 < - (1 / 10 ^ 5)) (cls mfs) ''real -> complex'',
               Info ''rhf_external: lowest eigs of H = '' (eigs r3),
               dump_status (\<not> e3 < - (1 / 10 ^ 5)) (cls mfs) ''RHF/RKS -> UHF/UKS''] \<and>
         ret = (if rs then WithStatus mo (\<not> e3 < - (1 / 10 ^ 5)) else OnlyMo mo) \<and>
         (- (1 / 10 ^ 5) \<le> e3 \<longrightarrow> mo = (mo_coeff mfs, mo_coeff mfs)) \<and>
         (e3 < - (1 / 10 ^ 5) \<longrightarrow>
            (\<exists>v3 m. lowest_vec r3 = Some v3 \<and>
               rotate_mo (mo_coeff mfs) (mo_occ mfs) v3 = Inr m \<and>
               mo = (m, mo_coeff mfs)))"
    by blast
  show "\<exists>hop1 hd1 hop2 hd2 x0 r1 e1 v1 r3 e3 mo.
         gen_hop_rhf_external mfs ws = Inr (hop1, hd1, hop2, hd2) \<and>
         (\<exists>fvv foo orbv orbo sf.
            hop1 = hop_real2complex_rhf fvv foo orbv orbo
                     (gen_response mfs [Singlet None, Hermi 2]) sf
                     (length (where_idx (\<lambda>n. n = 0) (mo_occ mfs)))
                     (length (where_idx (\<lambda>n. n = 2) (mo_occ mfs))) \<and>
            hop2 = hop_rhf2uhf fvv foo orbv orbo
                     (gen_response mfs [Singlet (Some False), Hermi 1]) sf
                     (length (where_idx (\<lambda>n. n = 0) (mo_occ mfs)))
                     (length (where_idx (\<lambda>n. n = 2) (mo_occ mfs)))) \<and>
         x0_external hd1 ws = Inr x0 \<and>
         D hop1 x0 (precond hd1) tol n = Inr r1 \<and>
         lowest_eig r1 = Some e1 \<and> lowest_vec r1 = Some v1 \<and>
         D hop2 v1 (precond hd2) tol n = Inr r3 \<and>
         lowest_eig r3 = Some e3 \<and>
         lg = [Info ''rhf_real2complex: lowest eigs of H = '' (eigs r1),
               dump_status (\<not> e1 < - (1 / 10 ^ 5)) (cls mfs) ''real -> complex'',
               Info ''rhf_external: lowest eigs of H = '' (eigs r3),
               dump_status (\<not> e3 < - (1 / 10 ^ 5)) (cls mfs) ''RHF/RKS -> UHF/UKS''] \<and>
         ret = (if rs then WithStatus mo (\<not> e3 < - (1 / 10 ^ 5)) else OnlyMo mo) \<and>
         (- (1 / 10 ^ 5) \<le> e3 \<longrightarrow> mo = (mo_coeff mfs, mo_coeff mfs)) \<and>
         (e3 < - (1 / 10 ^ 5) \<longrightarrow>
            (\<exists>v3 m. lowest_vec r3 = Some v3 \<and>
               rotate_mo (mo_coeff mfs) (mo_occ mfs) v3 = Inr m \<and>
               mo = (m, mo_coeff mfs)))"
    apply (rule exI [of _ hop1], rule exI [of _ hd1], rule exI [of _ hop2], rule exI [of _ hd2],
        rule exI [of _ x0], rule exI [of _ r1], rule exI [of _ e1], rule exI [of _ v1],
        rule exI [of _ r3], rule exI [of _ e3], rule exI [of _ mo])
    using g gen_hop_rhf_external_ops [OF g] rest by (intro conjI) simp_all
next
  fix ret lg
  assume "uhf_external D mfx ws rs n tol = Inr (ret, lg)"
  from uhf_external_channels [OF this] obtain hop1 hd1 hop2 hd2 x0 r1 e1 x02 r3 e3 mo where
    g: "gen_hop_uhf_external mfx ws = Inr (hop1, hd1, hop2, hd2)"
    and rest: "x0_external hd1 ws = Inr x0 \<and>
         D hop1 x0 (precond hd1) tol n = Inr r1 \<and>
         lowest_eig r1 = Some e1 \<and>
         x0_external hd2 ws = Inr x02 \<and>
         D hop2 x02 (precond hd2) tol n = Inr r3 \<and>
         lowest_eig r3 = Some e3 \<and>
         lg = [Info ''uhf_real2complex: lowest eigs of H = '' (eigs r1),
               dump_status (\<not> e1 < - (1 / 10 ^ 5)) (cls mfx) ''real -> complex'',
               Info ''uhf_external: lowest eigs of H = '' (eigs r3),
               dump_status (\<not> e3 < - (1 / 10 ^ 5)) (cls mfx) ''UHF/UKS -> GHF/GKS''] \<and>
         ret = (if rs then WithStatus mo (\<not> e3 < - (1 / 10 ^ 5)) else OnlyMo mo) \<and>
         (- (1 / 10 ^ 5) \<le> e3 \<longrightarrow>
            mo = block_diag (fst (mo_coeff mfx)) (snd (mo_coeff mfx))) \<and>
         (e3 < - (1 / 10 ^ 5) \<longrightarrow>
            (\<exists>v3. lowest_vec r3 = Some v3 \<and>
               rotate_uhf2ghf (block_diag (fst (mo_coeff mfx)) (snd (mo_coeff mfx)))
                 (mo_occ mfx) v3 = Inr mo))"
    by blast
  show "\<exists>hop1 hd1 hop2 hd2 x0 r1 e1 x02 r3 e3 mo.
         gen_hop_uhf_external mfx ws = Inr (hop1, hd1, hop2, hd2) \<and>
         (\<exists>fvva fooa fvvb foob orbva orboa orbvb orbob sf1 sf2.
            hop1 = hop_real2complex_uhf fvva fooa fvvb foob orbva orboa orbvb orbob
                     (gen_response mfx [With_j False, Hermi 2]) sf1
                     (length (where_idx (\<lambda>n. n = 0) (fst (mo_occ mfx))))
                     (length (where_idx (\<lambda>n. n > 0) (fst (mo_occ mfx))))
                     (length (where_idx (\<lambda>n. n = 0) (snd (mo_occ mfx))))
                     (length (where_idx (\<lambda>n. n > 0) (snd (mo_occ mfx)))) \<and>
            hop2 = hop_uhf2ghf fvva fooa fvvb foob orbva orboa orbvb orbob
                     (gen_response mfx [With_j False, Hermi 0]) sf2
                     (length (where_idx (\<lambda>n. n = 0) (fst (mo_occ mfx))))
                     (length (where_idx (\<lambda>n. n > 0) (fst (mo_occ mfx))))
                     (length (where_idx (\<lambda>n. n = 0) (snd (mo_occ mfx))))
                     (length (where_idx (\<lambda>n. n > 0) (snd (mo_occ mfx))))) \<and>
         x0_external hd1 ws = Inr x0 \<and>
         D hop1 x0 (precond hd1) tol n = Inr r1 \<and>
         lowest_eig r1 = Some e1 \<and>
         x0_external hd2 ws = Inr x02 \<and>
         D hop2 x02 (precond hd2) tol n = Inr r3 \<and>
         lowest_eig r3 = Some e3 \<and>
         lg = [Info ''uhf_real2complex: lowest eigs of H = '' (eigs r1),
               dump_status (\<not> e1 < - (1 / 10 ^ 5)) (cls mfx) ''real -> complex'',
               Info ''uhf_external: lowest eigs of H = '' (eigs r3),
               dump_status (\<not> e3 < - (1 / 10 ^ 5)) (cls mfx) ''UHF/UKS -> GHF/GKS''] \<and>
         ret = (if rs then WithStatus mo (\<not> e3 < - (1 / 10 ^ 5)) else OnlyMo mo) \<and>
         (- (1 / 10 ^ 5) \<le> e3 \<longrightarrow>
            mo = block_diag (fst (mo_coeff mfx)) (snd (mo_coeff mfx))) \<and>
         (e3 < - (1 / 10 ^ 5) \<longrightarrow>
            (\<exists>v3. lowest_vec r3 = Some v3 \<and>
               rotate_uhf2ghf (block_diag (fst (mo_coeff mfx)) (snd (mo_coeff mfx)))
                 (mo_occ mfx) v3 = Inr mo))"
    apply (rule exI [of _ hop1], rule exI [of _ hd1], rule exI [of _ hop2], rule exI [of _ hd2],
        rule exI [of _ x0], rule exI [of _ r1], rule exI [of _ e1], rule exI [of _ x02],
        rule exI [of _ r3], rule exI [of _ e3], rule exI [of _ mo])
    using g gen_hop_uhf_external_ops [OF g] rest by (intro conjI) simp_all
qed

theorem external_result_from_extension_channel_witness:
  "rhf_external ex_davidson ex_rhf True True 3 (1 / 10 ^ 4) =
     Inr (WithStatus (mo_coeff ex_rhf, mo_coeff ex_rhf) True,
          [Info ''rhf_real2complex: lowest eigs of H = '' [- 4, - 3, - 2],
           dump_status False ''RHF'' ''real -> complex'',
           Info ''rhf_external: lowest eigs of H = '' [2, 3, 4],
           dump_status True ''RHF'' ''RHF/RKS -> UHF/UKS'']) \<and>
   (\<exists>m. rotate_mo (mo_coeff ex_rhf_triplet) (mo_occ ex_rhf_triplet) [1] = Inr m \<and>
      rhf_external ex_davidson ex_rhf_triplet True True 3 (1 / 10 ^ 4) =
        Inr (WithStatus (m, mo_coeff ex_rhf_triplet) False,
             [Info ''rhf_real2complex: lowest eigs of H = '' [2, 3, 4],
              dump_status True ''RHF'' ''real -> complex'',
              Info ''rhf_external: lowest eigs of H = '' [- 4, - 3, - 2],
              dump_status False ''RHF'' ''RHF/RKS -> UHF/UKS''])) \<and>
   (\<exists>hop1 hd1 hop2 hd2 v1 r3 e3.
      gen_hop_rhf_external ex_rhf_triplet True = Inr (hop1, hd1, hop2, hd2) \<and>
      ex_davidson hop2 v1 (precond hd2) (1 / 10 ^ 4) 3 = Inr r3 \<and>
      lowest_eig r3 = Some e3 \<and> e3 < - (1 / 10 ^ 5)) \<and>
   uhf_external ex_davidson ex_uhf True True 3 (1 / 10 ^ 4) =
     Inr (WithStatus (block_diag (fst (mo_coeff ex_uhf)) (snd (mo_coeff ex_uhf))) True,
          [Info ''uhf_real2complex: lowest eigs of H = '' [- 1, 0, 1],
           dump_status False ''UHF'' ''real -> complex'',
           Info ''uhf_external: lowest eigs of H = '' [2, 3, 4],
           dump_status True ''UHF'' ''UHF/UKS -> GHF/GKS'']) \<and>
   (\<exists>m. rotate_uhf2ghf (block_diag (fst (mo_coeff ex_uhf_flip)) (snd (mo_coeff ex_uhf_flip)))
          (mo_occ ex_uhf_flip) [1, 0] = Inr m \<and>
      uhf_external ex_davidson ex_uhf_flip True True 3 (1 / 10 ^ 4) =
        Inr (WithStatus m False,
             [Info ''uhf_real2complex: lowest eigs of H = '' [2, 3, 4],
              dump_status True ''UHF'' ''real -> complex'',
              Info ''uhf_external: lowest eigs of H = '' [- 1, 0, 1],
              dump_status False ''UHF'' ''UHF/UKS -> GHF/GKS'']))"
proof -
  from ex_rhf_triplet_rotate obtain m where
    m: "rotate_mo (mo_coeff ex_rhf_triplet) (mo_occ ex_rhf_triplet) [1] = Inr m"
    by blast
  have run: "rhf_external ex_davidson ex_rhf_triplet True True 3 (1 / 10 ^ 4) =
        Inr (WithStatus (m, mo_coeff ex_rhf_triplet) False,
             [Info ''rhf_real2complex: lowest eigs of H = '' [2, 3, 4],
              dump_status True ''RHF'' ''real -> complex'',
              Info ''rhf_external: lowest eigs of H = '' [- 4, - 3, - 2],
              dump_status False ''RHF'' ''RHF/RKS -> UHF/UKS''])"
    unfolding ex_rhf_triplet_run m by simp
  from ex_uhf_flip_rotate obtain mu where
    mu: "rotate_uhf2ghf (block_diag (fst (mo_coeff ex_uhf_flip)) (snd (mo_coeff ex_uhf_flip)))
          (mo_occ ex_uhf_flip) [1, 0] = Inr mu"
    by blast
  have runu: "uhf_external ex_davidson ex_uhf_flip True True 3 (1 / 10 ^ 4) =
        Inr (WithStatus mu False,
             [Info ''uhf_real2complex: lowest eigs of H = '' [2, 3, 4],
              dump_status True ''UHF'' ''real -> complex'',
              Info ''uhf_external: lowest eigs of H = '' [- 1, 0, 1],
              dump_status False ''UHF'' ''UHF/UKS -> GHF/GKS''])"
    unfolding ex_uhf_flip_run mu by simp
  have ch: "\<exists>hop1 hd1 hop2 hd2 v1 r3 e3.
      gen_hop_rhf_external ex_rhf_triplet True = Inr (hop1, hd1, hop2, hd2) \<and>
      ex_davidson hop2 v1 (precond hd2) (1 / 10 ^ 4) 3 = Inr r3 \<and>
      lowest_eig r3 = Some e3 \<and> e3 < - (1 / 10 ^ 5)"
    using external_result_from_extension_channel [where D = ex_davidson
        and mfs = ex_rhf_triplet and ws = True and rs = True and n = 3 and tol = "1 / 10 ^ 4",
        THEN conjunct1, rule_format, OF run]
    by (elim exE conjE) (simp, blast)
  from ex_rhf_external_run m run ch ex_uhf_external_run mu runu show ?thesis
    by blast
qed

lemma rohf_internal_status:
  "rohf_internal D mf ws True n tol = Inr (r, lg) \<Longrightarrow> \<exists>m s. r = WithStatus m s"
  using rohf_internal_ret [of D mf ws True n tol r lg] by (auto simp: ret_of_def)

text \<open>
  C4, amended. The external channel of a restricted open-shell solution is not
  implemented: \<^verbatim>\<open>rohf_external\<close> raises NotImplementedError whatever its arguments, and
  \<^verbatim>\<open>rohf_stability\<close> with \<^verbatim>\<open>external=True\<close> never returns a value. Without the internal
  channel it raises NotImplementedError at once. With the internal channel (the default)
  it runs the internal analysis first: the call fails with the error of that analysis
  if it raises, and with NotImplementedError once it has returned.
\<close>

theorem rohf_external_unsupported:
  "rohf_external D mf ws rs n tol = Inl NotImplementedError \<and>
   rohf_stability D mf False True rs n tol = Inl NotImplementedError \<and>
   rohf_stability D mf True True rs n tol =
     ebind (rohf_internal D mf True rs n tol) (\<lambda>r. Inl NotImplementedError) \<and>
   (\<forall>v. rohf_stability D mf internal True rs n tol \<noteq> Inr v)"
proof -
  have a: "rohf_external D mf ws rs n tol = Inl NotImplementedError"
    by (simp add: rohf_external_def)
  have b: "rohf_stability D mf False True rs n tol = Inl NotImplementedError"
    by (simp add: rohf_stability_def rohf_external_def)
  have c: "rohf_stability D mf True True rs n tol =
     ebind (rohf_internal D mf True rs n tol) (\<lambda>r. Inl NotImplementedError)"
  proof (cases "rohf_internal D mf True rs n tol")
    case (Inl err)
    then show ?thesis by (cases rs) (simp_all add: rohf_stability_def)
  next
    case (Inr p)
    obtain r lg where p: "p = (r, lg)" by (cases p)
    show ?thesis
    proof (cases rs)
      case True
      with Inr p rohf_internal_status [of D mf True n tol r lg]
      obtain m s where "r = WithStatus m s" by auto
      with Inr p True show ?thesis
        by (simp add: rohf_stability_def rohf_external_def unpack2_def)
    next
      case False
      with Inr p show ?thesis
        by (simp add: rohf_stability_def rohf_external_def)
    qed
  qed
  have d: "rohf_stability D mf internal True rs n tol \<noteq> Inr v" for v
  proof (cases internal)
    case True
    then show ?thesis by (cases "rohf_internal D mf True rs n tol") (simp_all add: c)
  next
    case False
    then show ?thesis by (simp add: b)
  qed
  from a b c d show ?thesis by blast
qed

theorem rohf_external_unsupported_witness:
  "rohf_stability ex_davidson ex_rhf True True True 3 (1 / 10 ^ 4) = Inl NotImplementedError \<and>
   rohf_stability ex_davidson ex_rhf True False True 3 (1 / 10 ^ 4) =
     Inr (Ret4 (Some (mo_coeff ex_rhf)) None (Some True) None,
          [Info ''rohf_internal: lowest eigs of H = '' [2, 3, 4],
           dump_status True ''RHF'' ''internal''])"
proof -
  have run: "rohf_internal ex_davidson ex_rhf True True 3 (1 / 10 ^ 4) =
     Inr (WithStatus (mo_coeff ex_rhf) True,
          [Info ''rohf_internal: lowest eigs of H = '' [2, 3, 4],
           dump_status True ''RHF'' ''internal''])"
    by code_simp
  have int: "rohf_stability ex_davidson ex_rhf True False True 3 (1 / 10 ^ 4) =
     Inr (Ret4 (Some (mo_coeff ex_rhf)) None (Some True) None,
          [Info ''rohf_internal: lowest eigs of H = '' [2, 3, 4],
           dump_status True ''RHF'' ''internal''])"
    by code_simp
  show ?thesis
    using rohf_external_unsupported [of ex_davidson ex_rhf True True 3 "1 / 10 ^ 4" True]
    unfolding run int by simp
qed

text \<open>
  C4 as stated fails for \<^verbatim>\<open>rohf_stability\<close> with both channels: the call does not
  fail at once with NotImplementedError. On the example, with a solver that raises
  ValueError, the call ends with the ValueError of the internal analysis, which has run
  the solver before the external channel was reached; without the internal channel the
  same call raises NotImplementedError and the solver is never called.
\<close>

theorem rohf_stability_runs_internal_first:
  "rohf_stability failing_davidson ex_rhf True True True 3 (1 / 10 ^ 4) = Inl ValueError \<and>
   rohf_stability failing_davidson ex_rhf True True False 3 (1 / 10 ^ 4) = Inl ValueError \<and>
   rohf_stability failing_davidson ex_rhf False True True 3 (1 / 10 ^ 4) =
     Inl NotImplementedError"
  by code_simp

text \<open>
  C7 fails in \<^verbatim>\<open>dhf_stability\<close>: it lacks the step \<^verbatim>\<open>if nroots != 1: e, v = e[0], v[0]\<close>
  of the other entry points, so with three roots the comparison of the array of
  eigenvalues with -1e-5 has no truth value and the call raises, where
  \<^verbatim>\<open>rhf_internal\<close> on the same solution and solver takes the first eigenvalue.
\<close>

theorem dhf_stability_raises_on_several_roots:
  "dhf_stability ex_davidson ex_rhf True 3 (1 / 10 ^ 4) = Inl ValueError \<and>
   rhf_internal ex_davidson ex_rhf True True 3 (1 / 10 ^ 4) =
     Inr (WithStatus (mo_coeff ex_rhf) True,
          [Info ''rhf_internal: lowest eigs of H = '' [2, 3, 4],
           dump_status True ''RHF'' ''internal''])"
  by code_simp

subsection \<open>What the solver is handed\<close>

lemma rhf_internal_call:
  assumes "rhf_internal D mf ws rs n tol = Inr (ret, lg)"
  shows "\<exists>x0 r. D (hessian_x (fst (snd (gen_g_hop mf (Some ws))))) x0
                  (precond (map (\<lambda>h. h * 2) (snd (snd (gen_g_hop mf (Some ws)))))) tol n = Inr r \<and>
          Info ''rhf_internal: lowest eigs of H = '' (eigs r) \<in> set lg"
  using assms by (clarsimp simp: rhf_internal_def Let_def ebind_Inr split_beta) blast

lemma rohf_internal_call:
  assumes "rohf_internal D mf ws rs n tol = Inr (ret, lg)"
  shows "\<exists>x0 r. D (hessian_x (fst (snd (gen_g_hop mf (Some ws))))) x0
                  (precond (map (\<lambda>h. h * 2) (snd (snd (gen_g_hop mf (Some ws)))))) tol n = Inr r \<and>
          Info ''rohf_internal: lowest eigs of H = '' (eigs r) \<in> set lg"
  using assms by (clarsimp simp: rohf_internal_def Let_def ebind_Inr split_beta) blast

lemma uhf_internal_call:
  assumes "uhf_internal D mf ws rs n tol = Inr (ret, lg)"
  shows "\<exists>x0 r. D (hessian_x (fst (snd (gen_g_hop mf (Some ws))))) x0
                  (precond (map (\<lambda>h. h * 2) (snd (snd (gen_g_hop mf (Some ws)))))) tol n = Inr r \<and>
          Info ''uhf_internal: lowest eigs of H = '' (eigs r) \<in> set lg"
  using assms by (clarsimp simp: uhf_internal_def Let_def ebind_Inr split_beta) blast

lemma ghf_real_call:
  assumes "ghf_real D mf ws rs n tol = Inr (ret, lg)"
  shows "\<exists>x0 r. D (hessian_x (fst (snd (gen_g_hop mf None)))) x0
                  (precond (map (\<lambda>h. h * 2) (snd (snd (gen_g_hop mf None))))) tol n = Inr r \<and>
          Info ''ghf_real_internal: lowest eigs of H = '' (eigs r) \<in> set lg"
  using assms by (clarsimp simp: ghf_real_def Let_def ebind_Inr split_beta) blast

lemma dhf_stability_call:
  assumes "dhf_stability D mf rs n tol = Inr (ret, lg)"
  shows "\<exists>x0 r. D (hessian_x (fst (snd (gen_g_hop mf None)))) x0
                  (precond (map (\<lambda>h. h * 2) (snd (snd (gen_g_hop mf None))))) tol n = Inr r"
  using assms by (clarsimp simp: dhf_stability_def Let_def ebind_Inr split_beta) blast

lemma ghf_complex_call:
  assumes "ghf_complex D mf rs n tol = Inr (ret, lg)"
  shows "\<exists>hop hdiag x0 r. gen_hop_ghf_complex_internal mf True = Inr (hop, hdiag) \<and>
          D hop x0 (precond hdiag) tol n = Inr r \<and>
          Info ''ghf_complex_internal: lowest eigs of H = '' (eigs r) \<in> set lg"
  using assms by (clarsimp simp: ghf_complex_def Let_def ebind_Inr) blast


text \<open>
  C5, amended. \<^verbatim>\<open>hessian_x\<close> applied to \<open>x\<close> is twice the real part of \<^verbatim>\<open>hop(x)\<close>,
  and the preconditioner over the doubled diagonal divides by the floored \<open>2 * hdiag - e\<close>.
  Each entry point that takes its operator from \<^verbatim>\<open>gen_g_hop\<close> (\<^verbatim>\<open>rhf_internal\<close>,
  \<^verbatim>\<open>rohf_internal\<close>, \<^verbatim>\<open>uhf_internal\<close>, \<^verbatim>\<open>ghf_real\<close>, \<^verbatim>\<open>dhf_stability\<close>) hands these
  two to the solver; \<^verbatim>\<open>ghf_complex\<close> hands over the operator and the diagonal of its
  own builder as they are.
\<close>

theorem internal_operator_doubled_real_part:
  "(\<forall>hop x. hessian_x hop x =
      (case hop x of Inl err \<Rightarrow> Inl err
       | Inr y \<Rightarrow> Inr (map (\<lambda>z. complex_of_real (2 * Re z)) y))) \<and>
   (\<forall>hdiag dx e x0. precond (map (\<lambda>h. h * 2) hdiag) dx e x0 =
      np_div dx (hdiagd (map (\<lambda>h. 2 * h) hdiag) e)) \<and>
   (\<forall>ret lg. rhf_internal D mf ws rs n tol = Inr (ret, lg) \<longrightarrow>
      (\<exists>x0 r. D (hessian_x (fst (snd (gen_g_hop mf (Some ws))))) x0
                 (precond (map (\<lambda>h. h * 2) (snd (snd (gen_g_hop mf (Some ws)))))) tol n = Inr r \<and>
           Info ''rhf_internal: lowest eigs of H = '' (eigs r) \<in> set lg)) \<and>
   (\<forall>ret lg. rohf_internal D mf ws rs n tol = Inr (ret, lg) \<longrightarrow>
      (\<exists>x0 r. D (hessian_x (fst (snd (gen_g_hop mf (Some ws))))) x0
                 (precond (map (\<lambda>h. h * 2) (snd (snd (gen_g_hop mf (Some ws)))))) tol n = Inr r \<and>
           Info ''rohf_internal: lowest eigs of H = '' (eigs r) \<in> set lg)) \<and>
   (\<forall>ret lg. uhf_internal D mfu ws rs n tol = Inr (ret, lg) \<longrightarrow>
      (\<exists>x0 r. D (hessian_x (fst (snd (gen_g_hop mfu (Some ws))))) x0
                 (precond (map (\<lambda>h. h * 2) (snd (snd (gen_g_hop mfu (Some ws)))))) tol n = Inr r \<and>
           Info ''uhf_internal: lowest eigs of H = '' (eigs r) \<in> set lg)) \<and>
   (\<forall>ret lg. ghf_real D mfg ws rs n tol = Inr (ret, lg) \<longrightarrow>
      (\<exists>x0 r. D (hessian_x (fst (snd (gen_g_hop mfg (None))))) x0
                 (precond (map (\<lambda>h. h * 2) (snd (snd (gen_g_hop mfg (None)))))) tol n = Inr r \<and>
           Info ''ghf_real_internal: lowest eigs of H = '' (eigs r) \<in> set lg)) \<and>
   (\<forall>ret lg. dhf_stability D mf rs n tol = Inr (ret, lg) \<longrightarrow>
      (\<exists>x0 r. D (hessian_x (fst (snd (gen_g_hop mf (None))))) x0
                 (precond (map (\<lambda>h. h * 2) (snd (snd (gen_g_hop mf (None)))))) tol n = Inr r)) \<and>
   (\<forall>ret lg. ghf_complex D mfg rs n tol = Inr (ret, lg) \<longrightarrow>
      (\<exists>hop hdiag x0 r. gen_hop_ghf_complex_internal mfg True = Inr (hop, hdiag) \<and>
         D hop x0 (precond hdiag) tol n = Inr r \<and>
         Info ''ghf_complex_internal: lowest eigs of H = '' (eigs r) \<in> set lg))"
proof -
  have h: "hessian_x hop x =
      (case hop x of Inl err \<Rightarrow> Inl err
       | Inr y \<Rightarrow> Inr (map (\<lambda>z. complex_of_real (2 * Re z)) y))" for hop x
    by (cases "hop x") (simp_all add: hessian_x_def mult.commute)
  have p: "precond (map (\<lambda>h. h * 2) hdiag) dx e x0 =
      np_div dx (hdiagd (map (\<lambda>h. 2 * h) hdiag) e)" for hdiag dx e x0
    by (simp add: precond_def mult.commute)
  show ?thesis
    apply (intro conjI allI impI)
    subgoal by (rule h)
    subgoal by (rule p)
    subgoal for ret lg by (rule rhf_internal_call [of D mf ws rs n tol ret lg])
    subgoal for ret lg by (rule rohf_internal_call [of D mf ws rs n tol ret lg])
    subgoal for ret lg by (rule uhf_internal_call [of D mfu ws rs n tol ret lg])
    subgoal for ret lg by (rule ghf_real_call [of D mfg ws rs n tol ret lg])
    subgoal for ret lg by (rule dhf_stability_call [of D mf rs n tol ret lg])
    subgoal for ret lg by (rule ghf_complex_call [of D mfg rs n tol ret lg])
    done
qed

lemma ex_rhf_internal_probe:
  "rhf_internal (probe_davidson [1] [1]) ex_rhf True True 3 (1 / 10 ^ 4) =
     Inr (WithStatus (mo_coeff ex_rhf) True,
          [Info ''rhf_internal: lowest eigs of H = '' [2, 1 / 2],
           dump_status True ''RHF'' ''internal''])"
  by code_simp

theorem internal_operator_doubled_real_part_witness:
  "rhf_internal (probe_davidson [1] [1]) ex_rhf True True 3 (1 / 10 ^ 4) =
     Inr (WithStatus (mo_coeff ex_rhf) True,
          [Info ''rhf_internal: lowest eigs of H = '' [2, 1 / 2],
           dump_status True ''RHF'' ''internal'']) \<and>
   (\<exists>x0 r. probe_davidson [1] [1] (hessian_x (fst (snd (gen_g_hop ex_rhf (Some True))))) x0
              (precond (map (\<lambda>h. h * 2) (snd (snd (gen_g_hop ex_rhf (Some True))))))
              (1 / 10 ^ 4) 3 = Inr r \<and>
            Info ''rhf_internal: lowest eigs of H = '' (eigs r)
              \<in> set [Info ''rhf_internal: lowest eigs of H = '' [2, 1 / 2],
                     dump_status True ''RHF'' ''internal''])"
  using internal_operator_doubled_real_part [where D = "probe_davidson [1] [1]" and mf = ex_rhf
      and ws = True and rs = True and n = 3 and tol = "1 / 10 ^ 4",
      THEN conjunct2, THEN conjunct2, THEN conjunct1, rule_format, OF ex_rhf_internal_probe]
    ex_rhf_internal_probe
  by blast

text \<open>
  C5 as stated fails for \<^verbatim>\<open>ghf_complex\<close>: on the example the solver is handed an
  operator that maps \<open>[1, 0]\<close> to \<open>[2, 0]\<close>, the builder's own product and not twice
  its real part \<open>[4, 0]\<close>, and a preconditioner that divides by the diagonal \<open>[2, 2]\<close>,
  not by its double.
\<close>

theorem ghf_complex_operator_not_doubled:
  "ghf_complex (probe_davidson [1, 0] [1, 1]) ex_ghf True 3 (1 / 10 ^ 4) =
     Inr (WithStatus (mo_coeff ex_ghf) True,
          [Info ''ghf_complex_internal: lowest eigs of H = '' [2, 0, 1 / 2, 1 / 2],
           dump_status True ''GHF (complex)'' ''internal'']) \<and>
   ebind (gen_hop_ghf_complex_internal ex_ghf True) (\<lambda>(hop, hdiag). hop [1, 0]) = Inr [2, 0] \<and>
   ebind (gen_hop_ghf_complex_internal ex_ghf True) (\<lambda>(hop, hdiag). hessian_x hop [1, 0])
     = Inr [4, 0] \<and>
   ebind (gen_hop_ghf_complex_internal ex_ghf True) (\<lambda>(hop, hdiag). Inr hdiag) = Inr [2, 2] \<and>
   ebind (gen_hop_ghf_complex_internal ex_ghf True)
     (\<lambda>(hop, hdiag). precond (map (\<lambda>h. h * 2) hdiag) [1, 1] 0 []) = Inr [1 / 4, 1 / 4]"
  by code_simp

subsection \<open>The symmetry projection\<close>

lemma dims_conjT [simp]: "nrows (conjT m) = ncols m" "ncols (conjT m) = nrows m"
  by (simp_all add: conjT_def)

lemma dims_transp [simp]: "nrows (transp m) = ncols m" "ncols (transp m) = nrows m"
  by (simp_all add: transp_def)

lemma dot_zeros_right: "ncols a = r \<Longrightarrow> dot a (zeros r c) = Inr (zeros (nrows a) c)"
  by (simp add: dot_def matmul_zeros_right)

lemma dot_zeros_left: "c = nrows b \<Longrightarrow> dot (zeros r c) b = Inr (zeros r (ncols b))"
  by (simp add: dot_def matmul_zeros_left)

lemma dot3_zeros_mid:
  "ncols a = r \<Longrightarrow> c = nrows b \<Longrightarrow> dot3 a (zeros r c) b = Inr (zeros (nrows a) (ncols b))"
  by (simp add: dot3_def dot_zeros_right dot_zeros_left)

lemma mask_zero_forbidden:
  "forbidden_only m x \<Longrightarrow> mask_zero x m = Inr (replicate (length m) 0)"
  by (auto simp: forbidden_only_def mask_zero_def intro!: nth_equalityI)

lemma mask_zero_replicate:
  "length m = n \<Longrightarrow> mask_zero (replicate n (0::'a::zero)) m = Inr (replicate n 0)"
  by (auto simp: mask_zero_def intro!: nth_equalityI)

lemma mask_zero_where:
  "mask_zero x m = Inr y \<Longrightarrow> zero_where m y"
  by (auto simp: mask_zero_def zero_where_def split: if_splits)

lemma reshape_forbidden:
  "forbidden_only m x \<Longrightarrow> length m = r * c \<Longrightarrow>
   ebind (reshape x r c) (apply_forbid (Some m)) = Inr (zeros r c)"
  by (simp add: reshape_def apply_forbid_def mask_zero_forbidden zeros_def forbidden_only_def)

lemma apply_forbid_zeros:
  "length m = r * c \<Longrightarrow> apply_forbid (Some m) (zeros r c) = Inr (zeros r c)"
  by (simp add: apply_forbid_def zeros_def mask_zero_replicate)

lemma apply_forbid_where:
  "apply_forbid (Some m) x = Inr y \<Longrightarrow> zero_where m (ravel y)"
  by (auto simp: apply_forbid_def ebind_Inr ravel_def dest: mask_zero_where)

lemma ravel_zeros: "ravel (zeros r c) = replicate (r * c) 0"
  by (simp add: ravel_def zeros_def)

lemma real_part_zeros: "real_part (replicate n 0) = replicate n 0"
  by (simp add: real_part_def)

lemma zero_where_real_part: "zero_where m y \<Longrightarrow> zero_where m (real_part y)"
  by (simp add: zero_where_def real_part_def)

lemma ebind_assoc_reshape:
  "ebind (reshape x r c) (\<lambda>x1. ebind (apply_forbid sf x1) f)
   = ebind (ebind (reshape x r c) (apply_forbid sf)) f"
  by (cases "reshape x r c") simp_all

lemma hop_real2complex_rhf_forbidden:
  assumes "nrows fvv = nvir" "ncols fvv = nvir" "nrows foo = nocc" "ncols foo = nocc"
    and "nrows orbv = nao" "ncols orbv = nvir" "nrows orbo = nao" "ncols orbo = nocc"
    and "length m = nvir * nocc" "forbidden_only m x"
    and "vrespz (zeros nao nao) = zeros nao nao"
  shows "hop_real2complex_rhf fvv foo orbv orbo vrespz (Some m) nvir nocc x
           = Inr (replicate (nvir * nocc) 0)"
  unfolding hop_real2complex_rhf_def ebind_assoc_reshape
  using assms
  by (simp add: reshape_forbidden dot_zeros_right dot_zeros_left dot3_zeros_mid
      mat_sub_zeros mat_add_zeros scale_zeros conjT_zeros apply_forbid_zeros ravel_zeros)

lemma hop_rhf2uhf_forbidden:
  assumes "nrows fvv = nvir" "ncols fvv = nvir" "nrows foo = nocc" "ncols foo = nocc"
    and "nrows orbv = nao" "ncols orbv = nvir" "nrows orbo = nao" "ncols orbo = nocc"
    and "length m = nvir * nocc" "forbidden_only m x"
    and "vresp1 (zeros nao nao) = zeros nao nao"
  shows "hop_rhf2uhf fvv foo orbv orbo vresp1 (Some m) nvir nocc x
           = Inr (replicate (nvir * nocc) 0)"
  unfolding hop_rhf2uhf_def ebind_assoc_reshape
  using assms
  by (simp add: reshape_forbidden dot_zeros_right dot_zeros_left dot3_zeros_mid
      mat_sub_zeros mat_add_zeros scale_zeros conjT_zeros apply_forbid_zeros ravel_zeros
      real_part_zeros)

lemma hop_real2complex_ghf_forbidden:
  assumes "nrows fvv = nvir" "ncols fvv = nvir" "nrows foo = nocc" "ncols foo = nocc"
    and "nrows orbv = nao" "ncols orbv = nvir" "nrows orbo = nao" "ncols orbo = nocc"
    and "length m = nvir * nocc" "forbidden_only m x"
    and "vrespz (zeros nao nao) = zeros nao nao"
  shows "hop_real2complex_ghf fvv foo orbv orbo vrespz (Some m) nvir nocc x
           = Inr (replicate (nvir * nocc) 0)"
  unfolding hop_real2complex_ghf_def ebind_assoc_reshape
  using assms
  by (simp add: reshape_forbidden dot_zeros_right dot_zeros_left dot3_zeros_mid
      mat_sub_zeros mat_add_zeros scale_zeros conjT_zeros apply_forbid_zeros ravel_zeros)

lemma hop_real2complex_rhf_where:
  "hop_real2complex_rhf fvv foo orbv orbo vrespz (Some m) nvir nocc x = Inr y \<Longrightarrow> zero_where m y"
  unfolding hop_real2complex_rhf_def ebind_Inr
  by (auto dest: apply_forbid_where)

lemma hop_rhf2uhf_where:
  "hop_rhf2uhf fvv foo orbv orbo vresp1 (Some m) nvir nocc x = Inr y \<Longrightarrow> zero_where m y"
  unfolding hop_rhf2uhf_def ebind_Inr
  by (auto dest!: apply_forbid_where intro: zero_where_real_part)

lemma hop_real2complex_ghf_where:
  "hop_real2complex_ghf fvv foo orbv orbo vrespz (Some m) nvir nocc x = Inr y \<Longrightarrow> zero_where m y"
  unfolding hop_real2complex_ghf_def ebind_Inr
  by (auto dest: apply_forbid_where)


lemma transp_zeros: "transp (zeros r c) = zeros c r"
proof -
  have "transp (zeros r c) = mk c r (\<lambda>i j. 0)"
    unfolding transp_def by (simp, intro mk_cong) (simp add: entry_zeros)
  then show ?thesis by (simp add: mk_zero)
qed

lemma stack2_zeros: "stack2 (zeros r c) (zeros r c) = Inr (zeros r c, zeros r c)"
  by (simp add: stack2_def)

lemma flat_forbidden_blocks:
  assumes "forbidden_only m x" "length m = r1 * c1 + r2 * c2"
  shows "apply_forbid_flat (Some m) x = Inr (replicate (r1 * c1 + r2 * c2) 0)"
    and "reshape (take (r1 * c1) (replicate (r1 * c1 + r2 * c2) (0::complex))) r1 c1 = Inr (zeros r1 c1)"
    and "reshape (drop (r1 * c1) (replicate (r1 * c1 + r2 * c2) (0::complex))) r2 c2 = Inr (zeros r2 c2)"
  using assms
  by (simp_all add: apply_forbid_flat_def mask_zero_forbidden reshape_def zeros_def)

lemma reshape_zeros: "reshape (replicate (r * c) 0) r c = Inr (zeros r c)"
  by (simp add: reshape_def zeros_def)

lemma flat_zeros_masked:
  "length m = a + b \<Longrightarrow>
   apply_forbid_flat (Some m) (replicate a (0::complex) @ replicate b 0) = Inr (replicate (a + b) 0)"
  by (simp add: apply_forbid_flat_def mask_zero_replicate replicate_add [symmetric])

lemma hop_real2complex_uhf_forbidden:
  assumes "nrows fvva = nvira" "ncols fvva = nvira" "nrows fooa = nocca" "ncols fooa = nocca"
    and "nrows fvvb = nvirb" "ncols fvvb = nvirb" "nrows foob = noccb" "ncols foob = noccb"
    and "nrows orbva = nao" "ncols orbva = nvira" "nrows orboa = nao" "ncols orboa = nocca"
    and "nrows orbvb = nao" "ncols orbvb = nvirb" "nrows orbob = nao" "ncols orbob = noccb"
    and "length m = nvira * nocca + nvirb * noccb" "forbidden_only m x"
    and "vrespz (zeros nao nao, zeros nao nao) = (zeros nao nao, zeros nao nao)"
  shows "hop_real2complex_uhf fvva fooa fvvb foob orbva orboa orbvb orbob vrespz (Some m)
           nvira nocca nvirb noccb x
           = Inr (replicate (nvira * nocca + nvirb * noccb) 0)"
  unfolding hop_real2complex_uhf_def
  using assms
  by (simp add: flat_forbidden_blocks reshape_zeros transp_zeros dot_zeros_right dot_zeros_left dot3_zeros_mid
      mat_sub_zeros mat_add_zeros conjT_zeros stack2_zeros ravel_zeros flat_zeros_masked)

lemma real_part_zeros_append:
  "real_part (replicate a 0) @ real_part (replicate b 0) = replicate a 0 @ replicate b 0"
  by (simp add: real_part_zeros)

lemma hop_uhf2ghf_forbidden:
  assumes "nrows fvva = nvira" "ncols fvva = nvira" "nrows fooa = nocca" "ncols fooa = nocca"
    and "nrows fvvb = nvirb" "ncols fvvb = nvirb" "nrows foob = noccb" "ncols foob = noccb"
    and "nrows orbva = nao" "ncols orbva = nvira" "nrows orboa = nao" "ncols orboa = nocca"
    and "nrows orbvb = nao" "ncols orbvb = nvirb" "nrows orbob = nao" "ncols orbob = noccb"
    and "length m = nvira * noccb + nvirb * nocca" "forbidden_only m x"
    and "vresp1 (zeros nao nao, zeros nao nao) = (zeros nao nao, zeros nao nao)"
  shows "hop_uhf2ghf fvva fooa fvvb foob orbva orboa orbvb orbob vresp1 (Some m)
           nvira nocca nvirb noccb x
           = Inr (replicate (nvira * noccb + nvirb * nocca) 0)"
  unfolding hop_uhf2ghf_def
  using assms
  by (simp add: flat_forbidden_blocks reshape_zeros transp_zeros dot_zeros_right dot_zeros_left dot3_zeros_mid
      mat_sub_zeros mat_add_zeros conjT_zeros stack2_zeros ravel_zeros flat_zeros_masked
      real_part_zeros)

lemma apply_forbid_flat_where:
  "apply_forbid_flat (Some m) x = Inr y \<Longrightarrow> zero_where m y"
  by (simp add: apply_forbid_flat_def mask_zero_where)

lemma hop_real2complex_uhf_where:
  "hop_real2complex_uhf fvva fooa fvvb foob orbva orboa orbvb orbob vrespz (Some m)
     nvira nocca nvirb noccb x = Inr y \<Longrightarrow> zero_where m y"
  unfolding hop_real2complex_uhf_def ebind_Inr Let_def
  by (auto dest: apply_forbid_flat_where)

lemma hop_uhf2ghf_where:
  "hop_uhf2ghf fvva fooa fvvb foob orbva orboa orbvb orbob vresp1 (Some m)
     nvira nocca nvirb noccb x = Inr y \<Longrightarrow> zero_where m y"
  unfolding hop_uhf2ghf_def ebind_Inr Let_def
  by (auto dest: apply_forbid_flat_where)


lemma cols_dims: "cols c idx = Inr m \<Longrightarrow> nrows m = nrows c \<and> ncols m = length idx"
  by (auto simp: cols_def split: if_splits)

lemma submat_dims: "submat f ri ci = Inr m \<Longrightarrow> nrows m = length ri \<and> ncols m = length ci"
  by (auto simp: submat_def split: if_splits)

lemma sym_forbid_of_length:
  "sym_forbid_of sv vi so oi = Inr m \<Longrightarrow> length m = length vi * length oi"
  by (auto simp: sym_forbid_of_def split: if_splits)

lemma gen_hop_rhf_external_sym:
  assumes g: "gen_hop_rhf_external mf True = Inr (hop1, hd1, hop2, hd2)" and sy: "symmetry mf"
  shows "\<exists>fvv foo orbv orbo m.
     rhf_forbid mf = Inr m \<and>
     hop1 = hop_real2complex_rhf fvv foo orbv orbo (gen_response mf [Singlet None, Hermi 2])
              (Some m) (length (where_idx (\<lambda>n. n = 0) (mo_occ mf)))
              (length (where_idx (\<lambda>n. n = 2) (mo_occ mf))) \<and>
     hop2 = hop_rhf2uhf fvv foo orbv orbo (gen_response mf [Singlet (Some False), Hermi 1])
              (Some m) (length (where_idx (\<lambda>n. n = 0) (mo_occ mf)))
              (length (where_idx (\<lambda>n. n = 2) (mo_occ mf))) \<and>
     nrows fvv = length (where_idx (\<lambda>n. n = 0) (mo_occ mf)) \<and>
     ncols fvv = length (where_idx (\<lambda>n. n = 0) (mo_occ mf)) \<and>
     nrows foo = length (where_idx (\<lambda>n. n = 2) (mo_occ mf)) \<and>
     ncols foo = length (where_idx (\<lambda>n. n = 2) (mo_occ mf)) \<and>
     nrows orbv = nrows (mo_coeff mf) \<and>
     ncols orbv = length (where_idx (\<lambda>n. n = 0) (mo_occ mf)) \<and>
     nrows orbo = nrows (mo_coeff mf) \<and>
     ncols orbo = length (where_idx (\<lambda>n. n = 2) (mo_occ mf))"
  using g sy unfolding gen_hop_rhf_external_def Let_def rhf_forbid_def
  by (clarsimp simp: ebind_Inr) (blast dest: cols_dims submat_dims)


lemma gen_hop_ghf_real2complex_sym:
  assumes g: "gen_hop_ghf_real2complex mf True = Inr (hop1, hd1)" and sy: "symmetry mf"
  shows "\<exists>fvv foo orbv orbo m.
     ghf_forbid mf = Inr m \<and>
     hop1 = hop_real2complex_ghf fvv foo orbv orbo (gen_response mf [With_j False, Hermi 0])
              (Some m) (length (where_idx (\<lambda>n. n = 0) (mo_occ mf)))
              (length (where_idx (\<lambda>n. n = 1) (mo_occ mf))) \<and>
     nrows fvv = length (where_idx (\<lambda>n. n = 0) (mo_occ mf)) \<and>
     ncols fvv = length (where_idx (\<lambda>n. n = 0) (mo_occ mf)) \<and>
     nrows foo = length (where_idx (\<lambda>n. n = 1) (mo_occ mf)) \<and>
     ncols foo = length (where_idx (\<lambda>n. n = 1) (mo_occ mf)) \<and>
     nrows orbv = nrows (mo_coeff mf) \<and>
     ncols orbv = length (where_idx (\<lambda>n. n = 0) (mo_occ mf)) \<and>
     nrows orbo = nrows (mo_coeff mf) \<and>
     ncols orbo = length (where_idx (\<lambda>n. n = 1) (mo_occ mf))"
  using g sy unfolding gen_hop_ghf_real2complex_def Let_def ghf_forbid_def
  by (clarsimp simp: ebind_Inr) (blast dest: cols_dims submat_dims)

lemma mat_add_dims: "mat_add a b = Inr m \<Longrightarrow> nrows m = nrows a \<and> ncols m = ncols a"
  by (auto simp: mat_add_def split: if_splits)

lemma dot3_dims: "dot3 a b c = Inr m \<Longrightarrow> ncols a = nrows b"
  by (auto simp: dot3_def dot_def ebind_Inr split: if_splits)

lemma gen_hop_uhf_external_sym:
  assumes g: "gen_hop_uhf_external mf True = Inr (hop1, hd1, hop2, hd2)" and sy: "symmetry mf"
  shows "\<exists>fvva fooa fvvb foob orbva orboa orbvb orbob m1 m2.
     uhf_forbid1 mf = Inr m1 \<and> uhf_forbid2 mf = Inr m2 \<and>
     hop1 = hop_real2complex_uhf fvva fooa fvvb foob orbva orboa orbvb orbob
              (gen_response mf [With_j False, Hermi 2]) (Some m1)
              (length (where_idx (\<lambda>n. n = 0) (fst (mo_occ mf)))) (length (where_idx (\<lambda>n. n > 0) (fst (mo_occ mf)))) (length (where_idx (\<lambda>n. n = 0) (snd (mo_occ mf)))) (length (where_idx (\<lambda>n. n > 0) (snd (mo_occ mf)))) \<and>
     hop2 = hop_uhf2ghf fvva fooa fvvb foob orbva orboa orbvb orbob
              (gen_response mf [With_j False, Hermi 0]) (Some m2)
              (length (where_idx (\<lambda>n. n = 0) (fst (mo_occ mf)))) (length (where_idx (\<lambda>n. n > 0) (fst (mo_occ mf)))) (length (where_idx (\<lambda>n. n = 0) (snd (mo_occ mf)))) (length (where_idx (\<lambda>n. n > 0) (snd (mo_occ mf)))) \<and>
     nrows fvva = length (where_idx (\<lambda>n. n = 0) (fst (mo_occ mf))) \<and> ncols fvva = length (where_idx (\<lambda>n. n = 0) (fst (mo_occ mf))) \<and>
     nrows fooa = length (where_idx (\<lambda>n. n > 0) (fst (mo_occ mf))) \<and> ncols fooa = length (where_idx (\<lambda>n. n > 0) (fst (mo_occ mf))) \<and>
     nrows fvvb = length (where_idx (\<lambda>n. n = 0) (snd (mo_occ mf))) \<and> ncols fvvb = length (where_idx (\<lambda>n. n = 0) (snd (mo_occ mf))) \<and>
     nrows foob = length (where_idx (\<lambda>n. n > 0) (snd (mo_occ mf))) \<and> ncols foob = length (where_idx (\<lambda>n. n > 0) (snd (mo_occ mf))) \<and>
     nrows orbva = nrows (fst (mo_coeff mf)) \<and> ncols orbva = length (where_idx (\<lambda>n. n = 0) (fst (mo_occ mf))) \<and>
     nrows orboa = nrows (fst (mo_coeff mf)) \<and> ncols orboa = length (where_idx (\<lambda>n. n > 0) (fst (mo_occ mf))) \<and>
     nrows orbvb = nrows (fst (mo_coeff mf)) \<and> ncols orbvb = length (where_idx (\<lambda>n. n = 0) (snd (mo_occ mf))) \<and>
     nrows orbob = nrows (fst (mo_coeff mf)) \<and> ncols orbob = length (where_idx (\<lambda>n. n > 0) (snd (mo_occ mf))) \<and>
     length m1 = length (where_idx (\<lambda>n. n = 0) (fst (mo_occ mf))) * length (where_idx (\<lambda>n. n > 0) (fst (mo_occ mf))) + length (where_idx (\<lambda>n. n = 0) (snd (mo_occ mf))) * length (where_idx (\<lambda>n. n > 0) (snd (mo_occ mf))) \<and>
     length m2 = length (where_idx (\<lambda>n. n = 0) (fst (mo_occ mf))) * length (where_idx (\<lambda>n. n > 0) (snd (mo_occ mf))) + length (where_idx (\<lambda>n. n = 0) (snd (mo_occ mf))) * length (where_idx (\<lambda>n. n > 0) (fst (mo_occ mf)))"
proof -
  from g sy obtain orboa orbob orbva orbvb fa fb faoa faob focka fockb fooa fvva foob fvvb
      fab fba sfa sfb where
    c: "cols (fst (mo_coeff mf)) (where_idx (\<lambda>n. n > 0) (fst (mo_occ mf))) = Inr orboa" "cols (snd (mo_coeff mf)) (where_idx (\<lambda>n. n > 0) (snd (mo_occ mf))) = Inr orbob"
       "cols (fst (mo_coeff mf)) (where_idx (\<lambda>n. n = 0) (fst (mo_occ mf))) = Inr orbva" "cols (snd (mo_coeff mf)) (where_idx (\<lambda>n. n = 0) (snd (mo_occ mf))) = Inr orbvb"
    and f1: "sym_forbid_of (fst (get_orbsym mf)) (where_idx (\<lambda>n. n = 0) (fst (mo_occ mf))) (fst (get_orbsym mf)) (where_idx (\<lambda>n. n > 0) (fst (mo_occ mf))) = Inr sfa"
            "sym_forbid_of (snd (get_orbsym mf)) (where_idx (\<lambda>n. n = 0) (snd (mo_occ mf))) (snd (get_orbsym mf)) (where_idx (\<lambda>n. n > 0) (snd (mo_occ mf))) = Inr sfb"
    and ao: "mat_add (get_hcore mf) (fst (get_veff mf (make_rdm1 mf (mo_coeff mf) (mo_occ mf)))) = Inr faoa"
            "mat_add (get_hcore mf) (snd (get_veff mf (make_rdm1 mf (mo_coeff mf) (mo_occ mf)))) = Inr faob"
    and fk: "dot3 (conjT (fst (mo_coeff mf))) faoa (fst (mo_coeff mf)) = Inr focka"
            "dot3 (conjT (snd (mo_coeff mf))) faob (snd (mo_coeff mf)) = Inr fockb"
    and sb: "submat focka (where_idx (\<lambda>n. n > 0) (fst (mo_occ mf))) (where_idx (\<lambda>n. n > 0) (fst (mo_occ mf))) = Inr fooa" "submat focka (where_idx (\<lambda>n. n = 0) (fst (mo_occ mf))) (where_idx (\<lambda>n. n = 0) (fst (mo_occ mf))) = Inr fvva"
            "submat fockb (where_idx (\<lambda>n. n > 0) (snd (mo_occ mf))) (where_idx (\<lambda>n. n > 0) (snd (mo_occ mf))) = Inr foob" "submat fockb (where_idx (\<lambda>n. n = 0) (snd (mo_occ mf))) (where_idx (\<lambda>n. n = 0) (snd (mo_occ mf))) = Inr fvvb"
    and f2: "sym_forbid_of (fst (get_orbsym mf)) (where_idx (\<lambda>n. n = 0) (fst (mo_occ mf))) (snd (get_orbsym mf)) (where_idx (\<lambda>n. n > 0) (snd (mo_occ mf))) = Inr fab"
            "sym_forbid_of (snd (get_orbsym mf)) (where_idx (\<lambda>n. n = 0) (snd (mo_occ mf))) (fst (get_orbsym mf)) (where_idx (\<lambda>n. n > 0) (fst (mo_occ mf))) = Inr fba"
    and h1: "hop1 = hop_real2complex_uhf fvva fooa fvvb foob orbva orboa orbvb orbob
              (gen_response mf [With_j False, Hermi 2]) (Some (sfa @ sfb))
              (length (where_idx (\<lambda>n. n = 0) (fst (mo_occ mf)))) (length (where_idx (\<lambda>n. n > 0) (fst (mo_occ mf)))) (length (where_idx (\<lambda>n. n = 0) (snd (mo_occ mf)))) (length (where_idx (\<lambda>n. n > 0) (snd (mo_occ mf))))"
    and h2: "hop2 = hop_uhf2ghf fvva fooa fvvb foob orbva orboa orbvb orbob
              (gen_response mf [With_j False, Hermi 0]) (Some (fab @ fba))
              (length (where_idx (\<lambda>n. n = 0) (fst (mo_occ mf)))) (length (where_idx (\<lambda>n. n > 0) (fst (mo_occ mf)))) (length (where_idx (\<lambda>n. n = 0) (snd (mo_occ mf)))) (length (where_idx (\<lambda>n. n > 0) (snd (mo_occ mf))))"
    unfolding gen_hop_uhf_external_def Let_def
    by (clarsimp simp: ebind_Inr)
  have na: "nrows (snd (mo_coeff mf)) = nrows (fst (mo_coeff mf))"
    using mat_add_dims [OF ao(1)] mat_add_dims [OF ao(2)] dot3_dims [OF fk(1)] dot3_dims [OF fk(2)]
    by simp
  have m1: "uhf_forbid1 mf = Inr (sfa @ sfb)" and m2: "uhf_forbid2 mf = Inr (fab @ fba)"
    by (simp_all add: uhf_forbid1_def uhf_forbid2_def f1 f2)
  show ?thesis
    apply (rule exI [of _ fvva], rule exI [of _ fooa], rule exI [of _ fvvb],
        rule exI [of _ foob], rule exI [of _ orbva], rule exI [of _ orboa],
        rule exI [of _ orbvb], rule exI [of _ orbob], rule exI [of _ "sfa @ sfb"],
        rule exI [of _ "fab @ fba"])
    using m1 m2 h1 h2 na cols_dims [OF c(1)] cols_dims [OF c(2)] cols_dims [OF c(3)]
      cols_dims [OF c(4)] submat_dims [OF sb(1)] submat_dims [OF sb(2)] submat_dims [OF sb(3)]
      submat_dims [OF sb(4)] sym_forbid_of_length [OF f1(1)] sym_forbid_of_length [OF f1(2)]
      sym_forbid_of_length [OF f2(1)] sym_forbid_of_length [OF f2(2)]
    by simp
qed


text \<open>
  C6. With symmetry enabled (\<^verbatim>\<open>with_symmetry\<close> true and \<^verbatim>\<open>mol.symmetry\<close> set), the
  operators of the external channels, as the builders of RHF, UHF and real GHF return
  them, map every trial vector whose nonzero entries lie only at symmetry-forbidden
  positions to the zero vector, provided the response functions map the zero density to
  the zero potential; and whatever the trial vector, every entry of a product at a
  forbidden position is zero.
\<close>

theorem symmetry_projection:
  "(gen_hop_rhf_external mf True = Inr (hop1, hd1, hop2, hd2) \<and> symmetry mf \<and>
    (\<forall>kw. gen_response mf kw (zeros (nrows (mo_coeff mf)) (nrows (mo_coeff mf)))
            = zeros (nrows (mo_coeff mf)) (nrows (mo_coeff mf)))
    \<longrightarrow> (\<exists>m. rhf_forbid mf = Inr m \<and>
          (\<forall>x. (forbidden_only m x \<longrightarrow>
                  hop1 x = Inr (replicate (length m) 0) \<and>
                  hop2 x = Inr (replicate (length m) 0)) \<and>
               (\<forall>y. hop1 x = Inr y \<or> hop2 x = Inr y \<longrightarrow> zero_where m y)))) \<and>
   (gen_hop_uhf_external mfu True = Inr (hop1u, hd1u, hop2u, hd2u) \<and> symmetry mfu \<and>
    (\<forall>kw. gen_response mfu kw
             (zeros (nrows (fst (mo_coeff mfu))) (nrows (fst (mo_coeff mfu))),
              zeros (nrows (fst (mo_coeff mfu))) (nrows (fst (mo_coeff mfu))))
            = (zeros (nrows (fst (mo_coeff mfu))) (nrows (fst (mo_coeff mfu))),
               zeros (nrows (fst (mo_coeff mfu))) (nrows (fst (mo_coeff mfu)))))
    \<longrightarrow> (\<exists>m1 m2. uhf_forbid1 mfu = Inr m1 \<and> uhf_forbid2 mfu = Inr m2 \<and>
          (\<forall>x. (forbidden_only m1 x \<longrightarrow> hop1u x = Inr (replicate (length m1) 0)) \<and>
               (forbidden_only m2 x \<longrightarrow> hop2u x = Inr (replicate (length m2) 0)) \<and>
               (\<forall>y. hop1u x = Inr y \<longrightarrow> zero_where m1 y) \<and>
               (\<forall>y. hop2u x = Inr y \<longrightarrow> zero_where m2 y)))) \<and>
   (gen_hop_ghf_real2complex mfg True = Inr (hopg, hdg) \<and> symmetry mfg \<and>
    (\<forall>kw. gen_response mfg kw (zeros (nrows (mo_coeff mfg)) (nrows (mo_coeff mfg)))
            = zeros (nrows (mo_coeff mfg)) (nrows (mo_coeff mfg)))
    \<longrightarrow> (\<exists>m. ghf_forbid mfg = Inr m \<and>
          (\<forall>x. (forbidden_only m x \<longrightarrow> hopg x = Inr (replicate (length m) 0)) \<and>
               (\<forall>y. hopg x = Inr y \<longrightarrow> zero_where m y))))"
proof (intro conjI impI)
  assume a: "gen_hop_rhf_external mf True = Inr (hop1, hd1, hop2, hd2) \<and> symmetry mf \<and>
    (\<forall>kw. gen_response mf kw (zeros (nrows (mo_coeff mf)) (nrows (mo_coeff mf)))
            = zeros (nrows (mo_coeff mf)) (nrows (mo_coeff mf)))"
  from gen_hop_rhf_external_sym [of mf hop1 hd1 hop2 hd2] a
  obtain fvv foo orbv orbo m where
    m: "rhf_forbid mf = Inr m"
    and h1: "hop1 = hop_real2complex_rhf fvv foo orbv orbo (gen_response mf [Singlet None, Hermi 2])
              (Some m) (length (where_idx (\<lambda>n. n = 0) (mo_occ mf)))
              (length (where_idx (\<lambda>n. n = 2) (mo_occ mf)))"
    and h2: "hop2 = hop_rhf2uhf fvv foo orbv orbo (gen_response mf [Singlet (Some False), Hermi 1])
              (Some m) (length (where_idx (\<lambda>n. n = 0) (mo_occ mf)))
              (length (where_idx (\<lambda>n. n = 2) (mo_occ mf)))"
    and sh: "nrows fvv = length (where_idx (\<lambda>n. n = 0) (mo_occ mf))"
      "ncols fvv = length (where_idx (\<lambda>n. n = 0) (mo_occ mf))"
      "nrows foo = length (where_idx (\<lambda>n. n = 2) (mo_occ mf))"
      "ncols foo = length (where_idx (\<lambda>n. n = 2) (mo_occ mf))"
      "nrows orbv = nrows (mo_coeff mf)"
      "ncols orbv = length (where_idx (\<lambda>n. n = 0) (mo_occ mf))"
      "nrows orbo = nrows (mo_coeff mf)"
      "ncols orbo = length (where_idx (\<lambda>n. n = 2) (mo_occ mf))"
    by blast
  have lm: "length m = length (where_idx (\<lambda>n. n = 0) (mo_occ mf)) *
                       length (where_idx (\<lambda>n. n = 2) (mo_occ mf))"
    using m by (simp add: rhf_forbid_def sym_forbid_of_length)
  have z: "forbidden_only m x \<Longrightarrow>
             hop1 x = Inr (replicate (length m) 0) \<and> hop2 x = Inr (replicate (length m) 0)" for x
    unfolding h1 h2 lm
    using hop_real2complex_rhf_forbidden [OF sh lm, of x]
      hop_rhf2uhf_forbidden [OF sh lm, of x] a
    by simp
  have w: "hop1 x = Inr y \<or> hop2 x = Inr y \<Longrightarrow> zero_where m y" for x y
    unfolding h1 h2 using hop_real2complex_rhf_where hop_rhf2uhf_where by blast
  show "\<exists>m. rhf_forbid mf = Inr m \<and>
          (\<forall>x. (forbidden_only m x \<longrightarrow>
                  hop1 x = Inr (replicate (length m) 0) \<and>
                  hop2 x = Inr (replicate (length m) 0)) \<and>
               (\<forall>y. hop1 x = Inr y \<or> hop2 x = Inr y \<longrightarrow> zero_where m y))"
    using m z w by blast
next
  assume a: "gen_hop_uhf_external mfu True = Inr (hop1u, hd1u, hop2u, hd2u) \<and> symmetry mfu \<and>
    (\<forall>kw. gen_response mfu kw
             (zeros (nrows (fst (mo_coeff mfu))) (nrows (fst (mo_coeff mfu))),
              zeros (nrows (fst (mo_coeff mfu))) (nrows (fst (mo_coeff mfu))))
            = (zeros (nrows (fst (mo_coeff mfu))) (nrows (fst (mo_coeff mfu))),
               zeros (nrows (fst (mo_coeff mfu))) (nrows (fst (mo_coeff mfu)))))"
  from gen_hop_uhf_external_sym [of mfu hop1u hd1u hop2u hd2u] a
  obtain fvva fooa fvvb foob orbva orboa orbvb orbob m1 m2 where
    m: "uhf_forbid1 mfu = Inr m1" "uhf_forbid2 mfu = Inr m2"
    and h1: "hop1u = hop_real2complex_uhf fvva fooa fvvb foob orbva orboa orbvb orbob
              (gen_response mfu [With_j False, Hermi 2]) (Some m1)
              (length (where_idx (\<lambda>n. n = 0) (fst (mo_occ mfu))))
              (length (where_idx (\<lambda>n. n > 0) (fst (mo_occ mfu))))
              (length (where_idx (\<lambda>n. n = 0) (snd (mo_occ mfu))))
              (length (where_idx (\<lambda>n. n > 0) (snd (mo_occ mfu))))"
    and h2: "hop2u = hop_uhf2ghf fvva fooa fvvb foob orbva orboa orbvb orbob
              (gen_response mfu [With_j False, Hermi 0]) (Some m2)
              (length (where_idx (\<lambda>n. n = 0) (fst (mo_occ mfu))))
              (length (where_idx (\<lambda>n. n > 0) (fst (mo_occ mfu))))
              (length (where_idx (\<lambda>n. n = 0) (snd (mo_occ mfu))))
              (length (where_idx (\<lambda>n. n > 0) (snd (mo_occ mfu))))"
    and sh: "nrows fvva = length (where_idx (\<lambda>n. n = 0) (fst (mo_occ mfu)))"
      "ncols fvva = length (where_idx (\<lambda>n. n = 0) (fst (mo_occ mfu)))"
      "nrows fooa = length (where_idx (\<lambda>n. n > 0) (fst (mo_occ mfu)))"
      "ncols fooa = length (where_idx (\<lambda>n. n > 0) (fst (mo_occ mfu)))"
      "nrows fvvb = length (where_idx (\<lambda>n. n = 0) (snd (mo_occ mfu)))"
      "ncols fvvb = length (where_idx (\<lambda>n. n = 0) (snd (mo_occ mfu)))"
      "nrows foob = length (where_idx (\<lambda>n. n > 0) (snd (mo_occ mfu)))"
      "ncols foob = length (where_idx (\<lambda>n. n > 0) (snd (mo_occ mfu)))"
      "nrows orbva = nrows (fst (mo_coeff mfu))"
      "ncols orbva = length (where_idx (\<lambda>n. n = 0) (fst (mo_occ mfu)))"
      "nrows orboa = nrows (fst (mo_coeff mfu))"
      "ncols orboa = length (where_idx (\<lambda>n. n > 0) (fst (mo_occ mfu)))"
      "nrows orbvb = nrows (fst (mo_coeff mfu))"
      "ncols orbvb = length (where_idx (\<lambda>n. n = 0) (snd (mo_occ mfu)))"
      "nrows orbob = nrows (fst (mo_coeff mfu))"
      "ncols orbob = length (where_idx (\<lambda>n. n > 0) (snd (mo_occ mfu)))"
    and l1: "length m1 = length (where_idx (\<lambda>n. n = 0) (fst (mo_occ mfu))) *
                         length (where_idx (\<lambda>n. n > 0) (fst (mo_occ mfu))) +
                         length (where_idx (\<lambda>n. n = 0) (snd (mo_occ mfu))) *
                         length (where_idx (\<lambda>n. n > 0) (snd (mo_occ mfu)))"
    and l2: "length m2 = length (where_idx (\<lambda>n. n = 0) (fst (mo_occ mfu))) *
                         length (where_idx (\<lambda>n. n > 0) (snd (mo_occ mfu))) +
                         length (where_idx (\<lambda>n. n = 0) (snd (mo_occ mfu))) *
                         length (where_idx (\<lambda>n. n > 0) (fst (mo_occ mfu)))"
    by blast
  have z1: "forbidden_only m1 x \<Longrightarrow> hop1u x = Inr (replicate (length m1) 0)" for x
    unfolding h1 l1 using hop_real2complex_uhf_forbidden [OF sh l1, of x] a by simp
  have z2: "forbidden_only m2 x \<Longrightarrow> hop2u x = Inr (replicate (length m2) 0)" for x
    unfolding h2 l2 using hop_uhf2ghf_forbidden [OF sh l2, of x] a by simp
  have w1: "hop1u x = Inr y \<Longrightarrow> zero_where m1 y" for x y
    unfolding h1 by (rule hop_real2complex_uhf_where)
  have w2: "hop2u x = Inr y \<Longrightarrow> zero_where m2 y" for x y
    unfolding h2 by (rule hop_uhf2ghf_where)
  show "\<exists>m1 m2. uhf_forbid1 mfu = Inr m1 \<and> uhf_forbid2 mfu = Inr m2 \<and>
          (\<forall>x. (forbidden_only m1 x \<longrightarrow> hop1u x = Inr (replicate (length m1) 0)) \<and>
               (forbidden_only m2 x \<longrightarrow> hop2u x = Inr (replicate (length m2) 0)) \<and>
               (\<forall>y. hop1u x = Inr y \<longrightarrow> zero_where m1 y) \<and>
               (\<forall>y. hop2u x = Inr y \<longrightarrow> zero_where m2 y))"
    using m z1 z2 w1 w2 by blast
next
  assume a: "gen_hop_ghf_real2complex mfg True = Inr (hopg, hdg) \<and> symmetry mfg \<and>
    (\<forall>kw. gen_response mfg kw (zeros (nrows (mo_coeff mfg)) (nrows (mo_coeff mfg)))
            = zeros (nrows (mo_coeff mfg)) (nrows (mo_coeff mfg)))"
  from gen_hop_ghf_real2complex_sym [of mfg hopg hdg] a
  obtain fvv foo orbv orbo m where
    m: "ghf_forbid mfg = Inr m"
    and h1: "hopg = hop_real2complex_ghf fvv foo orbv orbo (gen_response mfg [With_j False, Hermi 0])
              (Some m) (length (where_idx (\<lambda>n. n = 0) (mo_occ mfg)))
              (length (where_idx (\<lambda>n. n = 1) (mo_occ mfg)))"
    and sh: "nrows fvv = length (where_idx (\<lambda>n. n = 0) (mo_occ mfg))"
      "ncols fvv = length (where_idx (\<lambda>n. n = 0) (mo_occ mfg))"
      "nrows foo = length (where_idx (\<lambda>n. n = 1) (mo_occ mfg))"
      "ncols foo = length (where_idx (\<lambda>n. n = 1) (mo_occ mfg))"
      "nrows orbv = nrows (mo_coeff mfg)"
      "ncols orbv = length (where_idx (\<lambda>n. n = 0) (mo_occ mfg))"
      "nrows orbo = nrows (mo_coeff mfg)"
      "ncols orbo = length (where_idx (\<lambda>n. n = 1) (mo_occ mfg))"
    by blast
  have lm: "length m = length (where_idx (\<lambda>n. n = 0) (mo_occ mfg)) *
                       length (where_idx (\<lambda>n. n = 1) (mo_occ mfg))"
    using m by (simp add: ghf_forbid_def sym_forbid_of_length)
  have z: "forbidden_only m x \<Longrightarrow> hopg x = Inr (replicate (length m) 0)" for x
    unfolding h1 lm using hop_real2complex_ghf_forbidden [OF sh lm, of x] a by simp
  have w: "hopg x = Inr y \<Longrightarrow> zero_where m y" for x y
    unfolding h1 by (rule hop_real2complex_ghf_where)
  show "\<exists>m. ghf_forbid mfg = Inr m \<and>
          (\<forall>x. (forbidden_only m x \<longrightarrow> hopg x = Inr (replicate (length m) 0)) \<and>
               (\<forall>y. hopg x = Inr y \<longrightarrow> zero_where m y))"
    using m z w by blast
qed


lemma ex_rhf_sym_builds:
  "(case gen_hop_rhf_external ex_rhf_sym True of Inl err \<Rightarrow> False | Inr p \<Rightarrow> True)"
  by code_simp

lemma ex_rhf_sym_forbid: "rhf_forbid ex_rhf_sym = Inr [True]"
  by code_simp

lemma ex_sym_runs:
  "ebind (gen_hop_rhf_external ex_rhf True) (\<lambda>(hop1, hd1, hop2, hd2). hop1 [5]) = Inr [- 20]"
  "ebind (gen_hop_uhf_external ex_uhf_sym True) (\<lambda>(hop1, hd1, hop2, hd2). hop1 [5, 7]) = Inr [0, 0]"
  "ebind (gen_hop_uhf_external ex_uhf_sym True) (\<lambda>(hop1, hd1, hop2, hd2). hop2 [5, 7]) = Inr [0, 0]"
  "ebind (gen_hop_ghf_real2complex ex_ghf_sym True) (\<lambda>(hop1, hd1). hop1 [5]) = Inr [0]"
  by code_simp+

theorem symmetry_projection_witness:
  "symmetry ex_rhf_sym \<and> rhf_forbid ex_rhf_sym = Inr [True] \<and> forbidden_only [True] [5] \<and>
   ebind (gen_hop_rhf_external ex_rhf_sym True) (\<lambda>(hop1, hd1, hop2, hd2). hop1 [5]) = Inr [0] \<and>
   ebind (gen_hop_rhf_external ex_rhf_sym True) (\<lambda>(hop1, hd1, hop2, hd2). hop2 [5]) = Inr [0] \<and>
   ebind (gen_hop_rhf_external ex_rhf True) (\<lambda>(hop1, hd1, hop2, hd2). hop1 [5]) = Inr [- 20] \<and>
   ebind (gen_hop_uhf_external ex_uhf_sym True) (\<lambda>(hop1, hd1, hop2, hd2). hop1 [5, 7])
     = Inr [0, 0] \<and>
   ebind (gen_hop_uhf_external ex_uhf_sym True) (\<lambda>(hop1, hd1, hop2, hd2). hop2 [5, 7])
     = Inr [0, 0] \<and>
   ebind (gen_hop_ghf_real2complex ex_ghf_sym True) (\<lambda>(hop1, hd1). hop1 [5]) = Inr [0]"
proof -
  obtain hop1 hd1 hop2 hd2 where
    g: "gen_hop_rhf_external ex_rhf_sym True = Inr (hop1, hd1, hop2, hd2)"
    using ex_rhf_sym_builds
    by (cases "gen_hop_rhf_external ex_rhf_sym True") (auto split: sum.splits)
  have sy: "symmetry ex_rhf_sym"
    by (simp add: ex_rhf_sym_def)
  have resp: "\<forall>kw. gen_response ex_rhf_sym kw
                (zeros (nrows (mo_coeff ex_rhf_sym)) (nrows (mo_coeff ex_rhf_sym)))
              = zeros (nrows (mo_coeff ex_rhf_sym)) (nrows (mo_coeff ex_rhf_sym))"
    by (simp add: ex_rhf_sym_def ex_rhf_def scale_zeros)
  have fo: "forbidden_only [True] [5]"
    by (simp add: forbidden_only_def)
  from symmetry_projection [where mf = ex_rhf_sym and ?hop1.0 = hop1 and ?hd1.0 = hd1
      and ?hop2.0 = hop2 and ?hd2.0 = hd2, THEN conjunct1, rule_format, OF conjI [OF g conjI [OF sy resp]]]
  obtain m where m: "rhf_forbid ex_rhf_sym = Inr m"
    and z: "\<And>x. forbidden_only m x \<Longrightarrow>
              hop1 x = Inr (replicate (length m) 0) \<and> hop2 x = Inr (replicate (length m) 0)"
    by blast
  have "m = [True]" using m ex_rhf_sym_forbid by simp
  with z [of "[5]"] fo have "hop1 [5] = Inr [0]" "hop2 [5] = Inr [0]" by simp_all
  then show ?thesis
    using sy fo ex_rhf_sym_forbid ex_sym_runs by (simp add: g)
qed

end
